(* ===== verification/Gh_Prelude.thy ===== *)
theory Gh_Prelude
  imports Main "HOL-Library.Sublist"
begin

text \<open>
  Shared vocabulary of the development: the fact collections the component
  theories fill and unfold, the text type of command lines, the double-quote
  character that the command templates of \<^verbatim>\<open>src/src/index.ts\<close> put around
  caller-supplied text, and the decimal rendering of a natural number, which is
  what a JavaScript template literal produces for an integral number up to
  \<open>2 ^ 53\<close>.  The lemmas on the decimal rendering (digits only, no leading
  zero, read back by \<open>parse_decimal\<close>, injective) are what the command
  theorems need to say that a pull-request number can be recovered from the
  command line built for it.
\<close>

section \<open>Fact collections\<close>

named_theorems js_defs \<open>definitions of the JavaScript primitives the source uses\<close>
named_theorems validator_defs \<open>definitions of the four argument validators\<close>
named_theorems command_defs \<open>definitions of the four command builders\<close>
named_theorems handler_defs \<open>definitions of the request handler and what it calls\<close>

section \<open>Command text\<close>

type_synonym command = string

abbreviation dquote :: char where
  "dquote \<equiv> CHR 0x22"

definition quoted :: "string \<Rightarrow> string" where
  "quoted s = dquote # s @ [dquote]"

lemma quoted_inject [simp]: "quoted s = quoted t \<longleftrightarrow> s = t"
  by (simp add: quoted_def)

lemma length_quoted [simp]: "length (quoted s) = length s + 2"
  by (simp add: quoted_def)

lemma quoted_sublist [simp]: "sublist s (quoted s)"
  unfolding quoted_def by (metis append_Cons append_Nil sublist_appendI)

lemma neq_if_length_less: "length xs < length ys \<Longrightarrow> ys \<noteq> xs"
  by auto

section \<open>Decimal rendering of natural numbers\<close>

definition digit_char :: "nat \<Rightarrow> char" where
  "digit_char d = char_of (48 + d)"

definition is_digit :: "char \<Rightarrow> bool" where
  "is_digit c \<longleftrightarrow> 48 \<le> (of_char c :: nat) \<and> (of_char c :: nat) \<le> 57"

definition digit_val :: "char \<Rightarrow> nat" where
  "digit_val c = of_char c - 48"

fun decimal :: "nat \<Rightarrow> string" where
  "decimal n = (if n < 10 then [digit_char n] else decimal (n div 10) @ [digit_char (n mod 10)])"

declare decimal.simps [simp del]

definition parse_decimal :: "string \<Rightarrow> nat" where
  "parse_decimal s = foldl (\<lambda>acc c. 10 * acc + digit_val c) 0 s"

lemma digit_val_digit_char [simp]: "d < 10 \<Longrightarrow> digit_val (digit_char d) = d"
  by (simp add: digit_val_def digit_char_def)

lemma is_digit_digit_char [simp]: "d < 10 \<Longrightarrow> is_digit (digit_char d)"
  by (simp add: is_digit_def digit_char_def)

lemma digit_char_inject: "d < 10 \<Longrightarrow> e < 10 \<Longrightarrow> digit_char d = digit_char e \<longleftrightarrow> d = e"
  by (metis digit_val_digit_char)

lemma decimal_small [simp]: "n < 10 \<Longrightarrow> decimal n = [digit_char n]"
  by (subst decimal.simps) simp

lemma decimal_large: "10 \<le> n \<Longrightarrow> decimal n = decimal (n div 10) @ [digit_char (n mod 10)]"
  by (subst decimal.simps) simp

lemma decimal_nonempty [simp]: "decimal n \<noteq> []"
  by (subst decimal.simps) simp

lemma decimal_digits: "c \<in> set (decimal n) \<Longrightarrow> is_digit c"
proof (induction n arbitrary: c rule: decimal.induct)
  case (1 n)
  show ?case
  proof (cases "n < 10")
    case True
    with "1.prems" show ?thesis by simp
  next
    case False
    with "1.prems" have "c \<in> set (decimal (n div 10)) \<or> c = digit_char (n mod 10)"
      by (auto simp: decimal_large)
    with False "1.IH" show ?thesis by auto
  qed
qed

lemma parse_decimal_snoc [simp]:
  "parse_decimal (s @ [c]) = 10 * parse_decimal s + digit_val c"
  by (simp add: parse_decimal_def)

lemma parse_decimal_single [simp]: "parse_decimal [c] = digit_val c"
  by (simp add: parse_decimal_def)

lemma parse_decimal_decimal [simp]: "parse_decimal (decimal n) = n"
proof (induction n rule: decimal.induct)
  case (1 n)
  show ?case
  proof (cases "n < 10")
    case True
    then show ?thesis by simp
  next
    case False
    with "1.IH" have "parse_decimal (decimal (n div 10)) = n div 10" by simp
    with False show ?thesis by (simp add: decimal_large)
  qed
qed

lemma decimal_inject [simp]: "decimal m = decimal n \<longleftrightarrow> m = n"
  by (metis parse_decimal_decimal)

lemma hd_decimal_nonzero: "0 < n \<Longrightarrow> hd (decimal n) \<noteq> digit_char 0"
proof (induction n rule: decimal.induct)
  case (1 n)
  show ?case
  proof (cases "n < 10")
    case True
    with "1.prems" show ?thesis by (simp add: digit_char_inject)
  next
    case False
    then have "0 < n div 10" by simp
    with False "1.IH" have "hd (decimal (n div 10)) \<noteq> digit_char 0" by simp
    with False show ?thesis by (simp add: decimal_large)
  qed
qed

text \<open>Evaluation on numerals, for closed instances.\<close>

lemma digit_char_simps [simp]:
  "digit_char 0 = CHR ''0''" "digit_char 1 = CHR ''1''" "digit_char 2 = CHR ''2''"
  "digit_char 3 = CHR ''3''" "digit_char 4 = CHR ''4''" "digit_char 5 = CHR ''5''"
  "digit_char 6 = CHR ''6''" "digit_char 7 = CHR ''7''" "digit_char 8 = CHR ''8''"
  "digit_char 9 = CHR ''9''" "digit_char (Suc 0) = CHR ''1''"
  by code_simp+

lemma decimal_numeral [simp]:
  "decimal (numeral k) =
     (if (numeral k :: nat) < 10 then [digit_char (numeral k)]
      else decimal (numeral k div 10) @ [digit_char (numeral k mod 10)])"
  by (subst decimal.simps) simp

lemma decimal_0 [simp]: "decimal 0 = ''0''"
  by simp

lemma decimal_1 [simp]: "decimal 1 = ''1''"
  by simp

lemma dquote_not_digit [simp]: "\<not> is_digit dquote"
  by (simp add: is_digit_def)

lemma space_not_digit [simp]: "\<not> is_digit CHR '' ''"
  by (simp add: is_digit_def)

end
