(* ===== verification/Js_Value.thy ===== *)
theory Js_Value
  imports Complex_Main Gh_Prelude
begin

text \<open>
  The JavaScript values that reach the validators of \<^verbatim>\<open>src/src/index.ts\<close>
  (their parameter is typed \<^verbatim>\<open>any\<close>) and the language primitives the source
  applies to them: \<^verbatim>\<open>typeof\<close>, property access \<^verbatim>\<open>args.title\<close>, the truthiness
  test of \<^verbatim>\<open>if (body)\<close>, \<^verbatim>\<open>Number.isInteger\<close>, the comparison \<^verbatim>\<open>> 0\<close>,
  \<^verbatim>\<open>Array.prototype.includes\<close> and the string conversion of a template literal
  \<^verbatim>\<open>`${number}`\<close>.

  A value is what \<^verbatim>\<open>JSON.parse\<close> can deliver (null, booleans, numbers, strings,
  arrays, objects) or \<^verbatim>\<open>undefined\<close> (a request without arguments, an absent
  property).  A finite number is a rational: every double is one, so a theorem
  for all rationals holds for all doubles; \<open>-0\<close> is not distinguished from
  \<open>0\<close>, which no primitive used by the source can tell apart.  An object is the
  list of its own properties, read by the first binding of a name; the names the
  source reads (\<^verbatim>\<open>title body base head draft state limit number\<close>) are inherited
  neither from \<^verbatim>\<open>Object.prototype\<close> nor from \<^verbatim>\<open>Array.prototype\<close>, so an
  array has none of them.  Strings are lists of characters.
\<close>

section \<open>Values\<close>

datatype jsnum = NaN | PosInf | NegInf | Fin rat

datatype jsval =
    JUndefined
  | JNull
  | JBool bool
  | JNum jsnum
  | JStr string
  | JArr "jsval list"
  | JObj "(string \<times> jsval) list"

datatype jstype = TUndefined | TObject | TBoolean | TNumber | TString

section \<open>Primitives\<close>

fun typeof :: "jsval \<Rightarrow> jstype" where
  "typeof JUndefined = TUndefined"
| "typeof JNull = TObject"
| "typeof (JBool b) = TBoolean"
| "typeof (JNum x) = TNumber"
| "typeof (JStr s) = TString"
| "typeof (JArr xs) = TObject"
| "typeof (JObj kvs) = TObject"

text \<open>
  Property access.  On \<^verbatim>\<open>null\<close> and \<^verbatim>\<open>undefined\<close> JavaScript throws; the
  source reads a property only behind \<^verbatim>\<open>typeof args === 'object' && args !== null\<close>,
  so that case is never evaluated and is given the value \<open>JUndefined\<close>.
\<close>

fun get_prop :: "jsval \<Rightarrow> string \<Rightarrow> jsval" where
  "get_prop (JObj kvs) k = (case map_of kvs k of None \<Rightarrow> JUndefined | Some v \<Rightarrow> v)"
| "get_prop v k = JUndefined"

fun truthy :: "jsval \<Rightarrow> bool" where
  "truthy JUndefined = False"
| "truthy JNull = False"
| "truthy (JBool b) = b"
| "truthy (JNum NaN) = False"
| "truthy (JNum (Fin q)) = (q \<noteq> 0)"
| "truthy (JNum PosInf) = True"
| "truthy (JNum NegInf) = True"
| "truthy (JStr s) = (s \<noteq> [])"
| "truthy (JArr xs) = True"
| "truthy (JObj kvs) = True"

definition integral :: "rat \<Rightarrow> bool" where
  "integral q \<longleftrightarrow> of_int \<lfloor>q\<rfloor> = q"

fun Number_isInteger :: "jsval \<Rightarrow> bool" where
  "Number_isInteger (JNum (Fin q)) = integral q"
| "Number_isInteger v = False"

text \<open>
  The comparison \<^verbatim>\<open>args.number > 0\<close>, on the operands that reach it: the
  source evaluates it after \<^verbatim>\<open>typeof args.number === 'number'\<close>, so the left
  operand is a number.  A comparison with \<^verbatim>\<open>NaN\<close> is false.
\<close>

fun greater_zero :: "jsval \<Rightarrow> bool" where
  "greater_zero (JNum (Fin q)) = (0 < q)"
| "greater_zero (JNum PosInf) = True"
| "greater_zero v = False"

text \<open>
  \<^verbatim>\<open>includes\<close> compares with SameValueZero: primitives by value (\<^verbatim>\<open>NaN\<close> equal
  to itself), objects and arrays by identity; a value built by the caller is
  never identical to an element of an array literal of the source.
\<close>

fun same_value_zero :: "jsval \<Rightarrow> jsval \<Rightarrow> bool" where
  "same_value_zero JUndefined JUndefined = True"
| "same_value_zero JNull JNull = True"
| "same_value_zero (JBool a) (JBool b) = (a = b)"
| "same_value_zero (JNum a) (JNum b) = (a = b)"
| "same_value_zero (JStr a) (JStr b) = (a = b)"
| "same_value_zero v w = False"

definition array_includes :: "jsval list \<Rightarrow> jsval \<Rightarrow> bool" where
  "array_includes xs v = list_ex (\<lambda>x. same_value_zero x v) xs"

text \<open>
  The values that \<^verbatim>\<open>JSON.parse\<close> delivers, which is how the arguments of a
  request arrive: no \<^verbatim>\<open>undefined\<close> anywhere, and every number finite.
\<close>

fun json_value :: "jsval \<Rightarrow> bool" where
  "json_value JUndefined = False"
| "json_value JNull = True"
| "json_value (JBool b) = True"
| "json_value (JNum x) = (case x of Fin q \<Rightarrow> True | _ \<Rightarrow> False)"
| "json_value (JStr s) = True"
| "json_value (JArr xs) = list_all json_value xs"
| "json_value (JObj kvs) = list_all (\<lambda>kv. json_value (snd kv)) kvs"

section \<open>String conversion\<close>

text \<open>
  \<open>numfmt\<close> is the part of \<^verbatim>\<open>Number.prototype.toString\<close> that is not modelled:
  the shortest round-trip notation of a number that is not an integer of
  magnitude at most \<open>2 ^ 53\<close>.  Every definition that renders a number takes it as
  a parameter; for the integers up to \<open>2 ^ 53\<close> (all of them doubles) the result
  is the decimal notation and does not depend on it.
\<close>

type_synonym numfmt = "rat \<Rightarrow> string"

definition safe_integer :: "rat \<Rightarrow> bool" where
  "safe_integer q \<longleftrightarrow> integral q \<and> \<bar>q\<bar> \<le> 2 ^ 53"

definition decimal_int :: "int \<Rightarrow> string" where
  "decimal_int i = (if i < 0 then CHR ''-'' # decimal (nat (- i)) else decimal (nat i))"

fun num_to_string :: "numfmt \<Rightarrow> jsnum \<Rightarrow> string" where
  "num_to_string fmt NaN = ''NaN''"
| "num_to_string fmt PosInf = ''Infinity''"
| "num_to_string fmt NegInf = ''-Infinity''"
| "num_to_string fmt (Fin q) = (if safe_integer q then decimal_int \<lfloor>q\<rfloor> else fmt q)"

fun join :: "string \<Rightarrow> string list \<Rightarrow> string" where
  "join sep [] = []"
| "join sep [s] = s"
| "join sep (s # t # ss) = s @ sep @ join sep (t # ss)"

fun to_string :: "numfmt \<Rightarrow> jsval \<Rightarrow> string" where
  "to_string fmt JUndefined = ''undefined''"
| "to_string fmt JNull = ''null''"
| "to_string fmt (JBool b) = (if b then ''true'' else ''false'')"
| "to_string fmt (JNum x) = num_to_string fmt x"
| "to_string fmt (JStr s) = s"
| "to_string fmt (JArr xs) =
     join '','' (map (\<lambda>x. if x = JUndefined \<or> x = JNull then [] else to_string fmt x) xs)"
| "to_string fmt (JObj kvs) = ''[object Object]''"

section \<open>Facts about the primitives\<close>

lemma typeof_string_iff [simp]: "typeof v = TString \<longleftrightarrow> (\<exists>s. v = JStr s)"
  by (cases v) auto

lemma typeof_number_iff [simp]: "typeof v = TNumber \<longleftrightarrow> (\<exists>x. v = JNum x)"
  by (cases v) auto

lemma typeof_boolean_iff [simp]: "typeof v = TBoolean \<longleftrightarrow> (\<exists>b. v = JBool b)"
  by (cases v) auto

lemma typeof_undefined_iff [simp]: "typeof v = TUndefined \<longleftrightarrow> v = JUndefined"
  by (cases v) auto

lemma typeof_object_iff:
  "typeof v = TObject \<and> v \<noteq> JNull \<longleftrightarrow> (\<exists>xs. v = JArr xs) \<or> (\<exists>kvs. v = JObj kvs)"
  by (cases v) auto

lemma get_prop_arr [simp]: "get_prop (JArr xs) k = JUndefined"
  by simp

lemma get_prop_absent: "k \<notin> fst ` set kvs \<Longrightarrow> get_prop (JObj kvs) k = JUndefined"
  by (simp add: map_of_eq_None_iff [THEN iffD2])

lemma get_prop_present:
  "distinct (map fst kvs) \<Longrightarrow> (k, v) \<in> set kvs \<Longrightarrow> get_prop (JObj kvs) k = v"
  by simp

lemma truthy_string [simp]: "truthy (JStr s) \<longleftrightarrow> s \<noteq> []"
  by simp

lemma integral_of_int [simp]: "integral (of_int i)"
  by (simp add: integral_def)

lemma integral_of_nat [simp]: "integral (of_nat n)"
  by (simp add: integral_def)

lemma integral_numeral [simp]: "integral (numeral k)"
  by (simp add: integral_def)

lemma integral_zero [simp]: "integral 0"
  by (simp add: integral_def)

lemma integralE: "integral q \<Longrightarrow> (\<And>i. q = of_int i \<Longrightarrow> P) \<Longrightarrow> P"
  by (metis integral_def)

lemma Number_isInteger_iff:
  "Number_isInteger v \<longleftrightarrow> (\<exists>i. v = JNum (Fin (of_int i)))"
proof
  assume "Number_isInteger v"
  then obtain q where "v = JNum (Fin q)" and "integral q"
    by (cases v rule: Number_isInteger.cases) auto
  then show "\<exists>i. v = JNum (Fin (of_int i))"
    by (auto elim: integralE)
qed auto

lemma positive_integer_iff:
  "Number_isInteger v \<and> greater_zero v \<longleftrightarrow> (\<exists>n>0. v = JNum (Fin (of_nat n)))"
proof
  assume "Number_isInteger v \<and> greater_zero v"
  then obtain i where v: "v = JNum (Fin (of_int i))" and "(0::rat) < of_int i"
    by (auto simp: Number_isInteger_iff)
  then have "0 < i" by simp
  then have "0 < nat i" and "(of_int i :: rat) = of_nat (nat i)" by simp_all
  with v show "\<exists>n>0. v = JNum (Fin (of_nat n))" by metis
qed auto

lemma array_includes_strings [simp]:
  "array_includes (map JStr ss) v \<longleftrightarrow> (\<exists>s \<in> set ss. v = JStr s)"
  by (cases v) (auto simp: array_includes_def list_ex_iff)

lemma decimal_int_of_nat [simp]: "decimal_int (int n) = decimal n"
  by (simp add: decimal_int_def)

lemma safe_integer_of_nat [simp]: "safe_integer (of_nat n) \<longleftrightarrow> n \<le> 2 ^ 53"
proof -
  have "(of_nat n :: rat) \<le> 2 ^ 53 \<longleftrightarrow> (of_nat n :: rat) \<le> of_nat (2 ^ 53)"
    by simp
  also have "\<dots> \<longleftrightarrow> n \<le> 2 ^ 53"
    by (rule of_nat_le_iff)
  finally show ?thesis
    by (simp add: safe_integer_def)
qed

lemma num_to_string_nat [simp]:
  "n \<le> 2 ^ 53 \<Longrightarrow> num_to_string fmt (Fin (of_nat n)) = decimal n"
  by simp

lemma safe_integer_numeral [simp]: "safe_integer (numeral k) \<longleftrightarrow> (numeral k :: nat) \<le> 2 ^ 53"
  using safe_integer_of_nat [of "numeral k"] by simp

lemma decimal_int_numeral [simp]: "decimal_int (numeral k) = decimal (numeral k)"
  using decimal_int_of_nat [of "numeral k"] by simp

lemma decimal_int_0 [simp]: "decimal_int 0 = ''0''"
  by (simp add: decimal_int_def)

lemma safe_integer_0 [simp]: "safe_integer 0"
  by (simp add: safe_integer_def)

lemma safe_integer_minus_nat: "safe_integer (- of_nat n) \<longleftrightarrow> n \<le> 2 ^ 53"
proof -
  have "integral (- of_nat n)"
    using integral_of_int [of "- int n"] by simp
  then show ?thesis
    using safe_integer_of_nat [of n] by (simp add: safe_integer_def)
qed

lemma num_to_string_minus_nat:
  assumes "0 < n" and "n \<le> 2 ^ 53"
  shows "num_to_string fmt (Fin (- of_nat n)) = CHR ''-'' # decimal n"
proof -
  have "\<lfloor>- (of_nat n :: rat)\<rfloor> = - int n"
    by (metis floor_of_int of_int_minus of_int_of_nat_eq)
  with assms show ?thesis
    by (simp add: safe_integer_minus_nat decimal_int_def)
qed

lemma to_string_string [simp]: "to_string fmt (JStr s) = s"
  by simp

lemma json_value_prop:
  "json_value (JObj kvs) \<Longrightarrow> map_of kvs k = Some v \<Longrightarrow> json_value v"
  by (auto simp: list_all_iff dest!: map_of_SomeD)

lemma json_prop_undefined_iff:
  "json_value (JObj kvs) \<Longrightarrow> get_prop (JObj kvs) k = JUndefined \<longleftrightarrow> map_of kvs k = None"
  by (auto simp: list_all_iff split: option.splits dest!: map_of_SomeD)

end
