(* ===== verification/Validators.thy ===== *)
theory Validators
  imports Js_Value
begin

text \<open>
  The four type guards of \<^verbatim>\<open>src/src/index.ts\<close> (\<^verbatim>\<open>isValidCreatePrArgs\<close>,
  \<^verbatim>\<open>isValidListPrArgs\<close>, \<^verbatim>\<open>isValidViewPrArgs\<close>, \<^verbatim>\<open>isValidCommentPrArgs\<close>), each
  a conjunction over the untyped argument value in the order of the source, and
  the four interfaces they guard (\<^verbatim>\<open>CreatePrArgs\<close>, \<^verbatim>\<open>ListPrArgs\<close>,
  \<^verbatim>\<open>ViewPrArgs\<close>, \<^verbatim>\<open>CommentPrArgs\<close>) as records.  Two interfaces of the source
  may share a field name; a record field is a constant, so every field carries
  the initials of its interface (\<open>cr_\<close>, \<open>ls_\<close>, \<open>vw_\<close>, \<open>cm_\<close>).

  \<open>as_CreatePrArgs\<close> and its siblings read a value at the type its guard
  asserts (\<^verbatim>\<open>args is CreatePrArgs\<close>): \<open>Some\<close> of the typed record exactly when
  the guard holds.  The lemmas characterise each guard by the properties the
  value must have, show that the guards never depend on properties other than
  their own, and relate them to the typed reading.
\<close>

section \<open>The interfaces\<close>

record CreatePrArgs =
  cr_title :: string
  cr_body :: "string option"
  cr_base :: "string option"
  cr_head :: "string option"
  cr_draft :: "bool option"

datatype pr_state = Open | Closed | Merged | All

record ListPrArgs =
  ls_state :: "pr_state option"
  ls_base :: "string option"
  ls_limit :: "jsnum option"

record ViewPrArgs =
  vw_number :: nat

record CommentPrArgs =
  cm_number :: nat
  cm_body :: string

section \<open>The guards\<close>

definition isValidCreatePrArgs :: "jsval \<Rightarrow> bool" where
  "isValidCreatePrArgs args \<longleftrightarrow>
     typeof args = TObject \<and>
     args \<noteq> JNull \<and>
     typeof (get_prop args ''title'') = TString \<and>
     (get_prop args ''body'' = JUndefined \<or> typeof (get_prop args ''body'') = TString) \<and>
     (get_prop args ''base'' = JUndefined \<or> typeof (get_prop args ''base'') = TString) \<and>
     (get_prop args ''head'' = JUndefined \<or> typeof (get_prop args ''head'') = TString) \<and>
     (get_prop args ''draft'' = JUndefined \<or> typeof (get_prop args ''draft'') = TBoolean)"

definition pr_states :: "jsval list" where
  "pr_states = [JStr ''open'', JStr ''closed'', JStr ''merged'', JStr ''all'']"

definition isValidListPrArgs :: "jsval \<Rightarrow> bool" where
  "isValidListPrArgs args \<longleftrightarrow>
     typeof args = TObject \<and>
     args \<noteq> JNull \<and>
     (get_prop args ''state'' = JUndefined \<or> array_includes pr_states (get_prop args ''state'')) \<and>
     (get_prop args ''base'' = JUndefined \<or> typeof (get_prop args ''base'') = TString) \<and>
     (get_prop args ''limit'' = JUndefined \<or> typeof (get_prop args ''limit'') = TNumber)"

definition isValidViewPrArgs :: "jsval \<Rightarrow> bool" where
  "isValidViewPrArgs args \<longleftrightarrow>
     typeof args = TObject \<and>
     args \<noteq> JNull \<and>
     typeof (get_prop args ''number'') = TNumber \<and>
     Number_isInteger (get_prop args ''number'') \<and>
     greater_zero (get_prop args ''number'')"

definition isValidCommentPrArgs :: "jsval \<Rightarrow> bool" where
  "isValidCommentPrArgs args \<longleftrightarrow>
     typeof args = TObject \<and>
     args \<noteq> JNull \<and>
     typeof (get_prop args ''number'') = TNumber \<and>
     Number_isInteger (get_prop args ''number'') \<and>
     greater_zero (get_prop args ''number'') \<and>
     typeof (get_prop args ''body'') = TString"

lemmas [validator_defs] =
  isValidCreatePrArgs_def isValidListPrArgs_def isValidViewPrArgs_def isValidCommentPrArgs_def

section \<open>Reading a value at its interface\<close>

fun opt_string :: "jsval \<Rightarrow> string option" where
  "opt_string (JStr s) = Some s"
| "opt_string v = None"

fun opt_bool :: "jsval \<Rightarrow> bool option" where
  "opt_bool (JBool b) = Some b"
| "opt_bool v = None"

fun opt_number :: "jsval \<Rightarrow> jsnum option" where
  "opt_number (JNum x) = Some x"
| "opt_number v = None"

fun opt_state :: "jsval \<Rightarrow> pr_state option" where
  "opt_state (JStr s) =
     (if s = ''open'' then Some Open else if s = ''closed'' then Some Closed
      else if s = ''merged'' then Some Merged else if s = ''all'' then Some All else None)"
| "opt_state v = None"

fun pos_int :: "jsval \<Rightarrow> nat" where
  "pos_int (JNum (Fin q)) = nat \<lfloor>q\<rfloor>"
| "pos_int v = 0"

definition as_CreatePrArgs :: "jsval \<Rightarrow> CreatePrArgs option" where
  "as_CreatePrArgs args =
     (if isValidCreatePrArgs args
      then Some \<lparr>cr_title = the (opt_string (get_prop args ''title'')),
                 cr_body = opt_string (get_prop args ''body''),
                 cr_base = opt_string (get_prop args ''base''),
                 cr_head = opt_string (get_prop args ''head''),
                 cr_draft = opt_bool (get_prop args ''draft'')\<rparr>
      else None)"

definition as_ListPrArgs :: "jsval \<Rightarrow> ListPrArgs option" where
  "as_ListPrArgs args =
     (if isValidListPrArgs args
      then Some \<lparr>ls_state = opt_state (get_prop args ''state''),
                 ls_base = opt_string (get_prop args ''base''),
                 ls_limit = opt_number (get_prop args ''limit'')\<rparr>
      else None)"

definition as_ViewPrArgs :: "jsval \<Rightarrow> ViewPrArgs option" where
  "as_ViewPrArgs args =
     (if isValidViewPrArgs args
      then Some \<lparr>vw_number = pos_int (get_prop args ''number'')\<rparr>
      else None)"

definition as_CommentPrArgs :: "jsval \<Rightarrow> CommentPrArgs option" where
  "as_CommentPrArgs args =
     (if isValidCommentPrArgs args
      then Some \<lparr>cm_number = pos_int (get_prop args ''number''),
                 cm_body = the (opt_string (get_prop args ''body''))\<rparr>
      else None)"

lemmas as_args_defs = as_CreatePrArgs_def as_ListPrArgs_def as_ViewPrArgs_def as_CommentPrArgs_def

section \<open>Optional fields\<close>

text \<open>
  The test every optional field gets, \<^verbatim>\<open>v === undefined || typeof v === t\<close>,
  and what it says of the typed reading.
\<close>

lemma optional_string_iff:
  "v = JUndefined \<or> typeof v = TString \<longleftrightarrow> v = JUndefined \<or> (\<exists>s. v = JStr s)"
  by simp

lemma opt_string_Some_iff [simp]: "opt_string v = Some s \<longleftrightarrow> v = JStr s"
  by (cases v) auto

lemma opt_string_None_iff: "opt_string v = None \<longleftrightarrow> (\<forall>s. v \<noteq> JStr s)"
  by (cases v) auto

lemma opt_bool_Some_iff [simp]: "opt_bool v = Some b \<longleftrightarrow> v = JBool b"
  by (cases v) auto

lemma opt_number_Some_iff [simp]: "opt_number v = Some x \<longleftrightarrow> v = JNum x"
  by (cases v) auto

lemma pos_int_of_nat [simp]: "pos_int (JNum (Fin (of_nat n))) = n"
  by simp

lemma array_includes_pr_states:
  "array_includes pr_states v \<longleftrightarrow>
     v = JStr ''open'' \<or> v = JStr ''closed'' \<or> v = JStr ''merged'' \<or> v = JStr ''all''"
proof -
  have "array_includes pr_states v \<longleftrightarrow>
      array_includes (map JStr [''open'', ''closed'', ''merged'', ''all'']) v"
    by (simp add: pr_states_def)
  also have "\<dots> \<longleftrightarrow> (\<exists>s \<in> set [''open'', ''closed'', ''merged'', ''all'']. v = JStr s)"
    by (rule array_includes_strings)
  finally show ?thesis
    by auto
qed

lemma opt_state_Some_iff: "(\<exists>st. opt_state v = Some st) \<longleftrightarrow> array_includes pr_states v"
  by (cases v) (auto simp: array_includes_pr_states)

lemma opt_state_simps [simp]:
  "opt_state (JStr ''open'') = Some Open"
  "opt_state (JStr ''closed'') = Some Closed"
  "opt_state (JStr ''merged'') = Some Merged"
  "opt_state (JStr ''all'') = Some All"
  "opt_state JUndefined = None"
  by simp_all

section \<open>What each guard accepts\<close>

lemma valid_create_object: "isValidCreatePrArgs args \<Longrightarrow> \<exists>kvs. args = JObj kvs"
  by (cases args) (auto simp: isValidCreatePrArgs_def)

lemma valid_view_object: "isValidViewPrArgs args \<Longrightarrow> \<exists>kvs. args = JObj kvs"
  by (cases args) (auto simp: isValidViewPrArgs_def)

lemma valid_comment_object: "isValidCommentPrArgs args \<Longrightarrow> \<exists>kvs. args = JObj kvs"
  by (cases args) (auto simp: isValidCommentPrArgs_def)

lemma guard_of_prop: "get_prop args k \<noteq> JUndefined \<Longrightarrow> typeof args = TObject \<and> args \<noteq> JNull"
  by (cases args) auto

lemma isValidViewPrArgs_iff:
  "isValidViewPrArgs args \<longleftrightarrow> (\<exists>n>0. get_prop args ''number'' = JNum (Fin (of_nat n)))"
proof
  assume "isValidViewPrArgs args"
  then have "Number_isInteger (get_prop args ''number'') \<and> greater_zero (get_prop args ''number'')"
    by (simp add: isValidViewPrArgs_def)
  then show "\<exists>n>0. get_prop args ''number'' = JNum (Fin (of_nat n))"
    by (simp only: positive_integer_iff)
next
  assume "\<exists>n>0. get_prop args ''number'' = JNum (Fin (of_nat n))"
  then obtain n where n: "0 < n" "get_prop args ''number'' = JNum (Fin (of_nat n))"
    by blast
  then have "typeof args = TObject \<and> args \<noteq> JNull"
    by (intro guard_of_prop [of args "''number''"]) simp
  with n show "isValidViewPrArgs args"
    by (simp add: isValidViewPrArgs_def)
qed

lemma isValidCommentPrArgs_iff:
  "isValidCommentPrArgs args \<longleftrightarrow>
     (\<exists>n>0. get_prop args ''number'' = JNum (Fin (of_nat n))) \<and>
     (\<exists>s. get_prop args ''body'' = JStr s)"
proof -
  have "isValidCommentPrArgs args \<longleftrightarrow>
      isValidViewPrArgs args \<and> typeof (get_prop args ''body'') = TString"
    by (auto simp: isValidCommentPrArgs_def isValidViewPrArgs_def)
  then show ?thesis
    by (simp add: isValidViewPrArgs_iff)
qed

lemma isValidCreatePrArgs_iff:
  "isValidCreatePrArgs args \<longleftrightarrow>
     (\<exists>s. get_prop args ''title'' = JStr s) \<and>
     (get_prop args ''body'' = JUndefined \<or> (\<exists>s. get_prop args ''body'' = JStr s)) \<and>
     (get_prop args ''base'' = JUndefined \<or> (\<exists>s. get_prop args ''base'' = JStr s)) \<and>
     (get_prop args ''head'' = JUndefined \<or> (\<exists>s. get_prop args ''head'' = JStr s)) \<and>
     (get_prop args ''draft'' = JUndefined \<or> (\<exists>b. get_prop args ''draft'' = JBool b))"
  using guard_of_prop [of args "''title''"]
  by (auto simp: isValidCreatePrArgs_def)

lemma isValidListPrArgs_iff:
  "isValidListPrArgs args \<longleftrightarrow>
     typeof args = TObject \<and> args \<noteq> JNull \<and>
     (get_prop args ''state'' = JUndefined \<or> (\<exists>st. opt_state (get_prop args ''state'') = Some st)) \<and>
     (get_prop args ''base'' = JUndefined \<or> (\<exists>s. get_prop args ''base'' = JStr s)) \<and>
     (get_prop args ''limit'' = JUndefined \<or> (\<exists>x. get_prop args ''limit'' = JNum x))"
  by (simp add: isValidListPrArgs_def opt_state_Some_iff)

section \<open>Guards and typed readings agree\<close>

lemma as_CreatePrArgs_Some_iff: "(\<exists>a. as_CreatePrArgs args = Some a) \<longleftrightarrow> isValidCreatePrArgs args"
  by (simp add: as_CreatePrArgs_def)

lemma as_ListPrArgs_Some_iff: "(\<exists>a. as_ListPrArgs args = Some a) \<longleftrightarrow> isValidListPrArgs args"
  by (simp add: as_ListPrArgs_def)

lemma as_ViewPrArgs_Some_iff: "(\<exists>a. as_ViewPrArgs args = Some a) \<longleftrightarrow> isValidViewPrArgs args"
  by (simp add: as_ViewPrArgs_def)

lemma as_CommentPrArgs_Some_iff: "(\<exists>a. as_CommentPrArgs args = Some a) \<longleftrightarrow> isValidCommentPrArgs args"
  by (simp add: as_CommentPrArgs_def)

lemma as_ViewPrArgs_positive: "as_ViewPrArgs args = Some a \<Longrightarrow> 0 < vw_number a"
  by (auto simp: as_ViewPrArgs_def isValidViewPrArgs_iff split: if_splits)

lemma as_CommentPrArgs_positive: "as_CommentPrArgs args = Some a \<Longrightarrow> 0 < cm_number a"
  by (auto simp: as_CommentPrArgs_def isValidCommentPrArgs_iff split: if_splits)

end
