(* ===== verification/Commands.thy ===== *)
theory Commands
  imports Validators
begin

text \<open>
  The command lines that the four cases of the \<^verbatim>\<open>CallToolRequestSchema\<close>
  handler of \<^verbatim>\<open>src/src/index.ts\<close> assemble, one definition per case: the
  properties are read from the argument value as the destructuring does, each
  \<^verbatim>\<open>if (x) command += ...\<close> is one rebinding of \<open>command\<close> in the order of the
  source, a template literal interpolates with \<open>to_string\<close> and a test is
  \<open>truthy\<close>.  The definitions are total on every value, as the JavaScript is;
  the lemmas say what they yield on the values the guards accept, one lemma per
  flag, so that a theorem on a whole command line is a rewrite with them.
\<close>

section \<open>Building blocks\<close>

text \<open>
  \<open>flag name text\<close> is \<^verbatim>\<open>` --name "${text}"`\<close>, \<open>bare_flag name text\<close> is
  \<^verbatim>\<open>` --name ${text}`\<close>.
\<close>

definition flag :: "string \<Rightarrow> string \<Rightarrow> string" where
  "flag name text = '' --'' @ name @ '' '' @ quoted text"

definition bare_flag :: "string \<Rightarrow> string \<Rightarrow> string" where
  "bare_flag name text = '' --'' @ name @ '' '' @ text"

section \<open>The four command lines\<close>

definition create_pr_command :: "numfmt \<Rightarrow> jsval \<Rightarrow> command" where
  "create_pr_command fmt args =
     (let title = get_prop args ''title'';
          body = get_prop args ''body'';
          base = get_prop args ''base'';
          head = get_prop args ''head'';
          draft = get_prop args ''draft'';
          command = ''pr create --title '' @ quoted (to_string fmt title);
          command = (if truthy body then command @ flag ''body'' (to_string fmt body) else command);
          command = (if truthy base then command @ flag ''base'' (to_string fmt base) else command);
          command = (if truthy head then command @ flag ''head'' (to_string fmt head) else command);
          command = (if truthy draft then command @ '' --draft'' else command)
      in command)"

definition list_prs_command :: "numfmt \<Rightarrow> jsval \<Rightarrow> command" where
  "list_prs_command fmt args =
     (let state = get_prop args ''state'';
          base = get_prop args ''base'';
          limit = get_prop args ''limit'';
          command = ''pr list'';
          command = (if truthy state then command @ bare_flag ''state'' (to_string fmt state) else command);
          command = (if truthy base then command @ bare_flag ''base'' (to_string fmt base) else command);
          command = (if truthy limit then command @ bare_flag ''limit'' (to_string fmt limit) else command)
      in command)"

definition view_pr_command :: "numfmt \<Rightarrow> jsval \<Rightarrow> command" where
  "view_pr_command fmt args =
     (let number = get_prop args ''number'';
          command = ''pr view '' @ to_string fmt number
      in command)"

definition comment_pr_command :: "numfmt \<Rightarrow> jsval \<Rightarrow> command" where
  "comment_pr_command fmt args =
     (let number = get_prop args ''number'';
          body = get_prop args ''body'';
          command = ''pr comment '' @ to_string fmt number @ '' --body '' @ quoted (to_string fmt body)
      in command)"

lemmas [command_defs] =
  create_pr_command_def list_prs_command_def view_pr_command_def comment_pr_command_def

section \<open>One optional flag at a time\<close>

definition opt_flag :: "string \<Rightarrow> string option \<Rightarrow> string" where
  "opt_flag name v = (case v of None \<Rightarrow> [] | Some s \<Rightarrow> if s = [] then [] else flag name s)"

definition opt_bare_flag :: "string \<Rightarrow> string option \<Rightarrow> string" where
  "opt_bare_flag name v = (case v of None \<Rightarrow> [] | Some s \<Rightarrow> if s = [] then [] else bare_flag name s)"

lemma opt_flag_simps [simp]:
  "opt_flag name None = []"
  "opt_flag name (Some []) = []"
  "s \<noteq> [] \<Longrightarrow> opt_flag name (Some s) = flag name s"
  by (simp_all add: opt_flag_def)

lemma opt_bare_flag_simps [simp]:
  "opt_bare_flag name None = []"
  "opt_bare_flag name (Some []) = []"
  "s \<noteq> [] \<Longrightarrow> opt_bare_flag name (Some s) = bare_flag name s"
  by (simp_all add: opt_bare_flag_def)

lemma optional_string_flag:
  assumes "v = JUndefined \<or> typeof v = TString"
  shows "(if truthy v then c @ flag name (to_string fmt v) else c) = c @ opt_flag name (opt_string v)"
  using assms by (cases v) (auto simp: opt_flag_def)

lemma optional_string_bare_flag:
  assumes "v = JUndefined \<or> typeof v = TString"
  shows "(if truthy v then c @ bare_flag name (to_string fmt v) else c) =
         c @ opt_bare_flag name (opt_string v)"
  using assms by (cases v) (auto simp: opt_bare_flag_def)

lemma optional_draft_flag:
  assumes "v = JUndefined \<or> typeof v = TBoolean"
  shows "(if truthy v then c @ '' --draft'' else c) =
         c @ (if opt_bool v = Some True then '' --draft'' else [])"
  using assms by (cases v) auto

lemma flag_nonempty [simp]: "flag name text \<noteq> []"
  by (simp add: flag_def)

lemma bare_flag_nonempty [simp]: "bare_flag name text \<noteq> []"
  by (simp add: bare_flag_def)

section \<open>The command lines over the interfaces\<close>

text \<open>
  The same four command lines as functions of the typed records: what the
  TypeScript source says once the guard has narrowed \<^verbatim>\<open>args\<close> to its
  interface.  \<open>command_of_typed\<close> lemmas show that the untyped definitions
  above compute them on every value the guard accepts.
\<close>

fun state_name :: "pr_state \<Rightarrow> string" where
  "state_name Open = ''open''"
| "state_name Closed = ''closed''"
| "state_name Merged = ''merged''"
| "state_name All = ''all''"

definition create_command :: "CreatePrArgs \<Rightarrow> command" where
  "create_command a =
     ''pr create --title '' @ quoted (cr_title a) @
     opt_flag ''body'' (cr_body a) @ opt_flag ''base'' (cr_base a) @ opt_flag ''head'' (cr_head a) @
     (if cr_draft a = Some True then '' --draft'' else [])"

definition limit_flag :: "numfmt \<Rightarrow> jsnum option \<Rightarrow> string" where
  "limit_flag fmt v =
     (case v of None \<Rightarrow> []
      | Some x \<Rightarrow> if truthy (JNum x) then bare_flag ''limit'' (num_to_string fmt x) else [])"

definition list_command :: "numfmt \<Rightarrow> ListPrArgs \<Rightarrow> command" where
  "list_command fmt a =
     ''pr list'' @ opt_bare_flag ''state'' (map_option state_name (ls_state a)) @
     opt_bare_flag ''base'' (ls_base a) @ limit_flag fmt (ls_limit a)"

definition view_command :: "numfmt \<Rightarrow> ViewPrArgs \<Rightarrow> command" where
  "view_command fmt a = ''pr view '' @ num_to_string fmt (Fin (of_nat (vw_number a)))"

definition comment_command :: "numfmt \<Rightarrow> CommentPrArgs \<Rightarrow> command" where
  "comment_command fmt a =
     ''pr comment '' @ num_to_string fmt (Fin (of_nat (cm_number a))) @
     '' --body '' @ quoted (cm_body a)"

lemmas typed_command_defs =
  create_command_def list_command_def view_command_def comment_command_def

lemma state_name_nonempty [simp]: "state_name st \<noteq> []"
  by (cases st) simp_all

lemma state_name_opt_state:
  "opt_state v = Some st \<Longrightarrow> v = JStr (state_name st)"
  by (cases v) (auto split: if_splits)

lemma optional_state_flag:
  assumes "v = JUndefined \<or> array_includes pr_states v"
  shows "(if truthy v then c @ bare_flag ''state'' (to_string fmt v) else c) =
         c @ opt_bare_flag ''state'' (map_option state_name (opt_state v))"
  using assms by (auto simp: array_includes_pr_states)

lemma optional_limit_flag:
  assumes "v = JUndefined \<or> typeof v = TNumber"
  shows "(if truthy v then c @ bare_flag ''limit'' (to_string fmt v) else c) =
         c @ limit_flag fmt (opt_number v)"
  using assms by (auto simp: limit_flag_def)

lemma limit_flag_simps [simp]:
  "limit_flag fmt None = []"
  "limit_flag fmt (Some NaN) = []"
  "limit_flag fmt (Some (Fin 0)) = []"
  "q \<noteq> 0 \<Longrightarrow> limit_flag fmt (Some (Fin q)) = bare_flag ''limit'' (num_to_string fmt (Fin q))"
  by (simp_all add: limit_flag_def)

lemma create_command_of_typed:
  assumes "as_CreatePrArgs args = Some a"
  shows "create_pr_command fmt args = create_command a"
proof -
  from assms have v: "isValidCreatePrArgs args"
    and a: "a = \<lparr>cr_title = the (opt_string (get_prop args ''title'')),
                 cr_body = opt_string (get_prop args ''body''),
                 cr_base = opt_string (get_prop args ''base''),
                 cr_head = opt_string (get_prop args ''head''),
                 cr_draft = opt_bool (get_prop args ''draft'')\<rparr>"
    by (auto simp: as_CreatePrArgs_def split: if_splits)
  from v obtain t where t: "get_prop args ''title'' = JStr t"
    by (auto simp: isValidCreatePrArgs_def)
  from v have opt:
    "get_prop args ''body'' = JUndefined \<or> typeof (get_prop args ''body'') = TString"
    "get_prop args ''base'' = JUndefined \<or> typeof (get_prop args ''base'') = TString"
    "get_prop args ''head'' = JUndefined \<or> typeof (get_prop args ''head'') = TString"
    "get_prop args ''draft'' = JUndefined \<or> typeof (get_prop args ''draft'') = TBoolean"
    by (simp_all add: isValidCreatePrArgs_def)
  show ?thesis
    unfolding create_pr_command_def Let_def create_command_def a
    by (simp only: optional_string_flag [OF opt(1)] optional_string_flag [OF opt(2)]
        optional_string_flag [OF opt(3)] optional_draft_flag [OF opt(4)]
        t to_string_string opt_string.simps option.sel CreatePrArgs.simps)
      simp
qed

lemma list_command_of_typed:
  assumes "as_ListPrArgs args = Some a"
  shows "list_prs_command fmt args = list_command fmt a"
proof -
  from assms have v: "isValidListPrArgs args"
    and a: "a = \<lparr>ls_state = opt_state (get_prop args ''state''),
                 ls_base = opt_string (get_prop args ''base''),
                 ls_limit = opt_number (get_prop args ''limit'')\<rparr>"
    by (auto simp: as_ListPrArgs_def split: if_splits)
  from v have opt:
    "get_prop args ''state'' = JUndefined \<or> array_includes pr_states (get_prop args ''state'')"
    "get_prop args ''base'' = JUndefined \<or> typeof (get_prop args ''base'') = TString"
    "get_prop args ''limit'' = JUndefined \<or> typeof (get_prop args ''limit'') = TNumber"
    by (simp_all add: isValidListPrArgs_def)
  show ?thesis
    unfolding list_prs_command_def Let_def list_command_def a
    by (simp only: optional_state_flag [OF opt(1)] optional_string_bare_flag [OF opt(2)]
        optional_limit_flag [OF opt(3)] ListPrArgs.simps)
      simp
qed

lemma view_command_of_typed:
  assumes "as_ViewPrArgs args = Some a"
  shows "view_pr_command fmt args = view_command fmt a"
proof -
  from assms obtain n where "get_prop args ''number'' = JNum (Fin (of_nat n))"
    and "a = \<lparr>vw_number = pos_int (get_prop args ''number'')\<rparr>"
    by (auto simp: as_ViewPrArgs_def isValidViewPrArgs_iff split: if_splits)
  then show ?thesis
    by (simp add: view_pr_command_def view_command_def)
qed

lemma comment_command_of_typed:
  assumes "as_CommentPrArgs args = Some a"
  shows "comment_pr_command fmt args = comment_command fmt a"
proof -
  from assms obtain n s where "get_prop args ''number'' = JNum (Fin (of_nat n))"
    and "get_prop args ''body'' = JStr s"
    and "a = \<lparr>cm_number = pos_int (get_prop args ''number''),
              cm_body = the (opt_string (get_prop args ''body''))\<rparr>"
    by (auto simp: as_CommentPrArgs_def isValidCommentPrArgs_iff split: if_splits)
  then show ?thesis
    by (simp add: comment_pr_command_def comment_command_def)
qed

section \<open>Validated arguments\<close>

text \<open>
  The validated arguments of a request, one shape per tool, and the command
  line of each shape.
\<close>

datatype validated_args =
    CreateArgs CreatePrArgs
  | ListArgs ListPrArgs
  | ViewArgs ViewPrArgs
  | CommentArgs CommentPrArgs

fun command_of :: "numfmt \<Rightarrow> validated_args \<Rightarrow> command" where
  "command_of fmt (CreateArgs a) = create_command a"
| "command_of fmt (ListArgs a) = list_command fmt a"
| "command_of fmt (ViewArgs a) = view_command fmt a"
| "command_of fmt (CommentArgs a) = comment_command fmt a"

text \<open>
  The invariant of validated arguments: a pull-request number is positive.
  (That every optional field is absent or of its type, and that a state is one
  of the four, is in the types of the records.)
\<close>

fun args_ok :: "validated_args \<Rightarrow> bool" where
  "args_ok (ViewArgs a) = (0 < vw_number a)"
| "args_ok (CommentArgs a) = (0 < cm_number a)"
| "args_ok a = True"

section \<open>Command lines of pull-request numbers\<close>

lemma view_command_decimal:
  "vw_number a \<le> 2 ^ 53 \<Longrightarrow> view_command fmt a = ''pr view '' @ decimal (vw_number a)"
  by (simp add: view_command_def)

lemma comment_command_decimal:
  "cm_number a \<le> 2 ^ 53 \<Longrightarrow>
   comment_command fmt a = ''pr comment '' @ decimal (cm_number a) @ '' --body '' @ quoted (cm_body a)"
  by (simp add: comment_command_def)

text \<open>
  For a pull-request number up to \<open>2 ^ 53\<close> the command line of \<^verbatim>\<open>view_pr\<close> is
  \<^verbatim>\<open>pr view \<close> followed by the decimal digits of the number, whatever the number
  formatting of the runtime, and the number is read back from the text after
  the eighth character.
\<close>

lemma view_command_reads_back:
  assumes "vw_number a \<le> 2 ^ 53"
  shows "view_command fmt a = ''pr view '' @ decimal (vw_number a) \<and>
         parse_decimal (drop 8 (view_command fmt a)) = vw_number a"
  using assms by (simp add: view_command_def)

section \<open>The command lines of the specification\<close>

text \<open>
  The specification builds a command line by appending a flag for every
  optional field that is present.  \<open>spec_command\<close> is that reading; the source
  tests a field with \<^verbatim>\<open>if (field)\<close>, which is false for a field that is present
  and empty, zero or \<^verbatim>\<open>NaN\<close>.  \<open>all_truthy\<close> holds of the validated arguments
  on which the two readings cannot differ.
\<close>

definition spec_flag :: "string \<Rightarrow> string option \<Rightarrow> string" where
  "spec_flag name v = (case v of None \<Rightarrow> [] | Some s \<Rightarrow> flag name s)"

definition spec_bare_flag :: "string \<Rightarrow> string option \<Rightarrow> string" where
  "spec_bare_flag name v = (case v of None \<Rightarrow> [] | Some s \<Rightarrow> bare_flag name s)"

fun spec_command :: "numfmt \<Rightarrow> validated_args \<Rightarrow> command" where
  "spec_command fmt (CreateArgs a) =
     ''pr create --title '' @ quoted (cr_title a) @
     spec_flag ''body'' (cr_body a) @ spec_flag ''base'' (cr_base a) @
     spec_flag ''head'' (cr_head a) @ (if cr_draft a = Some True then '' --draft'' else [])"
| "spec_command fmt (ListArgs a) =
     ''pr list'' @ spec_bare_flag ''state'' (map_option state_name (ls_state a)) @
     spec_bare_flag ''base'' (ls_base a) @
     spec_bare_flag ''limit'' (map_option (num_to_string fmt) (ls_limit a))"
| "spec_command fmt (ViewArgs a) =
     ''pr view '' @ num_to_string fmt (Fin (of_nat (vw_number a)))"
| "spec_command fmt (CommentArgs a) =
     ''pr comment '' @ num_to_string fmt (Fin (of_nat (cm_number a))) @
     '' --body '' @ quoted (cm_body a)"

fun all_truthy :: "validated_args \<Rightarrow> bool" where
  "all_truthy (CreateArgs a) \<longleftrightarrow>
     cr_body a \<noteq> Some [] \<and> cr_base a \<noteq> Some [] \<and> cr_head a \<noteq> Some []"
| "all_truthy (ListArgs a) \<longleftrightarrow>
     ls_base a \<noteq> Some [] \<and> ls_limit a \<noteq> Some (Fin 0) \<and> ls_limit a \<noteq> Some NaN"
| "all_truthy a \<longleftrightarrow> True"

lemma spec_flag_simps [simp]:
  "spec_flag name None = []"
  "spec_flag name (Some s) = flag name s"
  by (simp_all add: spec_flag_def)

lemma spec_bare_flag_simps [simp]:
  "spec_bare_flag name None = []"
  "spec_bare_flag name (Some s) = bare_flag name s"
  by (simp_all add: spec_bare_flag_def)

lemma opt_flag_spec: "v \<noteq> Some [] \<Longrightarrow> opt_flag name v = spec_flag name v"
  by (cases v) simp_all

lemma opt_bare_flag_spec: "v \<noteq> Some [] \<Longrightarrow> opt_bare_flag name v = spec_bare_flag name v"
  by (cases v) simp_all

lemma opt_bare_flag_state [simp]:
  "opt_bare_flag name (map_option state_name v) = spec_bare_flag name (map_option state_name v)"
  by (cases v) simp_all

lemma limit_flag_spec:
  "v \<noteq> Some (Fin 0) \<Longrightarrow> v \<noteq> Some NaN \<Longrightarrow>
   limit_flag fmt v = spec_bare_flag ''limit'' (map_option (num_to_string fmt) v)"
  by (cases v rule: option.exhaust; cases "the v") (auto simp: limit_flag_def)

lemma length_opt_flag_le: "length (opt_flag name v) \<le> length (spec_flag name v)"
  by (cases v) (simp_all add: opt_flag_def)

text \<open>
  Claim C28 (equivalence).  On validated arguments whose supplied optional
  values are all truthy (no empty text, no limit that is zero or \<^verbatim>\<open>NaN\<close>) the
  command line of the source is the command line of the specification: the
  fixed prefix of the tool, then one flag for each field that is present, in
  the order of the templates, and \<^verbatim>\<open>--draft\<close> bare when the draft flag is true.
\<close>

theorem command_meets_spec:
  assumes "all_truthy a"
  shows "command_of fmt a = spec_command fmt a"
  using assms
  by (cases a)
     (simp_all add: typed_command_defs opt_flag_spec opt_bare_flag_spec limit_flag_spec)

theorem command_meets_spec_witness:
  "all_truthy (ListArgs \<lparr>ls_state = Some Open, ls_base = None, ls_limit = Some (Fin 5)\<rparr>) \<and>
   command_of (\<lambda>q. []) (ListArgs \<lparr>ls_state = Some Open, ls_base = None, ls_limit = Some (Fin 5)\<rparr>) =
     ''pr list --state open --limit 5'' \<and>
   spec_command (\<lambda>q. []) (ListArgs \<lparr>ls_state = Some Open, ls_base = None, ls_limit = Some (Fin 5)\<rparr>) =
     ''pr list --state open --limit 5''"
  using command_meets_spec
    [of "ListArgs \<lparr>ls_state = Some Open, ls_base = None, ls_limit = Some (Fin 5)\<rparr>" "\<lambda>q. []"]
  by (simp add: bare_flag_def)

text \<open>
  Claim C40 (functional).  An optional value that is supplied and falsy is
  treated as absent, where the specification appends a flag for every field
  that is present: \<^verbatim>\<open>create_pr\<close> with \<^verbatim>\<open>body: ""\<close> runs the command line it runs
  without a body, which is not the template's, and \<^verbatim>\<open>list_prs\<close> with
  \<^verbatim>\<open>limit: 0\<close> runs the command line it runs without a limit, where the
  template appends \<^verbatim>\<open>--limit 0\<close>.
\<close>

theorem falsy_values_are_dropped:
  "command_of fmt (CreateArgs (a\<lparr>cr_body := Some []\<rparr>)) =
     command_of fmt (CreateArgs (a\<lparr>cr_body := None\<rparr>)) \<and>
   spec_command fmt (CreateArgs (a\<lparr>cr_body := Some []\<rparr>)) \<noteq>
     command_of fmt (CreateArgs (a\<lparr>cr_body := Some []\<rparr>)) \<and>
   command_of fmt (ListArgs (l\<lparr>ls_limit := Some (Fin 0)\<rparr>)) =
     command_of fmt (ListArgs (l\<lparr>ls_limit := None\<rparr>)) \<and>
   spec_command fmt (ListArgs (l\<lparr>ls_limit := Some (Fin 0)\<rparr>)) =
     spec_command fmt (ListArgs (l\<lparr>ls_limit := None\<rparr>)) @ '' --limit 0''"
proof -
  let ?empty = "CreateArgs (a\<lparr>cr_body := Some []\<rparr>)"
  have "length (opt_flag ''base'' (cr_base a)) \<le> length (spec_flag ''base'' (cr_base a))"
    and "length (opt_flag ''head'' (cr_head a)) \<le> length (spec_flag ''head'' (cr_head a))"
    by (rule length_opt_flag_le)+
  then have "length (command_of fmt ?empty) < length (spec_command fmt ?empty)"
    by (simp add: create_command_def flag_def)
  then have "spec_command fmt ?empty \<noteq> command_of fmt ?empty"
    by (rule neq_if_length_less)
  then show ?thesis
    by (simp add: create_command_def list_command_def bare_flag_def)
qed

end
