(* ===== verification/Shell_Words.thy ===== *)
theory Shell_Words
  imports Gh_Prelude
begin

text \<open>
  What the shell that \<^verbatim>\<open>execSync\<close> starts makes of a command line, for the part
  of the shell language that the command lines of \<^verbatim>\<open>src/src/index.ts\<close> are
  meant to stay in: words separated by blanks, double quotes that keep blanks
  inside a word, and the separators \<^verbatim>\<open>;\<close> and newline that end one command and
  begin the next.  Every other active character (expansion with \<^verbatim>\<open>$\<close>, a
  backquote or a backslash, inside or outside double quotes; single quotes,
  redirections, pipes, globbing and the rest outside them) makes the result
  \<open>None\<close>: the line leaves the modelled part of the language, and no theorem
  speaks about what the shell does with it.

  \<open>lexB\<close> reads from between two words and \<open>lexW\<close> from inside a word, with
  a flag for being inside double quotes; both recurse on the text.  \<open>sh_parse\<close>
  gives the commands of a line, each a list of words: the argument vectors
  that would be executed.  \<open>render\<close> writes a list of tokens (a word to be
  written bare or in double quotes) as a line; the lemmas show that parsing a
  rendered line gives back the words of its tokens when each token is safe
  for the way it is written.
\<close>

section \<open>Characters\<close>

datatype char_class = Blank | Sep | DQuote | Expansion | Meta | Plain

definition expansion_chars :: "char list" where
  "expansion_chars = [CHR 0x24, CHR 0x60, CHR 0x5C]"

definition meta_chars :: "char list" where
  "meta_chars =
     [CHR 0x27, CHR 0x26, CHR 0x7C, CHR 0x3C, CHR 0x3E, CHR 0x28, CHR 0x29, CHR 0x23, CHR 0x2A,
      CHR 0x3F, CHR 0x5B, CHR 0x5D, CHR 0x7E, CHR 0x7B, CHR 0x7D, CHR 0x21, CHR 0x3D]"

definition classify :: "char \<Rightarrow> char_class" where
  "classify c =
     (if c = CHR 0x20 \<or> c = CHR 0x09 then Blank
      else if c = CHR 0x3B \<or> c = CHR 0x0A then Sep
      else if c = dquote then DQuote
      else if c \<in> set expansion_chars then Expansion
      else if c \<in> set meta_chars then Meta
      else Plain)"

text \<open>
  A text is safe inside double quotes when it holds no double quote and no
  expansion character, and safe as a bare word when all its characters are
  plain.
\<close>

definition quote_safe :: "string \<Rightarrow> bool" where
  "quote_safe s \<longleftrightarrow> list_all (\<lambda>c. classify c \<noteq> DQuote \<and> classify c \<noteq> Expansion) s"

definition bare_safe :: "string \<Rightarrow> bool" where
  "bare_safe s \<longleftrightarrow> s \<noteq> [] \<and> list_all (\<lambda>c. classify c = Plain) s"

section \<open>The lexer\<close>

fun lexB :: "string \<Rightarrow> (string list \<times> string list list) option"
  and lexW :: "bool \<Rightarrow> string \<Rightarrow> (string \<times> string list \<times> string list list) option"
where
  "lexB [] = Some ([], [])"
| "lexB (c # s) =
     (case classify c of
        Blank \<Rightarrow> lexB s
      | Sep \<Rightarrow> map_option (\<lambda>(ws, cs). ([], ws # cs)) (lexB s)
      | DQuote \<Rightarrow> map_option (\<lambda>(w, ws, cs). (w # ws, cs)) (lexW True s)
      | Plain \<Rightarrow> map_option (\<lambda>(w, ws, cs). ((c # w) # ws, cs)) (lexW False s)
      | _ \<Rightarrow> None)"
| "lexW q [] = (if q then None else Some ([], [], []))"
| "lexW q (c # s) =
     (if q then
        (case classify c of
           DQuote \<Rightarrow> lexW False s
         | Expansion \<Rightarrow> None
         | _ \<Rightarrow> map_option (\<lambda>(w, ws, cs). (c # w, ws, cs)) (lexW True s))
      else
        (case classify c of
           Blank \<Rightarrow> map_option (\<lambda>(ws, cs). ([], ws, cs)) (lexB s)
         | Sep \<Rightarrow> map_option (\<lambda>(ws, cs). ([], [], ws # cs)) (lexB s)
         | DQuote \<Rightarrow> lexW True s
         | Plain \<Rightarrow> map_option (\<lambda>(w, ws, cs). (c # w, ws, cs)) (lexW False s)
         | _ \<Rightarrow> None))"

definition sh_parse :: "string \<Rightarrow> string list list option" where
  "sh_parse s = map_option (\<lambda>(ws, cs). ws # cs) (lexB s)"

section \<open>Tokens and lines\<close>

datatype token = Bare string | Quoted string

fun token_text :: "token \<Rightarrow> string" where
  "token_text (Bare s) = s"
| "token_text (Quoted s) = s"

fun token_line :: "token \<Rightarrow> string" where
  "token_line (Bare s) = s"
| "token_line (Quoted s) = quoted s"

fun token_safe :: "token \<Rightarrow> bool" where
  "token_safe (Bare s) = bare_safe s"
| "token_safe (Quoted s) = quote_safe s"

fun render :: "token list \<Rightarrow> string" where
  "render [] = []"
| "render [t] = token_line t"
| "render (t # u # ts) = token_line t @ CHR '' '' # render (u # ts)"

section \<open>Character classes\<close>

lemma classify_simps [simp]:
  "classify CHR '' '' = Blank"
  "classify CHR '';'' = Sep"
  "classify dquote = DQuote"
  "classify CHR ''-'' = Plain"
  by (simp_all add: classify_def expansion_chars_def meta_chars_def)

lemma classify_digit: "is_digit c \<Longrightarrow> classify c = Plain"
proof -
  assume "is_digit c"
  then have "48 \<le> (of_char c :: nat)" "(of_char c :: nat) \<le> 57"
    by (simp_all add: is_digit_def)
  then have "c \<notin> set [CHR 0x20, CHR 0x09, CHR 0x3B, CHR 0x0A, dquote]"
    "c \<notin> set expansion_chars" "c \<notin> set meta_chars"
    by (auto simp: expansion_chars_def meta_chars_def)
  then show ?thesis
    by (simp add: classify_def)
qed

lemma bare_safe_decimal [simp]: "bare_safe (decimal n)"
  by (simp add: bare_safe_def list_all_iff classify_digit decimal_digits)

lemma bare_safe_Cons:
  "bare_safe (c # s) \<longleftrightarrow> classify c = Plain \<and> (s = [] \<or> bare_safe s)"
  by (auto simp: bare_safe_def)

lemma quote_safe_simps [simp]:
  "quote_safe []"
  "quote_safe (c # s) \<longleftrightarrow> classify c \<noteq> DQuote \<and> classify c \<noteq> Expansion \<and> quote_safe s"
  by (simp_all add: quote_safe_def)

lemma bare_safe_quote_safe: "bare_safe s \<Longrightarrow> quote_safe s"
  by (auto simp: bare_safe_def quote_safe_def list_all_iff)

section \<open>Lexing one word\<close>

lemma lexW_plain:
  "list_all (\<lambda>c. classify c = Plain) w \<Longrightarrow>
   lexW False (w @ s) = map_option (\<lambda>(x, ws, cs). (w @ x, ws, cs)) (lexW False s)"
  by (induction w) (simp_all add: option.map_comp comp_def case_prod_unfold option.map_ident)

lemma lexW_quoted:
  "quote_safe t \<Longrightarrow>
   lexW True (t @ dquote # s) = map_option (\<lambda>(x, ws, cs). (t @ x, ws, cs)) (lexW False s)"
proof (induction t)
  case Nil
  then show ?case
    by (simp add: case_prod_unfold option.map_ident)
next
  case (Cons c t)
  then show ?case
    by (cases "classify c") (simp_all add: option.map_comp comp_def case_prod_unfold)
qed

lemma lexB_bare:
  "bare_safe w \<Longrightarrow>
   lexB (w @ s) = map_option (\<lambda>(x, ws, cs). ((w @ x) # ws, cs)) (lexW False s)"
  by (cases w) (simp_all add: bare_safe_def lexW_plain option.map_comp comp_def case_prod_unfold)

lemma lexB_quoted:
  "quote_safe t \<Longrightarrow>
   lexB (quoted t @ s) = map_option (\<lambda>(x, ws, cs). ((t @ x) # ws, cs)) (lexW False s)"
  by (simp add: quoted_def lexW_quoted option.map_comp comp_def case_prod_unfold)

lemma lexB_token:
  "token_safe t \<Longrightarrow>
   lexB (token_line t @ s) = map_option (\<lambda>(x, ws, cs). ((token_text t @ x) # ws, cs)) (lexW False s)"
  by (cases t) (simp_all add: lexB_bare lexB_quoted)

lemma lexB_token_end: "token_safe t \<Longrightarrow> lexB (token_line t) = Some ([token_text t], [])"
  using lexB_token [of t "[]"] by simp

lemma lexB_token_blank:
  "token_safe t \<Longrightarrow>
   lexB (token_line t @ CHR '' '' # s) = map_option (\<lambda>(ws, cs). (token_text t # ws, cs)) (lexB s)"
  by (simp add: lexB_token option.map_comp comp_def case_prod_unfold)

lemma lexB_token_sep:
  "token_safe t \<Longrightarrow>
   lexB (token_line t @ CHR '';'' # s) =
     map_option (\<lambda>(ws, cs). ([token_text t], ws # cs)) (lexB s)"
  by (simp add: lexB_token option.map_comp comp_def case_prod_unfold)

section \<open>Lexing a rendered line\<close>

lemma lexB_render: "list_all token_safe ts \<Longrightarrow> lexB (render ts) = Some (map token_text ts, [])"
proof (induction ts rule: render.induct)
  case 1
  show ?case by simp
next
  case (2 t)
  then show ?case by (simp add: lexB_token_end)
next
  case (3 t u ts)
  then show ?case by (simp add: lexB_token_blank)
qed

lemma sh_parse_render:
  "list_all token_safe ts \<Longrightarrow> sh_parse (render ts) = Some [map token_text ts]"
  by (simp add: sh_parse_def lexB_render)

lemma render_append:
  "ts \<noteq> [] \<Longrightarrow> us \<noteq> [] \<Longrightarrow> render (ts @ us) = render ts @ CHR '' '' # render us"
  by (induction ts rule: render.induct) (auto simp: neq_Nil_conv)

lemma render_Cons: "ts \<noteq> [] \<Longrightarrow> render (t # ts) = token_line t @ CHR '' '' # render ts"
  by (cases ts) simp_all

lemma lexB_render_sep:
  "ts \<noteq> [] \<Longrightarrow> list_all token_safe ts \<Longrightarrow>
   lexB (render ts @ CHR '';'' # s) = map_option (\<lambda>(ws, cs). (map token_text ts, ws # cs)) (lexB s)"
proof (induction ts rule: render.induct)
  case 1
  then show ?case by simp
next
  case (2 t)
  then show ?case by (simp add: lexB_token_sep)
next
  case (3 t u ts)
  then show ?case
    by (simp add: lexB_token_blank option.map_comp comp_def case_prod_unfold)
qed

lemma sh_parse_two:
  "ts \<noteq> [] \<Longrightarrow> list_all token_safe ts \<Longrightarrow> sh_parse s = Some cs \<Longrightarrow>
   sh_parse (render ts @ CHR '';'' # s) = Some (map token_text ts # cs)"
  by (auto simp: sh_parse_def lexB_render_sep)

lemma bare_safe_words [simp]:
  "bare_safe ''gh''" "bare_safe ''pr''" "bare_safe ''create''" "bare_safe ''list''"
  "bare_safe ''view''" "bare_safe ''comment''" "bare_safe ''echo''"
  "bare_safe ''--title''" "bare_safe ''--body''" "bare_safe ''--base''" "bare_safe ''--head''"
  "bare_safe ''--draft''" "bare_safe ''--state''" "bare_safe ''--limit''"
  "bare_safe ''open''" "bare_safe ''closed''" "bare_safe ''merged''" "bare_safe ''all''"
  by (simp_all add: bare_safe_def classify_def expansion_chars_def meta_chars_def)

lemma list_all_token_safe_Bare [simp]: "list_all token_safe (map Bare ws) \<longleftrightarrow> list_all bare_safe ws"
  by (induction ws) simp_all

lemma map_token_text_Bare [simp]:
  "map token_text (map Bare ws) = ws" "map (token_text \<circ> Bare) ws = ws"
  by (induction ws) simp_all

section \<open>What a parse tells about the line\<close>

text \<open>
  The words of a parse hold no double quote and no expansion character; the
  words of a line without a double quote are plain.  So a line of bare words
  that is read as those words consists of safe words.
\<close>

lemma classify_DQuote_iff: "classify c = DQuote \<longleftrightarrow> c = dquote"
  by (simp add: classify_def)

lemma lex_quote_safe:
  "lexB s = Some (ws, cs) \<Longrightarrow> list_all quote_safe ws \<and> list_all (list_all quote_safe) cs"
  "lexW q s = Some (w, ws, cs) \<Longrightarrow>
     quote_safe w \<and> list_all quote_safe ws \<and> list_all (list_all quote_safe) cs"
proof (induction s and q s arbitrary: ws cs and w ws cs rule: lexB_lexW.induct)
  case 1
  then show ?case by simp
next
  case (2 c s)
  then show ?case
    by (cases "classify c") (auto simp: quote_safe_def)
next
  case (3 q)
  then show ?case by (simp add: quote_safe_def split: if_splits)
next
  case (4 q c s)
  then show ?case
    by (cases "classify c"; cases q) (auto simp: quote_safe_def)
qed

lemma sh_parse_quote_safe:
  "sh_parse s = Some cmds \<Longrightarrow> list_all (list_all quote_safe) cmds"
  by (auto simp: sh_parse_def dest: lex_quote_safe(1))

lemma lex_bare_safe:
  "dquote \<notin> set s \<Longrightarrow> lexB s = Some (ws, cs) \<Longrightarrow>
     list_all bare_safe ws \<and> list_all (list_all bare_safe) cs"
  "dquote \<notin> set s \<Longrightarrow> \<not> q \<Longrightarrow> lexW q s = Some (w, ws, cs) \<Longrightarrow>
     list_all (\<lambda>c. classify c = Plain) w \<and> list_all bare_safe ws \<and>
     list_all (list_all bare_safe) cs"
proof (induction s and q s arbitrary: ws cs and w ws cs rule: lexB_lexW.induct)
  case 1
  then show ?case by simp
next
  case (2 c s)
  then show ?case
    by (cases "classify c") (auto simp: bare_safe_def classify_DQuote_iff)
next
  case (3 q)
  then show ?case by simp
next
  case (4 q c s)
  then show ?case
    by (cases "classify c") (auto simp: bare_safe_def classify_DQuote_iff)
qed

lemma sh_parse_bare_safe:
  "dquote \<notin> set s \<Longrightarrow> sh_parse s = Some cmds \<Longrightarrow> list_all (list_all bare_safe) cmds"
  by (auto simp: sh_parse_def dest: lex_bare_safe(1))

lemma render_Bare_chars: "set (render (map Bare ws)) \<subseteq> \<Union>(set ` set ws) \<union> {CHR '' ''}"
  by (induction ws rule: induct_list012) auto

lemma quote_safe_no_dquote: "quote_safe w \<Longrightarrow> dquote \<notin> set w"
  by (auto simp: quote_safe_def list_all_iff)

lemma sh_parse_bare_words:
  assumes "sh_parse (render (map Bare ws)) = Some [ws]"
  shows "list_all bare_safe ws"
proof -
  from assms have "list_all quote_safe ws"
    using sh_parse_quote_safe by fastforce
  then have "dquote \<notin> set (render (map Bare ws))"
    using render_Bare_chars [of ws] by (auto simp: list_all_iff dest: quote_safe_no_dquote)
  with assms show ?thesis
    using sh_parse_bare_safe by fastforce
qed

lemma token_safe_Bare: "list_all token_safe (map Bare ws) = list_all bare_safe ws"
  by (induction ws) simp_all

end
