(* ===== verification/Argv.thy ===== *)
theory Argv
  imports Commands Shell_Words
begin

text \<open>
  The argument vector a command line stands for, and whether the shell sees
  it.  \<open>tokens_of\<close> gives the command line of validated arguments as tokens,
  each template part of \<^verbatim>\<open>src/src/index.ts\<close> a token written bare or in double
  quotes as the template writes it; \<open>argv\<close> is the vector of their texts
  behind \<^verbatim>\<open>gh\<close>: what an invocation without a shell would pass.  The lemmas
  show that the concatenated command line is exactly the rendering of the
  tokens, so that the shell lemmas apply to it: on arguments that are safe
  where they are written the shell runs one command, \<open>argv\<close>; on others it
  does not, and the last section constructs such arguments.
\<close>

section \<open>Tokens of a command line\<close>

definition flag_tokens :: "string \<Rightarrow> string option \<Rightarrow> token list" where
  "flag_tokens name v =
     (case v of None \<Rightarrow> [] | Some s \<Rightarrow> if s = [] then [] else [Bare (''--'' @ name), Quoted s])"

definition bare_flag_tokens :: "string \<Rightarrow> string option \<Rightarrow> token list" where
  "bare_flag_tokens name v =
     (case v of None \<Rightarrow> [] | Some s \<Rightarrow> if s = [] then [] else [Bare (''--'' @ name), Bare s])"

definition limit_tokens :: "numfmt \<Rightarrow> jsnum option \<Rightarrow> token list" where
  "limit_tokens fmt v =
     (case v of None \<Rightarrow> []
      | Some x \<Rightarrow> if truthy (JNum x) then [Bare ''--limit'', Bare (num_to_string fmt x)] else [])"

fun tokens_of :: "numfmt \<Rightarrow> validated_args \<Rightarrow> token list" where
  "tokens_of fmt (CreateArgs a) =
     [Bare ''pr'', Bare ''create'', Bare ''--title'', Quoted (cr_title a)] @
     flag_tokens ''body'' (cr_body a) @ flag_tokens ''base'' (cr_base a) @
     flag_tokens ''head'' (cr_head a) @ (if cr_draft a = Some True then [Bare ''--draft''] else [])"
| "tokens_of fmt (ListArgs a) =
     [Bare ''pr'', Bare ''list''] @
     bare_flag_tokens ''state'' (map_option state_name (ls_state a)) @
     bare_flag_tokens ''base'' (ls_base a) @ limit_tokens fmt (ls_limit a)"
| "tokens_of fmt (ViewArgs a) =
     [Bare ''pr'', Bare ''view'', Bare (num_to_string fmt (Fin (of_nat (vw_number a))))]"
| "tokens_of fmt (CommentArgs a) =
     [Bare ''pr'', Bare ''comment'', Bare (num_to_string fmt (Fin (of_nat (cm_number a)))),
      Bare ''--body'', Quoted (cm_body a)]"

definition argv :: "numfmt \<Rightarrow> validated_args \<Rightarrow> string list" where
  "argv fmt a = ''gh'' # map token_text (tokens_of fmt a)"

definition shell_safe :: "numfmt \<Rightarrow> validated_args \<Rightarrow> bool" where
  "shell_safe fmt a = list_all token_safe (tokens_of fmt a)"

text \<open>The line passed to \<^verbatim>\<open>execSync\<close> for validated arguments.\<close>

definition gh_line :: "numfmt \<Rightarrow> validated_args \<Rightarrow> string" where
  "gh_line fmt a = ''gh '' @ command_of fmt a"

section \<open>The command line is the rendering of its tokens\<close>

definition tail :: "token list \<Rightarrow> string" where
  "tail ts = concat (map (\<lambda>t. CHR '' '' # token_line t) ts)"

lemma tail_simps [simp]:
  "tail [] = []"
  "tail (t # ts) = CHR '' '' # token_line t @ tail ts"
  "tail (ts @ us) = tail ts @ tail us"
  by (simp_all add: tail_def)

lemma render_tail: "render (t # ts) = token_line t @ tail ts"
  by (induction ts arbitrary: t) simp_all

lemma tail_flag_tokens [simp]: "tail (flag_tokens name v) = opt_flag name v"
  by (simp add: flag_tokens_def opt_flag_def flag_def split: option.splits)

lemma tail_bare_flag_tokens [simp]: "tail (bare_flag_tokens name v) = opt_bare_flag name v"
  by (simp add: bare_flag_tokens_def opt_bare_flag_def bare_flag_def split: option.splits)

lemma tail_limit_tokens [simp]: "tail (limit_tokens fmt v) = limit_flag fmt v"
  by (simp add: limit_tokens_def limit_flag_def bare_flag_def split: option.splits)

lemma command_render: "command_of fmt a = render (tokens_of fmt a)"
  by (cases a) (simp_all add: render_tail typed_command_defs quoted_def)

lemma tail_render: "ts \<noteq> [] \<Longrightarrow> tail ts = CHR '' '' # render ts"
  by (cases ts) (simp_all add: render_tail)

lemma tokens_of_nonempty [simp]: "tokens_of fmt a \<noteq> []"
  by (cases a) simp_all

lemma gh_line_render: "gh_line fmt a = render (Bare ''gh'' # tokens_of fmt a)"
  by (simp add: gh_line_def render_tail [of "Bare ''gh''"] tail_render command_render)

section \<open>Which arguments are safe\<close>

definition opt_all :: "('a \<Rightarrow> bool) \<Rightarrow> 'a option \<Rightarrow> bool" where
  "opt_all P v = (case v of None \<Rightarrow> True | Some x \<Rightarrow> P x)"

lemma opt_all_simps [simp]: "opt_all P None" "opt_all P (Some x) \<longleftrightarrow> P x"
  by (simp_all add: opt_all_def)

lemma safe_flag_tokens [simp]:
  "list_all token_safe (flag_tokens name v) \<longleftrightarrow> opt_all (\<lambda>s. s = [] \<or> bare_safe (''--'' @ name) \<and> quote_safe s) v"
  by (cases v) (simp_all add: flag_tokens_def)

lemma safe_bare_flag_tokens [simp]:
  "list_all token_safe (bare_flag_tokens name v) \<longleftrightarrow>
     opt_all (\<lambda>s. s = [] \<or> bare_safe (''--'' @ name) \<and> bare_safe s) v"
  by (cases v) (simp_all add: bare_flag_tokens_def)

lemma bare_safe_state_name [simp]: "bare_safe (state_name st)"
  by (cases st) simp_all

lemma shell_safe_create:
  "shell_safe fmt (CreateArgs a) \<longleftrightarrow>
     quote_safe (cr_title a) \<and> opt_all quote_safe (cr_body a) \<and>
     opt_all quote_safe (cr_base a) \<and> opt_all quote_safe (cr_head a)"
  by (cases "cr_body a"; cases "cr_base a"; cases "cr_head a") (auto simp: shell_safe_def)

lemma shell_safe_list:
  "shell_safe fmt (ListArgs a) \<longleftrightarrow>
     opt_all (\<lambda>s. s = [] \<or> bare_safe s) (ls_base a) \<and>
     opt_all (\<lambda>x. truthy (JNum x) \<longrightarrow> bare_safe (num_to_string fmt x)) (ls_limit a)"
  by (cases "ls_state a"; cases "ls_base a"; cases "ls_limit a")
     (auto simp: shell_safe_def limit_tokens_def)

lemma shell_safe_view: "vw_number a \<le> 2 ^ 53 \<Longrightarrow> shell_safe fmt (ViewArgs a)"
  by (simp add: shell_safe_def)

lemma shell_safe_comment:
  "cm_number a \<le> 2 ^ 53 \<Longrightarrow> shell_safe fmt (CommentArgs a) \<longleftrightarrow> quote_safe (cm_body a)"
  by (simp add: shell_safe_def)

section \<open>What the shell runs\<close>

lemma sh_parse_gh_line: "shell_safe fmt a \<Longrightarrow> sh_parse (gh_line fmt a) = Some [argv fmt a]"
  by (simp add: gh_line_render sh_parse_render shell_safe_def argv_def del: render.simps)

lemma sh_parse_view_line:
  "vw_number a \<le> 2 ^ 53 \<Longrightarrow>
   sh_parse (gh_line fmt (ViewArgs a)) = Some [[''gh'', ''pr'', ''view'', decimal (vw_number a)]]"
  by (simp add: sh_parse_gh_line shell_safe_view argv_def)

section \<open>Arguments that are not safe\<close>

text \<open>
  A title that closes the double quote the template opened, ends the command
  with \<^verbatim>\<open>;\<close>, spells out the words of another command and opens a quote for
  the template's closing one to close.
\<close>

definition injection :: "string list \<Rightarrow> string" where
  "injection cmd = ''x'' @ [dquote] @ '';'' @ render (map Bare cmd) @ '';echo '' @ [dquote]"

definition titled :: "string \<Rightarrow> validated_args" where
  "titled t = CreateArgs \<lparr>cr_title = t, cr_body = None, cr_base = None, cr_head = None, cr_draft = None\<rparr>"

lemma command_titled: "command_of fmt (titled t) = ''pr create --title '' @ quoted t"
  by (simp add: titled_def create_command_def)

lemma injected_line:
  "''gh '' @ command_of fmt (titled (injection cmd)) =
     render [Bare ''gh'', Bare ''pr'', Bare ''create'', Bare ''--title'', Quoted ''x''] @ CHR '';'' #
     render (map Bare cmd) @ CHR '';'' # render [Bare ''echo'', Quoted []]"
  by (simp add: command_titled injection_def quoted_def)

lemma sh_parse_injected:
  assumes "cmd \<noteq> []" and "list_all bare_safe cmd"
  shows "sh_parse (gh_line fmt (titled (injection cmd))) =
           Some [[''gh'', ''pr'', ''create'', ''--title'', ''x''], cmd, [''echo'', []]]"
proof -
  have "sh_parse (render [Bare ''echo'', Quoted []]) = Some [[''echo'', []]]"
    by (simp add: sh_parse_render del: render.simps)
  with assms have "sh_parse (render (map Bare cmd) @ CHR '';'' # render [Bare ''echo'', Quoted []]) =
      Some [cmd, [''echo'', []]]"
    using sh_parse_two [of "map Bare cmd"] by (simp del: render.simps)
  then have "sh_parse (render [Bare ''gh'', Bare ''pr'', Bare ''create'', Bare ''--title'', Quoted ''x''] @
      CHR '';'' # render (map Bare cmd) @ CHR '';'' # render [Bare ''echo'', Quoted []]) =
      Some [[''gh'', ''pr'', ''create'', ''--title'', ''x''], cmd, [''echo'', []]]"
    using sh_parse_two
      [of "[Bare ''gh'', Bare ''pr'', Bare ''create'', Bare ''--title'', Quoted ''x'']"]
    by (simp add: classify_def expansion_chars_def del: render.simps)
  then show ?thesis
    by (simp only: gh_line_def injected_line)
qed

text \<open>
  A base branch that holds a blank: the template of \<^verbatim>\<open>list_prs\<close> writes it
  bare, so the shell makes two words of it and \<^verbatim>\<open>gh\<close> receives the second as
  an argument of its own.
\<close>

definition based :: "string \<Rightarrow> validated_args" where
  "based b = ListArgs \<lparr>ls_state = None, ls_base = Some b, ls_limit = None\<rparr>"

lemma sh_parse_split_base:
  assumes "bare_safe b" and "bare_safe extra"
  shows "sh_parse (gh_line fmt (based (b @ '' '' @ extra))) =
           Some [[''gh'', ''pr'', ''list'', ''--base'', b, extra]]"
    and "argv fmt (based (b @ '' '' @ extra)) = [''gh'', ''pr'', ''list'', ''--base'', b @ '' '' @ extra]"
proof -
  have "gh_line fmt (based (b @ '' '' @ extra)) =
      render [Bare ''gh'', Bare ''pr'', Bare ''list'', Bare ''--base'', Bare b, Bare extra]"
    by (simp add: gh_line_def based_def list_command_def bare_flag_def opt_bare_flag_def)
  with assms show "sh_parse (gh_line fmt (based (b @ '' '' @ extra))) =
      Some [[''gh'', ''pr'', ''list'', ''--base'', b, extra]]"
    by (simp add: sh_parse_render del: render.simps)
  show "argv fmt (based (b @ '' '' @ extra)) = [''gh'', ''pr'', ''list'', ''--base'', b @ '' '' @ extra]"
    by (simp add: argv_def based_def bare_flag_tokens_def limit_tokens_def)
qed

text \<open>
  A base branch that ends the command: \<^verbatim>\<open>;\<close> is no quote character, and
  between no quotes it separates commands, so the words after it are a command
  of their own.
\<close>

definition base_injection :: "string \<Rightarrow> string list \<Rightarrow> string" where
  "base_injection b cmd = b @ '';'' @ render (map Bare cmd)"

lemma sh_parse_base_injected:
  assumes "bare_safe b" and "cmd \<noteq> []" and "list_all bare_safe cmd"
  shows "sh_parse (gh_line fmt (based (base_injection b cmd))) =
           Some [[''gh'', ''pr'', ''list'', ''--base'', b], cmd]"
proof -
  have "gh_line fmt (based (base_injection b cmd)) =
      render [Bare ''gh'', Bare ''pr'', Bare ''list'', Bare ''--base'', Bare b] @ CHR '';'' #
      render (map Bare cmd)"
    by (simp add: gh_line_def based_def list_command_def bare_flag_def opt_bare_flag_def
        base_injection_def)
  moreover from assms have "sh_parse (render (map Bare cmd)) = Some [cmd]"
    using sh_parse_render [of "map Bare cmd"] by (simp add: list_all_iff comp_def)
  ultimately show ?thesis
    using assms sh_parse_two [of "[Bare ''gh'', Bare ''pr'', Bare ''list'', Bare ''--base'', Bare b]"]
    by (simp del: render.simps)
qed

end
