(* ===== verification/Executor.thy ===== *)
theory Executor
  imports Js_Value
begin

text \<open>
  \<^verbatim>\<open>executeGhCommand\<close> of \<^verbatim>\<open>src/src/index.ts\<close> and what surrounds it.  The
  server owns no state; what it changes is the world outside it, through the
  process that \<^verbatim>\<open>execSync\<close> runs.  A \<open>runtime\<close> collects the three things the
  source calls and does not define: \<^verbatim>\<open>child_process.execSync\<close>, as a function
  from the command line and the world before the call to the outcome and the
  world after it; the number formatting of the language outside the integers
  up to \<open>2 ^ 53\<close>; and the \<^verbatim>\<open>message\<close> that an \<^verbatim>\<open>McpError\<close> of the SDK carries
  once it is built from a code and a text.  The world is a type variable: the
  theorems hold for every world, and \<open>recording\<close> instantiates it with the list
  of command lines run so far.
\<close>

section \<open>Errors\<close>

datatype ErrorCode = InvalidParams | MethodNotFound | InternalError

text \<open>
  What a \<^verbatim>\<open>throw\<close> carries: an \<^verbatim>\<open>McpError\<close> with the code and the text it was
  built from, or any other value (the source rethrows what is not an
  \<^verbatim>\<open>Error\<close>, and what is not an \<^verbatim>\<open>McpError\<close>).
\<close>

datatype exn = McpError ErrorCode string | Thrown jsval

section \<open>The runtime\<close>

text \<open>
  The outcome of \<^verbatim>\<open>execSync\<close>: the standard output of the process (exit status
  zero), an \<^verbatim>\<open>Error\<close> with its message (non-zero exit, failure to spawn), or
  a thrown value that is no \<^verbatim>\<open>Error\<close>.
\<close>

datatype exec_result = Stdout string | ThrowsError string | ThrowsValue jsval

record 'w runtime =
  execSync :: "string \<Rightarrow> 'w \<Rightarrow> exec_result \<times> 'w"
  numberToString :: numfmt
  errorMessage :: "ErrorCode \<Rightarrow> string \<Rightarrow> string"

section \<open>The executor\<close>

definition executeGhCommand :: "'w runtime \<Rightarrow> command \<Rightarrow> 'w \<Rightarrow> (exn + string) \<times> 'w" where
  "executeGhCommand rt command w =
     (case execSync rt (''gh '' @ command) w of
        (Stdout out, w') \<Rightarrow> (Inr out, w')
      | (ThrowsError msg, w') \<Rightarrow> (Inl (McpError InternalError (''GitHub CLI error: '' @ msg)), w')
      | (ThrowsValue v, w') \<Rightarrow> (Inl (Thrown v), w'))"

lemmas [handler_defs] = executeGhCommand_def

section \<open>A runtime that records what it runs\<close>

text \<open>
  The world of \<open>recording\<close> is the list of command lines passed to
  \<^verbatim>\<open>execSync\<close>, oldest first; the outcome of each call is given by \<open>respond\<close>.
\<close>

definition recording :: "(string \<Rightarrow> exec_result) \<Rightarrow> numfmt \<Rightarrow> string list runtime" where
  "recording respond fmt =
     \<lparr>execSync = (\<lambda>line tr. (respond line, tr @ [line])),
      numberToString = fmt,
      errorMessage = (\<lambda>c msg. msg)\<rparr>"

section \<open>Behaviour of the executor\<close>

lemma executeGhCommand_success:
  "execSync rt (''gh '' @ command) w = (Stdout out, w') \<Longrightarrow>
   executeGhCommand rt command w = (Inr out, w')"
  by (simp add: executeGhCommand_def)

lemma executeGhCommand_error:
  "execSync rt (''gh '' @ command) w = (ThrowsError msg, w') \<Longrightarrow>
   executeGhCommand rt command w = (Inl (McpError InternalError (''GitHub CLI error: '' @ msg)), w')"
  by (simp add: executeGhCommand_def)

lemma executeGhCommand_rethrow:
  "execSync rt (''gh '' @ command) w = (ThrowsValue v, w') \<Longrightarrow>
   executeGhCommand rt command w = (Inl (Thrown v), w')"
  by (simp add: executeGhCommand_def)

lemma executeGhCommand_world:
  "snd (executeGhCommand rt command w) = snd (execSync rt (''gh '' @ command) w)"
  by (simp add: executeGhCommand_def split: prod.splits exec_result.splits)

lemma executeGhCommand_cases:
  obtains (stdout) out w' where "execSync rt (''gh '' @ command) w = (Stdout out, w')"
      "executeGhCommand rt command w = (Inr out, w')"
  | (error) msg w' where "execSync rt (''gh '' @ command) w = (ThrowsError msg, w')"
      "executeGhCommand rt command w =
         (Inl (McpError InternalError (''GitHub CLI error: '' @ msg)), w')"
  | (rethrow) v w' where "execSync rt (''gh '' @ command) w = (ThrowsValue v, w')"
      "executeGhCommand rt command w = (Inl (Thrown v), w')"
proof (cases "execSync rt (''gh '' @ command) w")
  case (Pair r w')
  then show ?thesis
    by (cases r) (auto intro: that simp: executeGhCommand_def)
qed

lemma executeGhCommand_never_invalid:
  "fst (executeGhCommand rt command w) \<noteq> Inl (McpError InvalidParams msg)"
  "fst (executeGhCommand rt command w) \<noteq> Inl (McpError MethodNotFound msg)"
  by (cases rule: executeGhCommand_cases [of rt command w]; simp)+

lemma recording_execSync [simp]:
  "execSync (recording respond fmt) line tr = (respond line, tr @ [line])"
  by (simp add: recording_def)

lemma recording_fields [simp]:
  "numberToString (recording respond fmt) = fmt"
  "errorMessage (recording respond fmt) c msg = msg"
  by (simp_all add: recording_def)

lemma executeGhCommand_recording:
  "snd (executeGhCommand (recording respond fmt) command tr) = tr @ [''gh '' @ command]"
  by (simp add: executeGhCommand_world)

end
