(* ===== verification/Dispatcher.thy ===== *)
theory Dispatcher
  imports Commands Executor
begin

text \<open>
  The handler that \<^verbatim>\<open>setupToolHandlers\<close> of \<^verbatim>\<open>src/src/index.ts\<close> registers for
  \<^verbatim>\<open>CallToolRequestSchema\<close>: a \<^verbatim>\<open>switch\<close> on the tool name with one case per
  tool and a default.  Each case is one definition (\<open>handle_create_pr\<close>, ...)
  holding the guard, the command line and the \<^verbatim>\<open>try\<close>/\<^verbatim>\<open>catch\<close> around
  \<^verbatim>\<open>executeGhCommand\<close>; \<open>handle_default\<close> is the default and \<open>call_tool\<close> is
  the \<^verbatim>\<open>switch\<close>.  A handler returns a
  reply or throws, and passes the world on: \<open>Inl\<close> is the thrown value (the
  SDK turns it into a protocol error), \<open>Inr\<close> the reply.

  The lemmas give the behaviour of \<open>call_tool\<close> on each branch, errors
  included, through three facts about \<open>run_command\<close>, the \<^verbatim>\<open>try\<close>/\<^verbatim>\<open>catch\<close>
  that the four cases share word for word.
\<close>

section \<open>Requests and replies\<close>

record ToolRequest =
  name :: string
  arguments :: jsval

record TextContent =
  content_type :: string
  content_text :: string

record ToolReply =
  content :: "TextContent list"
  isError :: "bool option"

type_synonym 'w handler = "'w \<Rightarrow> (exn + ToolReply) \<times> 'w"

section \<open>The four cases\<close>

definition handle_create_pr :: "'w runtime \<Rightarrow> jsval \<Rightarrow> 'w handler" where
  "handle_create_pr rt args w =
     (if \<not> isValidCreatePrArgs args
      then (Inl (McpError InvalidParams ''Invalid create_pr arguments''), w)
      else
        let command = create_pr_command (numberToString rt) args
        in case executeGhCommand rt command w of
             (Inr result, w') \<Rightarrow>
               (Inr \<lparr>content = [\<lparr>content_type = ''text'', content_text = result\<rparr>],
                     isError = None\<rparr>, w')
           | (Inl (McpError c msg), w') \<Rightarrow>
               (Inr \<lparr>content = [\<lparr>content_type = ''text'',
                                  content_text = errorMessage rt c msg\<rparr>],
                     isError = Some True\<rparr>, w')
           | (Inl (Thrown v), w') \<Rightarrow> (Inl (Thrown v), w'))"

definition handle_list_prs :: "'w runtime \<Rightarrow> jsval \<Rightarrow> 'w handler" where
  "handle_list_prs rt args w =
     (if \<not> isValidListPrArgs args
      then (Inl (McpError InvalidParams ''Invalid list_prs arguments''), w)
      else
        let command = list_prs_command (numberToString rt) args
        in case executeGhCommand rt command w of
             (Inr result, w') \<Rightarrow>
               (Inr \<lparr>content = [\<lparr>content_type = ''text'', content_text = result\<rparr>],
                     isError = None\<rparr>, w')
           | (Inl (McpError c msg), w') \<Rightarrow>
               (Inr \<lparr>content = [\<lparr>content_type = ''text'',
                                  content_text = errorMessage rt c msg\<rparr>],
                     isError = Some True\<rparr>, w')
           | (Inl (Thrown v), w') \<Rightarrow> (Inl (Thrown v), w'))"

definition handle_view_pr :: "'w runtime \<Rightarrow> jsval \<Rightarrow> 'w handler" where
  "handle_view_pr rt args w =
     (if \<not> isValidViewPrArgs args
      then (Inl (McpError InvalidParams ''Invalid view_pr arguments''), w)
      else
        let command = view_pr_command (numberToString rt) args
        in case executeGhCommand rt command w of
             (Inr result, w') \<Rightarrow>
               (Inr \<lparr>content = [\<lparr>content_type = ''text'', content_text = result\<rparr>],
                     isError = None\<rparr>, w')
           | (Inl (McpError c msg), w') \<Rightarrow>
               (Inr \<lparr>content = [\<lparr>content_type = ''text'',
                                  content_text = errorMessage rt c msg\<rparr>],
                     isError = Some True\<rparr>, w')
           | (Inl (Thrown v), w') \<Rightarrow> (Inl (Thrown v), w'))"

definition handle_comment_pr :: "'w runtime \<Rightarrow> jsval \<Rightarrow> 'w handler" where
  "handle_comment_pr rt args w =
     (if \<not> isValidCommentPrArgs args
      then (Inl (McpError InvalidParams ''Invalid comment_pr arguments''), w)
      else
        let command = comment_pr_command (numberToString rt) args
        in case executeGhCommand rt command w of
             (Inr result, w') \<Rightarrow>
               (Inr \<lparr>content = [\<lparr>content_type = ''text'', content_text = result\<rparr>],
                     isError = None\<rparr>, w')
           | (Inl (McpError c msg), w') \<Rightarrow>
               (Inr \<lparr>content = [\<lparr>content_type = ''text'',
                                  content_text = errorMessage rt c msg\<rparr>],
                     isError = Some True\<rparr>, w')
           | (Inl (Thrown v), w') \<Rightarrow> (Inl (Thrown v), w'))"

text \<open>The default of the \<^verbatim>\<open>switch\<close> (lines 374-378): no tool of that name.\<close>

definition handle_default :: "ToolRequest \<Rightarrow> 'w handler" where
  [simp]: "handle_default request w =
     (Inl (McpError MethodNotFound (''Unknown tool: '' @ name request)), w)"

section \<open>The switch\<close>

definition call_tool :: "'w runtime \<Rightarrow> ToolRequest \<Rightarrow> 'w handler" where
  "call_tool rt request w =
     (if name request = ''create_pr'' then handle_create_pr rt (arguments request) w
      else if name request = ''list_prs'' then handle_list_prs rt (arguments request) w
      else if name request = ''view_pr'' then handle_view_pr rt (arguments request) w
      else if name request = ''comment_pr'' then handle_comment_pr rt (arguments request) w
      else handle_default request w)"

lemmas [handler_defs] =
  handle_create_pr_def handle_list_prs_def handle_view_pr_def handle_comment_pr_def call_tool_def

section \<open>The shared try/catch\<close>

definition text_reply :: "string \<Rightarrow> ToolReply" where
  "text_reply result =
     \<lparr>content = [\<lparr>content_type = ''text'', content_text = result\<rparr>], isError = None\<rparr>"

definition error_reply :: "string \<Rightarrow> ToolReply" where
  "error_reply msg =
     \<lparr>content = [\<lparr>content_type = ''text'', content_text = msg\<rparr>], isError = Some True\<rparr>"

definition run_command :: "'w runtime \<Rightarrow> command \<Rightarrow> 'w handler" where
  "run_command rt command w =
     (case execSync rt (''gh '' @ command) w of
        (Stdout out, w') \<Rightarrow> (Inr (text_reply out), w')
      | (ThrowsError msg, w') \<Rightarrow>
          (Inr (error_reply (errorMessage rt InternalError (''GitHub CLI error: '' @ msg))), w')
      | (ThrowsValue v, w') \<Rightarrow> (Inl (Thrown v), w'))"

lemma try_catch_run_command:
  "(case executeGhCommand rt command w of
      (Inr result, w') \<Rightarrow>
        (Inr \<lparr>content = [\<lparr>content_type = ''text'', content_text = result\<rparr>],
              isError = None\<rparr>, w')
    | (Inl (McpError c msg), w') \<Rightarrow>
        (Inr \<lparr>content = [\<lparr>content_type = ''text'', content_text = errorMessage rt c msg\<rparr>],
              isError = Some True\<rparr>, w')
    | (Inl (Thrown v), w') \<Rightarrow> (Inl (Thrown v), w')) = run_command rt command w"
  by (cases rule: executeGhCommand_cases [of rt command w])
     (simp_all add: run_command_def text_reply_def error_reply_def)

lemma handle_create_pr_eq:
  "handle_create_pr rt args w =
     (if isValidCreatePrArgs args
      then run_command rt (create_pr_command (numberToString rt) args) w
      else (Inl (McpError InvalidParams ''Invalid create_pr arguments''), w))"
  by (simp add: handle_create_pr_def try_catch_run_command)

lemma handle_list_prs_eq:
  "handle_list_prs rt args w =
     (if isValidListPrArgs args
      then run_command rt (list_prs_command (numberToString rt) args) w
      else (Inl (McpError InvalidParams ''Invalid list_prs arguments''), w))"
  by (simp add: handle_list_prs_def try_catch_run_command)

lemma handle_view_pr_eq:
  "handle_view_pr rt args w =
     (if isValidViewPrArgs args
      then run_command rt (view_pr_command (numberToString rt) args) w
      else (Inl (McpError InvalidParams ''Invalid view_pr arguments''), w))"
  by (simp add: handle_view_pr_def try_catch_run_command)

lemma handle_comment_pr_eq:
  "handle_comment_pr rt args w =
     (if isValidCommentPrArgs args
      then run_command rt (comment_pr_command (numberToString rt) args) w
      else (Inl (McpError InvalidParams ''Invalid comment_pr arguments''), w))"
  by (simp add: handle_comment_pr_def try_catch_run_command)

lemmas handle_eqs = handle_create_pr_eq handle_list_prs_eq handle_view_pr_eq handle_comment_pr_eq

section \<open>Facts about replies and the try/catch\<close>

lemma reply_simps [simp]:
  "isError (text_reply out) = None"
  "isError (error_reply msg) = Some True"
  "content (text_reply out) = [\<lparr>content_type = ''text'', content_text = out\<rparr>]"
  "content (error_reply msg) = [\<lparr>content_type = ''text'', content_text = msg\<rparr>]"
  by (simp_all add: text_reply_def error_reply_def)

lemma text_reply_neq_error_reply [simp]: "text_reply out \<noteq> error_reply msg"
  by (simp add: text_reply_def error_reply_def)

lemma run_command_stdout:
  "execSync rt (''gh '' @ command) w = (Stdout out, w') \<Longrightarrow>
   run_command rt command w = (Inr (text_reply out), w')"
  by (simp add: run_command_def)

lemma run_command_error:
  "execSync rt (''gh '' @ command) w = (ThrowsError msg, w') \<Longrightarrow>
   run_command rt command w =
     (Inr (error_reply (errorMessage rt InternalError (''GitHub CLI error: '' @ msg))), w')"
  by (simp add: run_command_def)

lemma run_command_rethrow:
  "execSync rt (''gh '' @ command) w = (ThrowsValue v, w') \<Longrightarrow>
   run_command rt command w = (Inl (Thrown v), w')"
  by (simp add: run_command_def)

lemma run_command_world:
  "snd (run_command rt command w) = snd (execSync rt (''gh '' @ command) w)"
  by (simp add: run_command_def split: prod.splits exec_result.splits)

lemma run_command_no_mcp_error: "fst (run_command rt command w) \<noteq> Inl (McpError c msg)"
  by (simp add: run_command_def split: prod.splits exec_result.splits)

lemma run_command_recording:
  "snd (run_command (recording respond fmt) command tr) = tr @ [''gh '' @ command]"
  by (simp add: run_command_world)

section \<open>The dispatch table\<close>

text \<open>
  What the handler promises, as a table: a closed set of tools, each with its
  name, its guard and its command line, and one procedure for all of them
  (look the tool up, check the arguments, build, run).  \<open>table_call_tool\<close> is
  that procedure; \<open>call_tool\<close> is shown to implement it.
\<close>

datatype tool = CreatePr | ListPrs | ViewPr | CommentPr

fun tool_name :: "tool \<Rightarrow> string" where
  "tool_name CreatePr = ''create_pr''"
| "tool_name ListPrs = ''list_prs''"
| "tool_name ViewPr = ''view_pr''"
| "tool_name CommentPr = ''comment_pr''"

definition tools :: "tool list" where
  "tools = [CreatePr, ListPrs, ViewPr, CommentPr]"

definition tool_of_name :: "string \<Rightarrow> tool option" where
  "tool_of_name n = find (\<lambda>t. tool_name t = n) tools"

fun tool_valid :: "tool \<Rightarrow> jsval \<Rightarrow> bool" where
  "tool_valid CreatePr = isValidCreatePrArgs"
| "tool_valid ListPrs = isValidListPrArgs"
| "tool_valid ViewPr = isValidViewPrArgs"
| "tool_valid CommentPr = isValidCommentPrArgs"

fun tool_command :: "tool \<Rightarrow> numfmt \<Rightarrow> jsval \<Rightarrow> command" where
  "tool_command CreatePr = create_pr_command"
| "tool_command ListPrs = list_prs_command"
| "tool_command ViewPr = view_pr_command"
| "tool_command CommentPr = comment_pr_command"

definition table_call_tool :: "'w runtime \<Rightarrow> ToolRequest \<Rightarrow> 'w handler" where
  "table_call_tool rt request w =
     (case tool_of_name (name request) of
        None \<Rightarrow> (Inl (McpError MethodNotFound (''Unknown tool: '' @ name request)), w)
      | Some t \<Rightarrow>
          if tool_valid t (arguments request)
          then run_command rt (tool_command t (numberToString rt) (arguments request)) w
          else (Inl (McpError InvalidParams (''Invalid '' @ tool_name t @ '' arguments'')), w))"

text \<open>The command line a request leads to, if it leads to one.\<close>

definition request_command :: "numfmt \<Rightarrow> ToolRequest \<Rightarrow> command option" where
  "request_command fmt request =
     (case tool_of_name (name request) of
        None \<Rightarrow> None
      | Some t \<Rightarrow> if tool_valid t (arguments request)
                  then Some (tool_command t fmt (arguments request)) else None)"

lemma set_tools [simp]: "set tools = UNIV"
proof -
  have "t \<in> set tools" for t
    by (cases t) (simp_all add: tools_def)
  then show ?thesis by auto
qed

lemma distinct_tools [simp]: "distinct tools"
  by (simp add: tools_def)

lemma tool_of_name_simps [simp]:
  "tool_of_name ''create_pr'' = Some CreatePr"
  "tool_of_name ''list_prs'' = Some ListPrs"
  "tool_of_name ''view_pr'' = Some ViewPr"
  "tool_of_name ''comment_pr'' = Some CommentPr"
  by (simp_all add: tool_of_name_def tools_def)

lemma tool_of_name_Some_iff [simp]: "tool_of_name n = Some t \<longleftrightarrow> n = tool_name t"
  by (cases t) (auto simp: tool_of_name_def tools_def)

lemma tool_of_name_tool_name [simp]: "tool_of_name (tool_name t) = Some t"
  by simp

lemma tool_of_name_None_iff:
  "tool_of_name n = None \<longleftrightarrow> n \<notin> {''create_pr'', ''list_prs'', ''view_pr'', ''comment_pr''}"
  by (auto simp: tool_of_name_def tools_def)

lemma tool_name_inject [simp]: "tool_name s = tool_name t \<longleftrightarrow> s = t"
  by (metis option.inject tool_of_name_tool_name)

lemma call_tool_tool:
  "call_tool rt \<lparr>name = tool_name t, arguments = args\<rparr> w =
     (if tool_valid t args then run_command rt (tool_command t (numberToString rt) args) w
      else (Inl (McpError InvalidParams (''Invalid '' @ tool_name t @ '' arguments'')), w))"
  by (cases t) (simp_all add: call_tool_def handle_eqs)

lemma call_tool_no_tool:
  "tool_of_name (name request) = None \<Longrightarrow>
   call_tool rt request w = (Inl (McpError MethodNotFound (''Unknown tool: '' @ name request)), w)"
  by (simp add: tool_of_name_None_iff call_tool_def)

lemma call_tool_table: "call_tool rt request w = table_call_tool rt request w"
proof (cases "tool_of_name (name request)")
  case None
  then show ?thesis
    by (simp add: call_tool_no_tool table_call_tool_def)
next
  case (Some t)
  then have "request = \<lparr>name = tool_name t, arguments = arguments request\<rparr>"
    by simp
  then have "call_tool rt request w =
      call_tool rt \<lparr>name = tool_name t, arguments = arguments request\<rparr> w"
    by simp
  with Some show ?thesis
    by (simp only: call_tool_tool table_call_tool_def option.case)
qed

lemma table_call_tool_command:
  "table_call_tool rt request w =
     (case request_command (numberToString rt) request of
        Some command \<Rightarrow> run_command rt command w
      | None \<Rightarrow> (case tool_of_name (name request) of
          None \<Rightarrow> (Inl (McpError MethodNotFound (''Unknown tool: '' @ name request)), w)
        | Some t \<Rightarrow> (Inl (McpError InvalidParams (''Invalid '' @ tool_name t @ '' arguments'')), w)))"
  by (simp add: table_call_tool_def request_command_def split: option.splits)

section \<open>Validation as a typed reading\<close>

text \<open>
  \<open>validate\<close> is the guard of a tool together with the reading of the value
  at the tool's interface; \<open>to_js\<close> writes validated arguments back as the
  object a caller would send, and \<open>tool_fields\<close> names the properties each
  guard reads.
\<close>

fun validate :: "tool \<Rightarrow> jsval \<Rightarrow> validated_args option" where
  "validate CreatePr args = map_option CreateArgs (as_CreatePrArgs args)"
| "validate ListPrs args = map_option ListArgs (as_ListPrArgs args)"
| "validate ViewPr args = map_option ViewArgs (as_ViewPrArgs args)"
| "validate CommentPr args = map_option CommentArgs (as_CommentPrArgs args)"

fun tool_of :: "validated_args \<Rightarrow> tool" where
  "tool_of (CreateArgs a) = CreatePr"
| "tool_of (ListArgs a) = ListPrs"
| "tool_of (ViewArgs a) = ViewPr"
| "tool_of (CommentArgs a) = CommentPr"

fun tool_fields :: "tool \<Rightarrow> string list" where
  "tool_fields CreatePr = [''title'', ''body'', ''base'', ''head'', ''draft'']"
| "tool_fields ListPrs = [''state'', ''base'', ''limit'']"
| "tool_fields ViewPr = [''number'']"
| "tool_fields CommentPr = [''number'', ''body'']"

fun field :: "string \<Rightarrow> jsval option \<Rightarrow> (string \<times> jsval) list" where
  "field k None = []"
| "field k (Some v) = [(k, v)]"

fun to_js :: "validated_args \<Rightarrow> jsval" where
  "to_js (CreateArgs a) =
     JObj ([(''title'', JStr (cr_title a))] @
           field ''body'' (map_option JStr (cr_body a)) @
           field ''base'' (map_option JStr (cr_base a)) @
           field ''head'' (map_option JStr (cr_head a)) @
           field ''draft'' (map_option JBool (cr_draft a)))"
| "to_js (ListArgs a) =
     JObj (field ''state'' (map_option (JStr \<circ> state_name) (ls_state a)) @
           field ''base'' (map_option JStr (ls_base a)) @
           field ''limit'' (map_option JNum (ls_limit a)))"
| "to_js (ViewArgs a) = JObj [(''number'', JNum (Fin (of_nat (vw_number a))))]"
| "to_js (CommentArgs a) =
     JObj [(''number'', JNum (Fin (of_nat (cm_number a)))), (''body'', JStr (cm_body a))]"

lemma validate_None_iff [simp]: "validate t args = None \<longleftrightarrow> \<not> tool_valid t args"
  by (cases t) (simp_all add: as_args_defs)

lemma validate_Some_valid: "validate t args = Some a \<Longrightarrow> tool_valid t args"
  by (metis option.distinct(1) validate_None_iff)

lemma validate_tool_of: "validate t args = Some a \<Longrightarrow> tool_of a = t"
  by (cases t) auto

lemma validate_command:
  "validate t args = Some a \<Longrightarrow> tool_command t fmt args = command_of fmt a"
  by (cases t)
     (auto simp: create_command_of_typed list_command_of_typed view_command_of_typed
        comment_command_of_typed)

lemma validate_args_ok: "validate t args = Some a \<Longrightarrow> args_ok a"
  by (cases t) (auto dest: as_ViewPrArgs_positive as_CommentPrArgs_positive)

lemma get_prop_field [simp]:
  "get_prop (JObj (field k v @ kvs)) k' =
     (if k' = k \<and> v \<noteq> None then the v else get_prop (JObj kvs) k')"
  by (cases v) simp_all

lemma get_prop_Cons [simp]:
  "get_prop (JObj ((k, v) # kvs)) k' = (if k' = k then v else get_prop (JObj kvs) k')"
  by simp

lemma get_prop_Nil [simp]: "get_prop (JObj []) k = JUndefined"
  by simp

lemma get_prop_cong:
  "map_of kvs' k = map_of kvs k \<Longrightarrow> get_prop (JObj kvs') k = get_prop (JObj kvs) k"
  by simp

lemma opt_string_map [simp]: "v \<noteq> None \<Longrightarrow> opt_string (the (map_option JStr v)) = v"
  by (cases v) simp_all

lemma opt_state_state_name [simp]: "opt_state (JStr (state_name st)) = Some st"
  by (cases st) simp_all

lemma array_includes_state_name [simp]: "array_includes pr_states (JStr (state_name st))"
  by (cases st) (simp_all add: array_includes_pr_states)

lemma create_to_js: "as_CreatePrArgs (to_js (CreateArgs a)) = Some a"
  by (cases a; cases "cr_body a"; cases "cr_base a"; cases "cr_head a"; cases "cr_draft a")
     (simp_all add: as_CreatePrArgs_def isValidCreatePrArgs_def)

lemma list_to_js: "as_ListPrArgs (to_js (ListArgs a)) = Some a"
  by (cases a; cases "ls_state a"; cases "ls_base a"; cases "ls_limit a")
     (simp_all add: as_ListPrArgs_def isValidListPrArgs_def del: opt_state.simps(1))

lemma view_to_js: "0 < vw_number a \<Longrightarrow> as_ViewPrArgs (to_js (ViewArgs a)) = Some a"
  by (cases a) (simp add: as_ViewPrArgs_def isValidViewPrArgs_def)

lemma comment_to_js: "0 < cm_number a \<Longrightarrow> as_CommentPrArgs (to_js (CommentArgs a)) = Some a"
  by (cases a) (simp add: as_CommentPrArgs_def isValidCommentPrArgs_def)

lemmas to_js_read = create_to_js list_to_js view_to_js comment_to_js

text \<open>
  Claim C25 (refinement).  Validation is a typed reading: when the guard of a
  tool accepts a value, the value read at the tool's interface satisfies the
  invariant of validated arguments (a pull-request number is positive), and the
  command line the handler assembles from the untyped value with \<^verbatim>\<open>if (x)\<close>
  tests and template literals is the command line of the typed record.
\<close>

theorem validation_reads_typed:
  assumes "validate t args = Some a"
  shows "tool_valid t args \<and> tool_of a = t \<and> args_ok a \<and>
         tool_command t fmt args = command_of fmt a"
  using assms
  by (simp add: validate_Some_valid validate_tool_of validate_args_ok validate_command)

theorem validation_reads_typed_witness:
  "validate CreatePr (JObj [(''title'', JStr ''Add X''), (''draft'', JBool True)]) =
     Some (CreateArgs \<lparr>cr_title = ''Add X'', cr_body = None, cr_base = None, cr_head = None,
                       cr_draft = Some True\<rparr>) \<and>
   tool_command CreatePr (\<lambda>q. []) (JObj [(''title'', JStr ''Add X''), (''draft'', JBool True)]) =
     ''pr create --title '' @ quoted ''Add X'' @ '' --draft''"
proof -
  let ?args = "JObj [(''title'', JStr ''Add X''), (''draft'', JBool True)]"
  let ?a = "CreateArgs \<lparr>cr_title = ''Add X'', cr_body = None, cr_base = None, cr_head = None,
                        cr_draft = Some True\<rparr>"
  have v: "validate CreatePr ?args = Some ?a"
    by (simp add: as_CreatePrArgs_def isValidCreatePrArgs_def)
  show ?thesis
    using v validation_reads_typed [OF v, of "\<lambda>q. []"] by (simp add: create_command_def)
qed

text \<open>
  Claim C26 (roundtrip).  Every typed argument record that satisfies the
  invariant is accepted: written as the object a caller would send (absent
  optional fields left out), it passes the guard of its tool and is read back
  unchanged.
\<close>

theorem validate_to_js:
  assumes "args_ok a"
  shows "validate (tool_of a) (to_js a) = Some a"
  using assms by (cases a) (simp_all add: to_js_read del: to_js.simps)

theorem validate_to_js_witness:
  "args_ok (CommentArgs \<lparr>cm_number = 123, cm_body = ''LGTM!''\<rparr>) \<and>
   validate CommentPr (JObj [(''number'', JNum (Fin 123)), (''body'', JStr ''LGTM!'')]) =
     Some (CommentArgs \<lparr>cm_number = 123, cm_body = ''LGTM!''\<rparr>)"
  using validate_to_js [of "CommentArgs \<lparr>cm_number = 123, cm_body = ''LGTM!''\<rparr>"]
  by simp

text \<open>
  Claim C27 (functional).  Unknown extra fields are ignored: two argument
  objects that agree on the properties a tool's guard reads get the same
  verdict, the same typed reading and the same command line, whatever else they
  hold.
\<close>

theorem guards_read_own_fields:
  assumes "\<forall>k \<in> set (tool_fields t). map_of kvs' k = map_of kvs k"
  shows "validate t (JObj kvs') = validate t (JObj kvs) \<and>
         tool_command t fmt (JObj kvs') = tool_command t fmt (JObj kvs)"
  using assms
  by (cases t) (simp_all add: as_args_defs validator_defs command_defs)

theorem guards_read_own_fields_witness:
  "validate ViewPr (JObj [(''number'', JNum (Fin 7)), (''repo'', JStr ''o/r'')]) =
     validate ViewPr (JObj [(''number'', JNum (Fin 7))]) \<and>
   tool_command ViewPr (\<lambda>q. []) (JObj [(''number'', JNum (Fin 7)), (''repo'', JStr ''o/r'')]) =
     ''pr view 7''"
proof -
  have h: "\<forall>k \<in> set (tool_fields ViewPr).
      map_of [(''number'', JNum (Fin 7)), (''repo'', JStr ''o/r'')] k = map_of [(''number'', JNum (Fin 7))] k"
    by simp
  have c: "view_pr_command (\<lambda>q. []) (JObj [(''number'', JNum (Fin 7))]) = ''pr view 7''"
    by (simp add: view_pr_command_def)
  show ?thesis
    using guards_read_own_fields [OF h, of "\<lambda>q. []"] by (simp add: c)
qed

section \<open>Outcome of a request\<close>

lemma request_command_tool [simp]:
  "request_command fmt \<lparr>name = tool_name t, arguments = args\<rparr> =
     (if tool_valid t args then Some (tool_command t fmt args) else None)"
  by (simp add: request_command_def)

lemma request_command_SomeD:
  assumes "request_command fmt request = Some command"
  obtains t where "name request = tool_name t" "tool_valid t (arguments request)"
    "command = tool_command t fmt (arguments request)"
  using assms by (auto simp: request_command_def split: option.splits if_splits)

lemma request_command_Some_iff:
  "(\<exists>c. request_command fmt r = Some c) \<longleftrightarrow>
   (\<exists>t. tool_of_name (name r) = Some t \<and> tool_valid t (arguments r))"
  by (auto simp: request_command_def split: option.splits if_splits)

lemma call_tool_command:
  "request_command (numberToString rt) request = Some command \<Longrightarrow>
   call_tool rt request w = run_command rt command w"
  by (simp add: call_tool_table table_call_tool_command)

lemma call_tool_no_command:
  "request_command (numberToString rt) request = None \<Longrightarrow>
   \<exists>c msg. call_tool rt request w = (Inl (McpError c msg), w)"
  by (simp add: call_tool_table table_call_tool_command split: option.splits)

lemma run_command_flagged_iff:
  "(\<exists>r. fst (run_command rt command w) = Inr r \<and> isError r = Some True) \<longleftrightarrow>
   (\<exists>msg. fst (execSync rt (''gh '' @ command) w) = ThrowsError msg)"
  by (auto simp: run_command_def split: prod.splits exec_result.splits)

text \<open>
  Claim C3 (refinement).  The \<^verbatim>\<open>switch\<close> of the handler implements the dispatch
  table: for every runtime, request and world, \<open>call_tool\<close> looks the tool up by
  name, throws \<open>MethodNotFound\<close> when there is none, throws \<open>InvalidParams\<close>
  naming the tool when its guard rejects the arguments, and otherwise runs the
  tool's command line once.
\<close>

theorem call_tool_refines_table: "call_tool rt = table_call_tool rt"
  by (intro ext) (rule call_tool_table)

text \<open>
  Claim C1 (error).  A request whose tool name is none of \<^verbatim>\<open>create_pr\<close>,
  \<^verbatim>\<open>list_prs\<close>, \<^verbatim>\<open>view_pr\<close>, \<^verbatim>\<open>comment_pr\<close> throws an \<^verbatim>\<open>McpError\<close> with code
  \<open>MethodNotFound\<close> and the text \<^verbatim>\<open>Unknown tool: \<close> followed by the name; it
  returns no reply and leaves the world as it was.
\<close>

theorem unknown_tool_throws:
  assumes "name request \<notin> {''create_pr'', ''list_prs'', ''view_pr'', ''comment_pr''}"
  shows "call_tool rt request w =
           (Inl (McpError MethodNotFound (''Unknown tool: '' @ name request)), w)"
  using assms by (simp add: call_tool_def)

theorem unknown_tool_throws_witness:
  "call_tool (recording (\<lambda>line. Stdout line) (\<lambda>q. [])) \<lparr>name = ''merge_pr'', arguments = JNull\<rparr> [] =
     (Inl (McpError MethodNotFound ''Unknown tool: merge_pr''), [])"
  using unknown_tool_throws
    [of "\<lparr>name = ''merge_pr'', arguments = JNull\<rparr>" "recording (\<lambda>line. Stdout line) (\<lambda>q. [])" "[]"]
  by simp

text \<open>
  Claim C2 (error).  A request for one of the four tools whose arguments the
  tool's guard rejects throws an \<^verbatim>\<open>McpError\<close> with code \<open>InvalidParams\<close> and the
  text \<^verbatim>\<open>Invalid <tool> arguments\<close>; it returns no reply, flagged or not, and
  leaves the world as it was: no command is run.
\<close>

theorem invalid_arguments_throw:
  assumes "\<not> tool_valid t args"
  shows "call_tool rt \<lparr>name = tool_name t, arguments = args\<rparr> w =
           (Inl (McpError InvalidParams (''Invalid '' @ tool_name t @ '' arguments'')), w)"
  using assms by (cases t) (simp_all add: call_tool_def handler_defs)

theorem invalid_arguments_throw_witness:
  "\<not> tool_valid ViewPr (JObj [(''number'', JNum (Fin (- 3)))]) \<and>
   call_tool (recording (\<lambda>line. Stdout line) (\<lambda>q. []))
       \<lparr>name = ''view_pr'', arguments = JObj [(''number'', JNum (Fin (- 3)))]\<rparr> [] =
     (Inl (McpError InvalidParams ''Invalid view_pr arguments''), [])"
proof -
  have h: "\<not> tool_valid ViewPr (JObj [(''number'', JNum (Fin (- 3)))])"
    by (simp add: isValidViewPrArgs_def)
  show ?thesis
    using h invalid_arguments_throw [OF h, of "recording (\<lambda>line. Stdout line) (\<lambda>q. [])" "[]"]
    by simp
qed

text \<open>
  Claim C4 (error).  When the arguments are valid and \<^verbatim>\<open>execSync\<close> throws an
  \<^verbatim>\<open>Error\<close> with message \<open>msg\<close>, the handler does not throw: it returns a reply
  with \<^verbatim>\<open>isError: true\<close> whose one text block is the message of the
  \<open>InternalError\<close> built from \<^verbatim>\<open>GitHub CLI error: \<close> and \<open>msg\<close>.
\<close>

theorem command_failure_is_flagged_reply:
  assumes "tool_valid t args"
    and "execSync rt (''gh '' @ tool_command t (numberToString rt) args) w = (ThrowsError msg, w')"
  shows "call_tool rt \<lparr>name = tool_name t, arguments = args\<rparr> w =
           (Inr \<lparr>content = [\<lparr>content_type = ''text'',
                   content_text = errorMessage rt InternalError (''GitHub CLI error: '' @ msg)\<rparr>],
                 isError = Some True\<rparr>, w')"
  using assms by (cases t) (simp_all add: call_tool_def handler_defs)

theorem command_failure_is_flagged_reply_witness:
  "tool_valid ViewPr (JObj [(''number'', JNum (Fin 7))]) \<and>
   call_tool (recording (\<lambda>line. ThrowsError ''exit status 1'') (\<lambda>q. []))
       \<lparr>name = ''view_pr'', arguments = JObj [(''number'', JNum (Fin 7))]\<rparr> [] =
     (Inr \<lparr>content = [\<lparr>content_type = ''text'',
             content_text = ''GitHub CLI error: exit status 1''\<rparr>],
           isError = Some True\<rparr>, [''gh pr view 7''])"
proof -
  let ?rt = "recording (\<lambda>line. ThrowsError ''exit status 1'') (\<lambda>q. [])"
  let ?args = "JObj [(''number'', JNum (Fin 7))]"
  have v: "tool_valid ViewPr ?args"
    by (simp add: isValidViewPrArgs_def)
  have c: "view_pr_command (\<lambda>q. []) ?args = ''pr view 7''"
    by (simp add: view_pr_command_def)
  have e: "execSync ?rt (''gh '' @ tool_command ViewPr (numberToString ?rt) ?args) [] =
      (ThrowsError ''exit status 1'', [''gh pr view 7''])"
    by (simp add: c)
  show ?thesis
    using v command_failure_is_flagged_reply [OF v e] by simp
qed

text \<open>
  Claim C5 (functional).  When the arguments are valid and the command exits
  with status zero, the reply holds one block of type \<^verbatim>\<open>text\<close> whose text is
  the standard output of the command, unchanged, and carries no \<^verbatim>\<open>isError\<close>;
  the world is the one \<^verbatim>\<open>execSync\<close> left.
\<close>

theorem command_success_is_text_reply:
  assumes "tool_valid t args"
    and "execSync rt (''gh '' @ tool_command t (numberToString rt) args) w = (Stdout out, w')"
  shows "call_tool rt \<lparr>name = tool_name t, arguments = args\<rparr> w =
           (Inr \<lparr>content = [\<lparr>content_type = ''text'', content_text = out\<rparr>],
                 isError = None\<rparr>, w')"
  using assms by (cases t) (simp_all add: call_tool_def handler_defs)

theorem command_success_is_text_reply_witness:
  "tool_valid CommentPr (JObj [(''number'', JNum (Fin 123)), (''body'', JStr ''LGTM!'')]) \<and>
   call_tool (recording (\<lambda>line. Stdout ''https://github.com/o/r/pull/123#issuecomment-1'') (\<lambda>q. []))
       \<lparr>name = ''comment_pr'',
        arguments = JObj [(''number'', JNum (Fin 123)), (''body'', JStr ''LGTM!'')]\<rparr> [] =
     (Inr \<lparr>content = [\<lparr>content_type = ''text'',
             content_text = ''https://github.com/o/r/pull/123#issuecomment-1''\<rparr>],
           isError = None\<rparr>, [''gh pr comment 123 --body '' @ quoted ''LGTM!''])"
proof -
  let ?rt = "recording (\<lambda>line. Stdout ''https://github.com/o/r/pull/123#issuecomment-1'') (\<lambda>q. [])"
  let ?args = "JObj [(''number'', JNum (Fin 123)), (''body'', JStr ''LGTM!'')]"
  have v: "tool_valid CommentPr ?args"
    by (simp add: isValidCommentPrArgs_def)
  have c: "comment_pr_command (\<lambda>q. []) ?args = ''pr comment 123 --body '' @ quoted ''LGTM!''"
    by (simp add: comment_pr_command_def)
  have e: "execSync ?rt (''gh '' @ tool_command CommentPr (numberToString ?rt) ?args) [] =
      (Stdout ''https://github.com/o/r/pull/123#issuecomment-1'',
       [''gh pr comment 123 --body '' @ quoted ''LGTM!''])"
    by (simp add: c)
  show ?thesis
    using v command_success_is_text_reply [OF v e] by simp
qed

text \<open>
  Claim C36 (error).  When the arguments are valid and \<^verbatim>\<open>execSync\<close> throws a
  value that is not an \<^verbatim>\<open>Error\<close>, neither \<^verbatim>\<open>executeGhCommand\<close> nor the handler
  catches it: the handler throws that same value and returns no reply.
\<close>

theorem foreign_throw_propagates:
  assumes "tool_valid t args"
    and "execSync rt (''gh '' @ tool_command t (numberToString rt) args) w = (ThrowsValue v, w')"
  shows "call_tool rt \<lparr>name = tool_name t, arguments = args\<rparr> w = (Inl (Thrown v), w')"
  using assms by (cases t) (simp_all add: call_tool_def handler_defs)

theorem foreign_throw_propagates_witness:
  "tool_valid ListPrs (JObj []) \<and>
   call_tool (recording (\<lambda>line. ThrowsValue (JStr ''boom'')) (\<lambda>q. []))
       \<lparr>name = ''list_prs'', arguments = JObj []\<rparr> [] =
     (Inl (Thrown (JStr ''boom'')), [''gh pr list''])"
proof -
  let ?rt = "recording (\<lambda>line. ThrowsValue (JStr ''boom'')) (\<lambda>q. [])"
  have v: "tool_valid ListPrs (JObj [])"
    by (simp add: isValidListPrArgs_def)
  have c: "list_prs_command (\<lambda>q. []) (JObj []) = ''pr list''"
    by (simp add: list_prs_command_def)
  have e: "execSync ?rt (''gh '' @ tool_command ListPrs (numberToString ?rt) (JObj [])) [] =
      (ThrowsValue (JStr ''boom''), [''gh pr list''])"
    by (simp add: c)
  show ?thesis
    using v foreign_throw_propagates [OF v e] by simp
qed

text \<open>
  Claim C20 (safety).  The asymmetry of the two kinds of failure: the handler
  returns a reply flagged \<^verbatim>\<open>isError\<close> exactly when the request led to a command
  line and \<^verbatim>\<open>execSync\<close> threw an \<^verbatim>\<open>Error\<close> on it; and it throws an \<^verbatim>\<open>McpError\<close>
  exactly when the request led to no command line (unknown tool or rejected
  arguments).  A failure of validation is never a flagged reply, and a failure
  of the command is never a protocol error.
\<close>

theorem failure_asymmetry:
  "((\<exists>r. fst (call_tool rt request w) = Inr r \<and> isError r = Some True) \<longleftrightarrow>
      (\<exists>command msg. request_command (numberToString rt) request = Some command \<and>
         fst (execSync rt (''gh '' @ command) w) = ThrowsError msg)) \<and>
   ((\<exists>c msg. fst (call_tool rt request w) = Inl (McpError c msg)) \<longleftrightarrow>
      request_command (numberToString rt) request = None)"
proof (cases "request_command (numberToString rt) request")
  case None
  from call_tool_no_command [OF None, of w]
  obtain c msg where "call_tool rt request w = (Inl (McpError c msg), w)"
    by blast
  with None show ?thesis
    by auto
next
  case (Some command)
  then have "call_tool rt request w = run_command rt command w"
    by (rule call_tool_command)
  with Some show ?thesis
    by (simp add: run_command_flagged_iff run_command_no_mcp_error)
qed

text \<open>
  Claim C21 (safety).  The handler changes the world only through one call of
  \<^verbatim>\<open>execSync\<close>: the world after a request is the world \<^verbatim>\<open>execSync\<close> leaves when
  given \<^verbatim>\<open>gh\<close>, a space and the request's command line, and it is the world
  before the request when the request leads to no command line.
\<close>

theorem world_changes_by_one_command:
  "snd (call_tool rt request w) =
     (case request_command (numberToString rt) request of
        None \<Rightarrow> w
      | Some command \<Rightarrow> snd (execSync rt (''gh '' @ command) w))"
proof (cases "request_command (numberToString rt) request")
  case None
  from call_tool_no_command [OF None, of w] show ?thesis
    by (auto simp: None)
next
  case (Some command)
  then show ?thesis
    by (simp add: call_tool_command run_command_world)
qed

end
