(* ===== verification/Catalogue.thy ===== *)
theory Catalogue
  imports Dispatcher
begin

text \<open>
  The tool catalogue that the \<^verbatim>\<open>ListToolsRequestSchema\<close> handler of
  \<^verbatim>\<open>src/src/index.ts\<close> publishes (lines 125-213): four entries, each with a
  name, a description and an input schema.  The catalogue is data; what makes it
  correct is its agreement with the rest of the program, which never reads it:
  the published names are the names the \<^verbatim>\<open>switch\<close> dispatches, the published
  properties are the properties the guards read, and a value conforms to a
  published schema exactly when the guard accepts it, up to the range of the
  pull-request number, which the schema does not state.

  \<open>conforms\<close> is the meaning of the schema keywords the catalogue uses
  (\<^verbatim>\<open>type\<close>, \<^verbatim>\<open>properties\<close>, \<^verbatim>\<open>required\<close>, \<^verbatim>\<open>enum\<close>), for a caller that
  checks its arguments before it sends them.
\<close>

section \<open>The published entries\<close>

datatype json_type = TyString | TyNumber | TyBoolean

record PropertySchema =
  prop_type :: json_type
  prop_enum :: "string list option"
  prop_description :: string

record InputSchema =
  properties :: "(string \<times> PropertySchema) list"
  required :: "string list"

record ToolInfo =
  info_name :: string
  description :: string
  inputSchema :: InputSchema

definition create_pr_info :: ToolInfo where
  "create_pr_info =
     \<lparr>info_name = ''create_pr'',
      description = ''Create a new pull request'',
      inputSchema =
        \<lparr>properties =
           [(''title'', \<lparr>prop_type = TyString, prop_enum = None,
                         prop_description = ''Title of the pull request''\<rparr>),
            (''body'', \<lparr>prop_type = TyString, prop_enum = None,
                        prop_description = ''Body/description of the pull request''\<rparr>),
            (''base'', \<lparr>prop_type = TyString, prop_enum = None,
                        prop_description = ''The branch into which you want your code merged''\<rparr>),
            (''head'', \<lparr>prop_type = TyString, prop_enum = None,
                        prop_description =
                          ''The branch that contains commits for your pull request''\<rparr>),
            (''draft'', \<lparr>prop_type = TyBoolean, prop_enum = None,
                         prop_description = ''Create the pull request as a draft''\<rparr>)],
         required = [''title'']\<rparr>\<rparr>"

definition list_prs_info :: ToolInfo where
  "list_prs_info =
     \<lparr>info_name = ''list_prs'',
      description = ''List pull requests in the current repository'',
      inputSchema =
        \<lparr>properties =
           [(''state'', \<lparr>prop_type = TyString,
                         prop_enum = Some [''open'', ''closed'', ''merged'', ''all''],
                         prop_description = ''Filter by state''\<rparr>),
            (''base'', \<lparr>prop_type = TyString, prop_enum = None,
                        prop_description = ''Filter by base branch''\<rparr>),
            (''limit'', \<lparr>prop_type = TyNumber, prop_enum = None,
                         prop_description = ''Maximum number of pull requests to fetch''\<rparr>)],
         required = []\<rparr>\<rparr>"

definition view_pr_info :: ToolInfo where
  "view_pr_info =
     \<lparr>info_name = ''view_pr'',
      description = ''View a specific pull request'',
      inputSchema =
        \<lparr>properties =
           [(''number'', \<lparr>prop_type = TyNumber, prop_enum = None,
                          prop_description = ''Pull request number''\<rparr>)],
         required = [''number'']\<rparr>\<rparr>"

definition comment_pr_info :: ToolInfo where
  "comment_pr_info =
     \<lparr>info_name = ''comment_pr'',
      description = ''Add a comment to a pull request'',
      inputSchema =
        \<lparr>properties =
           [(''number'', \<lparr>prop_type = TyNumber, prop_enum = None,
                          prop_description = ''Pull request number''\<rparr>),
            (''body'', \<lparr>prop_type = TyString, prop_enum = None,
                        prop_description = ''Comment text''\<rparr>)],
         required = [''number'', ''body'']\<rparr>\<rparr>"

text \<open>The handler: it takes no argument and returns the same four entries.\<close>

definition list_tools :: "ToolInfo list" where
  "list_tools = [create_pr_info, list_prs_info, view_pr_info, comment_pr_info]"

lemmas info_defs = create_pr_info_def list_prs_info_def view_pr_info_def comment_pr_info_def

section \<open>Conformance to a schema\<close>

fun has_type :: "json_type \<Rightarrow> jsval \<Rightarrow> bool" where
  "has_type TyString (JStr s) = True"
| "has_type TyNumber (JNum x) = True"
| "has_type TyBoolean (JBool b) = True"
| "has_type ty v = False"

definition conforms_prop :: "PropertySchema \<Rightarrow> jsval \<Rightarrow> bool" where
  "conforms_prop ps v \<longleftrightarrow>
     has_type (prop_type ps) v \<and>
     (case prop_enum ps of None \<Rightarrow> True | Some es \<Rightarrow> list_ex (\<lambda>e. v = JStr e) es)"

fun conforms :: "InputSchema \<Rightarrow> jsval \<Rightarrow> bool" where
  "conforms sch (JObj kvs) \<longleftrightarrow>
     list_all (\<lambda>r. map_of kvs r \<noteq> None) (required sch) \<and>
     list_all (\<lambda>(k, ps). case map_of kvs k of None \<Rightarrow> True | Some v \<Rightarrow> conforms_prop ps v)
       (properties sch)"
| "conforms sch v \<longleftrightarrow> False"

text \<open>The entry of a tool, and the range its guard asks of a pull-request number.\<close>

fun entry :: "tool \<Rightarrow> ToolInfo" where
  "entry CreatePr = create_pr_info"
| "entry ListPrs = list_prs_info"
| "entry ViewPr = view_pr_info"
| "entry CommentPr = comment_pr_info"

fun number_in_range :: "tool \<Rightarrow> jsval \<Rightarrow> bool" where
  "number_in_range ViewPr args \<longleftrightarrow>
     Number_isInteger (get_prop args ''number'') \<and> greater_zero (get_prop args ''number'')"
| "number_in_range CommentPr args \<longleftrightarrow>
     Number_isInteger (get_prop args ''number'') \<and> greater_zero (get_prop args ''number'')"
| "number_in_range t args \<longleftrightarrow> True"

section \<open>Names\<close>

lemma info_names: "map info_name list_tools = map tool_name tools"
  by (simp add: list_tools_def tools_def info_defs)

lemma info_name_entry [simp]: "info_name (entry t) = tool_name t"
  by (cases t) (simp_all add: info_defs)

lemma list_tools_entries: "list_tools = map entry tools"
  by (simp add: list_tools_def tools_def)

lemma find_entry: "find (\<lambda>i. info_name i = tool_name t) list_tools = Some (entry t)"
  by (cases t) (simp_all add: list_tools_def info_defs)

lemma published_iff_tool: "n \<in> set (map info_name list_tools) \<longleftrightarrow> tool_of_name n \<noteq> None"
proof -
  have "tool_of_name n \<noteq> None \<longleftrightarrow> (\<exists>t. tool_of_name n = Some t)"
    by simp
  then show ?thesis
    by (auto simp: info_names)
qed

section \<open>Properties\<close>

lemma properties_are_fields: "map fst (properties (inputSchema (entry t))) = tool_fields t"
  by (cases t) (simp_all add: info_defs)

lemma required_are_properties:
  "set (required (inputSchema (entry t))) \<subseteq> fst ` set (properties (inputSchema (entry t)))"
  by (cases t) (simp_all add: info_defs)

section \<open>Schemas and guards\<close>

lemma conforms_string [simp]:
  "conforms_prop \<lparr>prop_type = TyString, prop_enum = None, prop_description = d\<rparr> v \<longleftrightarrow>
     (\<exists>s. v = JStr s)"
  by (cases v) (simp_all add: conforms_prop_def)

lemma conforms_number [simp]:
  "conforms_prop \<lparr>prop_type = TyNumber, prop_enum = None, prop_description = d\<rparr> v \<longleftrightarrow>
     (\<exists>x. v = JNum x)"
  by (cases v) (simp_all add: conforms_prop_def)

lemma conforms_boolean [simp]:
  "conforms_prop \<lparr>prop_type = TyBoolean, prop_enum = None, prop_description = d\<rparr> v \<longleftrightarrow>
     (\<exists>b. v = JBool b)"
  by (cases v) (simp_all add: conforms_prop_def)

lemma conforms_state [simp]:
  "conforms_prop \<lparr>prop_type = TyString, prop_enum = Some [''open'', ''closed'', ''merged'', ''all''],
                  prop_description = d\<rparr> v \<longleftrightarrow>
     typeof v = TString \<and> array_includes pr_states v"
  by (cases v) (auto simp: conforms_prop_def array_includes_pr_states)

lemma json_prop_cases:
  assumes "json_value (JObj kvs)"
  obtains "map_of kvs k = None" "get_prop (JObj kvs) k = JUndefined"
  | v where "map_of kvs k = Some v" "get_prop (JObj kvs) k = v" "v \<noteq> JUndefined"
proof (cases "map_of kvs k")
  case None
  then show ?thesis using that(1) by simp
next
  case (Some v)
  with assms have "json_value v" by (rule json_value_prop)
  then have "v \<noteq> JUndefined" by auto
  with Some show ?thesis using that(2) by simp
qed

lemma optional_conforms:
  assumes "json_value (JObj kvs)"
  shows "(case map_of kvs k of None \<Rightarrow> True | Some v \<Rightarrow> P v) \<longleftrightarrow>
           get_prop (JObj kvs) k = JUndefined \<or> P (get_prop (JObj kvs) k)"
  using assms by (rule json_prop_cases [of kvs k]) auto

lemma required_conforms:
  assumes "json_value (JObj kvs)"
  shows "(\<exists>v. map_of kvs k = Some v) \<longleftrightarrow> get_prop (JObj kvs) k \<noteq> JUndefined"
  using assms by (rule json_prop_cases [of kvs k]) auto

lemma conforms_iff:
  assumes "json_value (JObj kvs)"
  shows "conforms sch (JObj kvs) \<longleftrightarrow>
     list_all (\<lambda>r. get_prop (JObj kvs) r \<noteq> JUndefined) (required sch) \<and>
     list_all (\<lambda>(k, ps). get_prop (JObj kvs) k = JUndefined \<or> conforms_prop ps (get_prop (JObj kvs) k))
       (properties sch)"
  using assms
  by (simp add: optional_conforms required_conforms case_prod_unfold
      del: get_prop.simps json_value.simps)

lemma create_guard_schema:
  assumes "json_value (JObj kvs)"
  shows "isValidCreatePrArgs (JObj kvs) \<longleftrightarrow> conforms (inputSchema create_pr_info) (JObj kvs)"
  using assms
  by (auto simp: conforms_iff create_pr_info_def isValidCreatePrArgs_def
      simp del: get_prop.simps json_value.simps conforms.simps)

lemma list_guard_schema:
  assumes "json_value (JObj kvs)"
  shows "isValidListPrArgs (JObj kvs) \<longleftrightarrow> conforms (inputSchema list_prs_info) (JObj kvs)"
  using assms
  by (auto simp: conforms_iff list_prs_info_def isValidListPrArgs_def array_includes_pr_states
      simp del: get_prop.simps json_value.simps conforms.simps)

lemma view_guard_schema:
  assumes "json_value (JObj kvs)"
  shows "isValidViewPrArgs (JObj kvs) \<longleftrightarrow>
     conforms (inputSchema view_pr_info) (JObj kvs) \<and> number_in_range ViewPr (JObj kvs)"
  using assms
  by (auto simp: conforms_iff view_pr_info_def isValidViewPrArgs_def
      simp del: get_prop.simps json_value.simps conforms.simps)

lemma comment_guard_schema:
  assumes "json_value (JObj kvs)"
  shows "isValidCommentPrArgs (JObj kvs) \<longleftrightarrow>
     conforms (inputSchema comment_pr_info) (JObj kvs) \<and> number_in_range CommentPr (JObj kvs)"
  using assms
  by (auto simp: conforms_iff comment_pr_info_def isValidCommentPrArgs_def
      simp del: get_prop.simps json_value.simps conforms.simps)

lemma guard_schema:
  assumes "json_value (JObj kvs)"
  shows "tool_valid t (JObj kvs) \<longleftrightarrow>
     conforms (inputSchema (entry t)) (JObj kvs) \<and> number_in_range t (JObj kvs)"
  using assms
  by (cases t)
    (simp_all add: create_guard_schema list_guard_schema view_guard_schema comment_guard_schema
      del: json_value.simps conforms.simps)

text \<open>
  Claim C13 (equivalence).  The guards implement the published schemas: for an
  argument object as \<^verbatim>\<open>JSON.parse\<close> delivers it, the guard of a tool accepts
  the object exactly when the object conforms to the tool's published input
  schema (required properties present, every present property of its declared
  type, the state one of the enumerated strings) and, for \<^verbatim>\<open>view_pr\<close> and
  \<^verbatim>\<open>comment_pr\<close>, its number is a positive integer.
\<close>

theorem guard_is_schema_with_range:
  assumes "json_value (JObj kvs)"
  shows "fst (call_tool rt \<lparr>name = tool_name t, arguments = JObj kvs\<rparr> w) \<noteq>
           Inl (McpError InvalidParams (''Invalid '' @ tool_name t @ '' arguments'')) \<longleftrightarrow>
         conforms (inputSchema (entry t)) (JObj kvs) \<and> number_in_range t (JObj kvs)"
  using assms
  by (simp add: call_tool_tool guard_schema [symmetric] run_command_no_mcp_error
      del: json_value.simps conforms.simps)

theorem guard_is_schema_with_range_witness:
  "fst (call_tool (recording (\<lambda>line. Stdout []) (\<lambda>q. []))
          \<lparr>name = ''list_prs'', arguments = JObj [(''state'', JStr ''shut'')]\<rparr> []) =
     Inl (McpError InvalidParams ''Invalid list_prs arguments'') \<and>
   \<not> conforms (inputSchema list_prs_info) (JObj [(''state'', JStr ''shut'')])"
  using guard_is_schema_with_range [of "[(''state'', JStr ''shut'')]"
      "recording (\<lambda>line. Stdout []) (\<lambda>q. [])" ListPrs "[]"]
  by (simp add: list_prs_info_def conforms_prop_def)

text \<open>
  Claim C33 (safety).  The catalogue and the \<^verbatim>\<open>switch\<close> agree on the names: the
  four published names are distinct, and a request is answered with
  \<^verbatim>\<open>MethodNotFound\<close> exactly when its name is not published.
\<close>

theorem published_names_are_dispatched:
  "distinct (map info_name list_tools) \<and>
   (n \<in> set (map info_name list_tools) \<longleftrightarrow>
      fst (call_tool rt \<lparr>name = n, arguments = args\<rparr> w) \<noteq>
        Inl (McpError MethodNotFound (''Unknown tool: '' @ n)))"
proof (cases "tool_of_name n")
  case None
  then show ?thesis
    using published_iff_tool [of n]
    by (simp add: call_tool_no_tool list_tools_def info_defs)
next
  case (Some t)
  then show ?thesis
    using published_iff_tool [of n]
    by (simp add: call_tool_tool run_command_no_mcp_error list_tools_def info_defs)
qed

text \<open>
  Claim C39 (functional).  Neither the published schema nor the guard bounds
  \<^verbatim>\<open>limit\<close>: a negative limit conforms, passes the guard and is written into the
  command line, so \<^verbatim>\<open>gh\<close> is run with \<^verbatim>\<open>--limit -<n>\<close>.
\<close>

theorem negative_limit_reaches_gh:
  assumes "0 < n" and "n \<le> 2 ^ 53"
  shows "conforms (inputSchema list_prs_info) (JObj [(''limit'', JNum (Fin (- of_nat n)))]) \<and>
     snd (call_tool (recording rsp fmt)
            \<lparr>name = ''list_prs'', arguments = JObj [(''limit'', JNum (Fin (- of_nat n)))]\<rparr> []) =
       [''gh pr list --limit -'' @ decimal n]"
  using assms
    call_tool_tool [of "recording rsp fmt" ListPrs "JObj [(''limit'', JNum (Fin (- of_nat n)))]" "[]"]
  by (simp add: isValidListPrArgs_def list_prs_command_def run_command_recording
      list_prs_info_def bare_flag_def num_to_string_minus_nat del: num_to_string.simps)

theorem negative_limit_reaches_gh_witness:
  "snd (call_tool (recording (\<lambda>line. Stdout []) (\<lambda>q. []))
            \<lparr>name = ''list_prs'', arguments = JObj [(''limit'', JNum (Fin (- 5)))]\<rparr> []) =
       [''gh pr list --limit -5'']"
  using negative_limit_reaches_gh [of 5 "\<lambda>line. Stdout []" "\<lambda>q. []"]
  by simp

end
