(* ===== verification/Server.thy ===== *)
theory Server
  imports Catalogue
begin

text \<open>
  The process around the two handlers: the constructor of \<^verbatim>\<open>GithubCliServer\<close>
  (lines 101-122 of \<^verbatim>\<open>src/src/index.ts\<close>), \<^verbatim>\<open>setupToolHandlers\<close> (lines
  124-381), \<^verbatim>\<open>run\<close> (lines 383-387) and the two statements that start the program
  (lines 390-391).  The state of the process is a record; what happens to it is
  a sequence of events (the start, a request arriving, an interrupt, an error
  reported by the transport), each handled to its end before the next:
  \<^verbatim>\<open>execSync\<close> blocks, so no two handlers overlap.

  What the SDK does with a registered handler is modelled from the
  specification: a request is given to the handler registered for its method,
  the value the handler returns is sent as the response, and a value it throws
  is sent as a protocol-level failure.  A tool call is first parsed with the
  schema the handler is registered with, \<open>CallToolRequestSchema\<close>; a call
  that does not conform is refused (\<open>SchemaError\<close>) and the handler is not
  called.  \<open>step\<close> is the transition function,
  \<open>trans\<close> the same as an inductive relation with only the transitions that
  are enabled (none out of an exited process), \<open>exec\<close> runs a sequence of events, and \<open>reachable\<close> are the
  states of a process started in some world.
\<close>

section \<open>State\<close>

datatype rpc_method = ListTools | CallTool

datatype request = ListToolsRequest | CallToolRequest ToolRequest | OtherRequest string

datatype response =
    ToolsResult "ToolInfo list"
  | CallResult ToolReply
  | Failure exn
  | NoHandler string
  | SchemaError

datatype phase = Constructed | Running | Closed | Exited int

record ServerInfo =
  server_name :: string
  server_version :: string
  capabilities :: "string list"

record 'w process =
  info :: ServerInfo
  handlers :: "rpc_method list"
  onerror_set :: bool
  sigint_set :: bool
  phase :: phase
  stderr :: "string list"
  sent :: "response list"
  world :: 'w

datatype connect_result = Connects | ConnectFails string

datatype event = Start connect_result | Receive request | Sigint | TransportError string

section \<open>Construction and start\<close>

definition new_Server :: "'w \<Rightarrow> 'w process" where
  "new_Server w =
     \<lparr>info = \<lparr>server_name = ''limited-github-cli'', server_version = ''0.1.0'',
               capabilities = [''tools'']\<rparr>,
      handlers = [], onerror_set = False, sigint_set = False, phase = Constructed,
      stderr = [], sent = [], world = w\<rparr>"

definition setRequestHandler :: "rpc_method \<Rightarrow> 'w process \<Rightarrow> 'w process" where
  "setRequestHandler m p = p\<lparr>handlers := List.insert m (handlers p)\<rparr>"

definition setupToolHandlers :: "'w process \<Rightarrow> 'w process" where
  "setupToolHandlers p = setRequestHandler CallTool (setRequestHandler ListTools p)"

definition constructor :: "'w \<Rightarrow> 'w process" where
  "constructor w =
     (let server = new_Server w;
          server = setupToolHandlers server;
          server = server\<lparr>onerror_set := True\<rparr>;
          server = server\<lparr>sigint_set := True\<rparr>
      in server)"

definition console_error :: "string \<Rightarrow> 'w process \<Rightarrow> 'w process" where
  "console_error line p = p\<lparr>stderr := stderr p @ [line]\<rparr>"

text \<open>
  \<^verbatim>\<open>run\<close> is asynchronous: it ends with the transport connected and the line on
  the error stream written, or it is rejected with the error of \<^verbatim>\<open>connect\<close>,
  which the last statement of the program writes to the error stream.
\<close>

definition run :: "connect_result \<Rightarrow> 'w process \<Rightarrow> string + 'w process" where
  "run c p =
     (case c of
        Connects \<Rightarrow> Inr (console_error ''GitHub CLI MCP server running on stdio'' (p\<lparr>phase := Running\<rparr>))
      | ConnectFails e \<Rightarrow> Inl e)"

definition start :: "connect_result \<Rightarrow> 'w process \<Rightarrow> 'w process" where
  "start c server = (case run c server of Inr p \<Rightarrow> p | Inl e \<Rightarrow> console_error e server)"

definition main :: "connect_result \<Rightarrow> 'w \<Rightarrow> 'w process" where
  "main c w = (let server = constructor w in start c server)"

section \<open>Events of a started process\<close>

fun method_of :: "request \<Rightarrow> rpc_method option" where
  "method_of ListToolsRequest = Some ListTools"
| "method_of (CallToolRequest r) = Some CallTool"
| "method_of (OtherRequest m) = None"

fun method_name :: "request \<Rightarrow> string" where
  "method_name ListToolsRequest = ''tools/list''"
| "method_name (CallToolRequest r) = ''tools/call''"
| "method_name (OtherRequest m) = m"

text \<open>
  The handler of line 215 is registered with \<^verbatim>\<open>CallToolRequestSchema\<close>: the SDK
  parses a request with that schema before it calls the handler, and answers a
  request that does not conform with a failure of its own.  The schema asks
  for a name that is text and for arguments that are absent or a mapping of
  field names to values: no array, no \<^verbatim>\<open>null\<close>, no number or text.
\<close>

definition CallToolRequestSchema :: "ToolRequest \<Rightarrow> bool" where
  "CallToolRequestSchema r \<longleftrightarrow>
     (case arguments r of JUndefined \<Rightarrow> True | JObj kvs \<Rightarrow> True | _ \<Rightarrow> False)"

text \<open>The handler of a request, run in a world: its response and the world it leaves.\<close>

fun respond :: "'w runtime \<Rightarrow> request \<Rightarrow> 'w \<Rightarrow> response \<times> 'w" where
  "respond rt ListToolsRequest w = (ToolsResult list_tools, w)"
| "respond rt (CallToolRequest r) w =
     (if CallToolRequestSchema r then
        (case call_tool rt r w of
           (Inr reply, w') \<Rightarrow> (CallResult reply, w')
         | (Inl e, w') \<Rightarrow> (Failure e, w'))
      else (SchemaError, w))"
| "respond rt (OtherRequest m) w = (NoHandler m, w)"

definition receive :: "'w runtime \<Rightarrow> request \<Rightarrow> 'w process \<Rightarrow> 'w process" where
  "receive rt req p =
     (case method_of req of
        None \<Rightarrow> p\<lparr>sent := sent p @ [NoHandler (method_name req)]\<rparr>
      | Some m \<Rightarrow>
          if m \<in> set (handlers p)
          then let (res, w') = respond rt req (world p)
               in p\<lparr>sent := sent p @ [res], world := w'\<rparr>
          else p\<lparr>sent := sent p @ [NoHandler (method_name req)]\<rparr>)"

text \<open>
  The interrupt listener awaits \<^verbatim>\<open>close\<close> and then exits.  The continuation of
  an \<^verbatim>\<open>await\<close> runs before the next event is delivered, so no request is
  handled between the two and \<open>on_sigint\<close> is one step.
\<close>

definition close :: "'w process \<Rightarrow> 'w process" where
  "close p = p\<lparr>phase := Closed\<rparr>"

definition exit :: "int \<Rightarrow> 'w process \<Rightarrow> 'w process" where
  "exit code p = p\<lparr>phase := Exited code\<rparr>"

definition on_sigint :: "'w process \<Rightarrow> 'w process" where
  "on_sigint p = (if sigint_set p then exit 0 (close p) else exit 130 p)"

definition onerror :: "string \<Rightarrow> 'w process \<Rightarrow> 'w process" where
  "onerror e p = (if onerror_set p then console_error (''[MCP Error] '' @ e) p else p)"

section \<open>Transitions\<close>

fun exited :: "phase \<Rightarrow> bool" where
  "exited (Exited c) = True"
| "exited ph = False"

definition step :: "'w runtime \<Rightarrow> event \<Rightarrow> 'w process \<Rightarrow> 'w process" where
  "step rt e p =
     (if exited (phase p) then p
      else case e of
        Start c \<Rightarrow> (if phase p = Constructed then start c p else p)
      | Receive req \<Rightarrow> (if phase p = Running then receive rt req p else p)
      | Sigint \<Rightarrow> on_sigint p
      | TransportError msg \<Rightarrow> (if phase p = Running then onerror msg p else p))"

definition exec :: "'w runtime \<Rightarrow> event list \<Rightarrow> 'w process \<Rightarrow> 'w process" where
  "exec rt es p = foldl (\<lambda>p e. step rt e p) p es"

inductive trans :: "'w runtime \<Rightarrow> 'w process \<Rightarrow> event \<Rightarrow> 'w process \<Rightarrow> bool"
  for rt :: "'w runtime"
where
  start: "phase p = Constructed \<Longrightarrow> trans rt p (Start c) (start c p)"
| request: "phase p = Running \<Longrightarrow> trans rt p (Receive req) (receive rt req p)"
| interrupt: "\<not> exited (phase p) \<Longrightarrow> trans rt p Sigint (on_sigint p)"
| transport_error: "phase p = Running \<Longrightarrow> trans rt p (TransportError msg) (onerror msg p)"

inductive reachable :: "'w runtime \<Rightarrow> 'w process \<Rightarrow> bool"
  for rt :: "'w runtime"
where
  initial: "reachable rt (constructor w)"
| after: "reachable rt p \<Longrightarrow> trans rt p e p' \<Longrightarrow> reachable rt p'"

inductive_simps trans_Start_iff: "trans rt p (Start c) p'"
inductive_simps trans_Receive_iff: "trans rt p (Receive req) p'"
inductive_simps trans_Sigint_iff: "trans rt p Sigint p'"
inductive_simps trans_TransportError_iff: "trans rt p (TransportError msg) p'"

lemmas trans_iffs = trans_Start_iff trans_Receive_iff trans_Sigint_iff trans_TransportError_iff

lemmas process_defs =
  new_Server_def setRequestHandler_def setupToolHandlers_def constructor_def console_error_def
  run_def start_def receive_def close_def exit_def on_sigint_def onerror_def

section \<open>Sequential service\<close>

fun serve :: "'w runtime \<Rightarrow> request list \<Rightarrow> 'w \<Rightarrow> response list \<times> 'w" where
  "serve rt [] w = ([], w)"
| "serve rt (req # reqs) w =
     (let (res, w') = respond rt req w;
          (ress, w'') = serve rt reqs w'
      in (res # ress, w''))"

fun command_line :: "numfmt \<Rightarrow> request \<Rightarrow> string option" where
  "command_line fmt (CallToolRequest r) =
     (if CallToolRequestSchema r then map_option (\<lambda>c. ''gh '' @ c) (request_command fmt r)
      else None)"
| "command_line fmt req = None"

definition wired :: "'w process \<Rightarrow> bool" where
  "wired p \<longleftrightarrow>
     ListTools \<in> set (handlers p) \<and> CallTool \<in> set (handlers p) \<and>
     onerror_set p \<and> sigint_set p \<and> capabilities (info p) = [''tools''] \<and>
     phase p \<in> {Constructed, Running, Exited 0}"

section \<open>The request schema\<close>

lemma CallToolRequestSchema_simps [simp]:
  "CallToolRequestSchema \<lparr>name = n, arguments = JObj kvs\<rparr>"
  "CallToolRequestSchema \<lparr>name = n, arguments = JUndefined\<rparr>"
  "\<not> CallToolRequestSchema \<lparr>name = n, arguments = JArr xs\<rparr>"
  "\<not> CallToolRequestSchema \<lparr>name = n, arguments = JNull\<rparr>"
  "\<not> CallToolRequestSchema \<lparr>name = n, arguments = JBool b\<rparr>"
  "\<not> CallToolRequestSchema \<lparr>name = n, arguments = JNum x\<rparr>"
  "\<not> CallToolRequestSchema \<lparr>name = n, arguments = JStr t\<rparr>"
  by (simp_all add: CallToolRequestSchema_def)

lemma CallToolRequestSchema_iff:
  "CallToolRequestSchema r \<longleftrightarrow> arguments r = JUndefined \<or> (\<exists>kvs. arguments r = JObj kvs)"
  by (cases "arguments r") (simp_all add: CallToolRequestSchema_def)

text \<open>
  A value that a guard accepts is an object; it conforms to the schema unless
  it is an array, and only the guard of \<^verbatim>\<open>list_prs\<close>, which requires no
  property, accepts an array.
\<close>

lemma valid_conforms_iff:
  "tool_valid t args \<Longrightarrow>
   CallToolRequestSchema \<lparr>name = n, arguments = args\<rparr> \<longleftrightarrow> (\<forall>xs. args \<noteq> JArr xs)"
  by (cases t; cases args) (simp_all add: validator_defs)

lemma valid_array_iff: "tool_valid t (JArr xs) \<longleftrightarrow> t = ListPrs"
  by (cases t) (simp_all add: validator_defs)

lemma respond_schema_error:
  "\<not> CallToolRequestSchema r \<Longrightarrow> respond rt (CallToolRequest r) w = (SchemaError, w)"
  by simp

text \<open>
  Only a tool call that conforms to the schema, names a tool and passes its
  guard changes the world: every other request is answered from what the
  process holds.
\<close>

lemma respond_world_changed:
  assumes "snd (respond rt req w) \<noteq> w"
  obtains r t where "req = CallToolRequest r" "CallToolRequestSchema r"
    "tool_of_name (name r) = Some t" "tool_valid t (arguments r)"
proof (cases req)
  case (CallToolRequest r)
  with assms have s: "CallToolRequestSchema r" and c: "snd (call_tool rt r w) \<noteq> w"
    by (auto split: if_splits prod.splits sum.splits)
  from c call_tool_no_command [of rt r w] obtain cmd
    where "request_command (numberToString rt) r = Some cmd"
    by (cases "request_command (numberToString rt) r") auto
  then obtain t where "tool_of_name (name r) = Some t" "tool_valid t (arguments r)"
    using request_command_Some_iff [of "numberToString rt" r] by blast
  with CallToolRequest s that show ?thesis by blast
qed (use assms in simp_all)

section \<open>Fields after each operation\<close>

lemma constructor_simps [simp]:
  "handlers (constructor w) = [CallTool, ListTools]"
  "onerror_set (constructor w)" "sigint_set (constructor w)"
  "phase (constructor w) = Constructed" "stderr (constructor w) = []"
  "sent (constructor w) = []" "world (constructor w) = w"
  "capabilities (info (constructor w)) = [''tools'']"
  by (simp_all add: process_defs)

lemma start_simps [simp]:
  "handlers (start c p) = handlers p" "onerror_set (start c p) = onerror_set p"
  "sigint_set (start c p) = sigint_set p" "info (start c p) = info p"
  "sent (start c p) = sent p" "world (start c p) = world p"
  "phase (start Connects p) = Running" "phase (start (ConnectFails e) p) = phase p"
  by (simp_all add: process_defs split: connect_result.splits)

lemma receive_simps [simp]:
  "handlers (receive rt req p) = handlers p" "onerror_set (receive rt req p) = onerror_set p"
  "sigint_set (receive rt req p) = sigint_set p" "info (receive rt req p) = info p"
  "phase (receive rt req p) = phase p" "stderr (receive rt req p) = stderr p"
  by (simp_all add: process_defs split: option.splits prod.splits)

lemma on_sigint_simps [simp]:
  "handlers (on_sigint p) = handlers p" "onerror_set (on_sigint p) = onerror_set p"
  "sigint_set (on_sigint p) = sigint_set p" "info (on_sigint p) = info p"
  "sent (on_sigint p) = sent p" "world (on_sigint p) = world p"
  "stderr (on_sigint p) = stderr p"
  "phase (on_sigint p) = (if sigint_set p then Exited 0 else Exited 130)"
  by (simp_all add: process_defs)

lemma onerror_simps [simp]:
  "handlers (onerror e p) = handlers p" "onerror_set (onerror e p) = onerror_set p"
  "sigint_set (onerror e p) = sigint_set p" "info (onerror e p) = info p"
  "sent (onerror e p) = sent p" "world (onerror e p) = world p"
  "phase (onerror e p) = phase p"
  by (simp_all add: process_defs)

lemma receive_wired:
  "wired p \<Longrightarrow> receive rt req p =
     (case respond rt req (world p) of (res, w') \<Rightarrow> p\<lparr>sent := sent p @ [res], world := w'\<rparr>)"
  by (cases req) (simp_all add: receive_def wired_def)

section \<open>Transitions and the transition function\<close>

lemma trans_iff_step:
  "trans rt p e p' \<longleftrightarrow>
     p' = step rt e p \<and> \<not> exited (phase p) \<and> (e = Sigint \<or> (case e of
        Start c \<Rightarrow> phase p = Constructed | Sigint \<Rightarrow> True | _ \<Rightarrow> phase p = Running))"
  by (cases e) (auto simp: trans_iffs step_def)

lemma trans_step: "trans rt p e p' \<Longrightarrow> p' = step rt e p"
  by (simp add: trans_iff_step)

lemma trans_deterministic: "trans rt p e p' \<Longrightarrow> trans rt p e p'' \<Longrightarrow> p' = p''"
  by (simp add: trans_iff_step)

lemma step_trans: "step rt e p \<noteq> p \<Longrightarrow> trans rt p e (step rt e p)"
  by (cases e) (auto simp: trans_iffs step_def split: if_splits)

lemma trans_not_exited: "trans rt p e p' \<Longrightarrow> \<not> exited (phase p)"
  by (simp add: trans_iff_step)

lemma exec_simps [simp]:
  "exec rt [] p = p" "exec rt (e # es) p = exec rt es (step rt e p)"
  "exec rt (es @ es') p = exec rt es' (exec rt es p)"
  by (simp_all add: exec_def)

lemma exec_exited: "exited (phase p) \<Longrightarrow> exec rt es p = p"
  by (induction es) (simp_all add: step_def)

section \<open>The invariant\<close>

lemma wired_constructor: "wired (constructor w)"
  by (simp add: wired_def)

lemma wired_trans: "trans rt p e p' \<Longrightarrow> wired p \<Longrightarrow> wired p'"
proof (induction rule: trans.induct)
  case (start p c)
  then show ?case by (cases c) (simp_all add: wired_def)
qed (simp_all add: wired_def)

lemma reachable_wired: "reachable rt p \<Longrightarrow> wired p"
  by (induction rule: reachable.induct) (auto intro: wired_constructor wired_trans)

lemma reachable_step: "reachable rt p \<Longrightarrow> reachable rt (step rt e p)"
  by (cases "step rt e p = p") (auto intro: reachable.after step_trans)

lemma reachable_exec: "reachable rt p \<Longrightarrow> reachable rt (exec rt es p)"
  by (induction es arbitrary: p) (simp_all add: reachable_step)

lemma exec_requests:
  assumes "wired p" and "phase p = Running"
  shows "exec rt (map Receive reqs) p =
           p\<lparr>sent := sent p @ fst (serve rt reqs (world p)), world := snd (serve rt reqs (world p))\<rparr>"
  using assms
proof (induction reqs arbitrary: p)
  case Nil
  then show ?case by simp
next
  case (Cons req reqs)
  obtain res w' where r: "respond rt req (world p) = (res, w')"
    by (cases "respond rt req (world p)")
  let ?q = "p\<lparr>sent := sent p @ [res], world := w'\<rparr>"
  from Cons.prems r have s: "step rt (Receive req) p = ?q"
    by (simp add: step_def receive_wired)
  from Cons.prems have "wired ?q" and "phase ?q = Running"
    by (simp_all add: wired_def)
  then have "exec rt (map Receive reqs) ?q =
      ?q\<lparr>sent := sent ?q @ fst (serve rt reqs (world ?q)), world := snd (serve rt reqs (world ?q))\<rparr>"
    by (rule Cons.IH)
  with s r show ?case
    by (simp add: split_beta)
qed

lemma respond_recording:
  "snd (respond (recording rsp fmt) req tr) = tr @ (case command_line fmt req of None \<Rightarrow> [] | Some l \<Rightarrow> [l])"
proof (cases req)
  case (CallToolRequest r)
  show ?thesis
  proof (cases "CallToolRequestSchema r")
    case False
    with CallToolRequest show ?thesis by simp
  next
    case True
    show ?thesis
    proof (cases "request_command fmt r")
      case None
      then obtain c msg where "call_tool (recording rsp fmt) r tr = (Inl (McpError c msg), tr)"
        using call_tool_no_command [of "recording rsp fmt" r tr] by auto
      with None True CallToolRequest show ?thesis by simp
    next
      case (Some c)
      then have "call_tool (recording rsp fmt) r tr = run_command (recording rsp fmt) c tr"
        by (simp add: call_tool_command)
      with Some True CallToolRequest run_command_recording [of rsp fmt c tr] show ?thesis
        by (auto split: prod.splits sum.splits)
    qed
  qed
qed simp_all

lemma serve_recording:
  "snd (serve (recording rsp fmt) reqs tr) = tr @ List.map_filter (command_line fmt) reqs"
proof (induction reqs arbitrary: tr)
  case Nil
  then show ?case by (simp add: List.map_filter_simps)
next
  case (Cons req reqs)
  show ?case
    using Cons.IH [of "snd (respond (recording rsp fmt) req tr)"]
    by (simp add: respond_recording split_beta List.map_filter_simps split: option.splits)
qed

lemma length_serve [simp]: "length (fst (serve rt reqs w)) = length reqs"
  by (induction reqs arbitrary: w) (simp_all add: split_beta)

lemma main_step: "main c w = step rt (Start c) (constructor w)"
  by (simp add: main_def step_def)

lemma started_process:
  "wired (step rt (Start Connects) (constructor w))"
  "phase (step rt (Start Connects) (constructor w)) = Running"
  "sent (step rt (Start Connects) (constructor w)) = []"
  "world (step rt (Start Connects) (constructor w)) = w"
proof -
  have "reachable rt (step rt (Start Connects) (constructor w))"
    by (intro reachable_step reachable.initial)
  then show "wired (step rt (Start Connects) (constructor w))"
    by (rule reachable_wired)
qed (simp_all add: step_def)

lemma session_world:
  "world (exec (recording rsp fmt) (Start Connects # map Receive reqs) (constructor [])) =
     List.map_filter (command_line fmt) reqs"
  using started_process [of "recording rsp fmt" "[]"]
  by (simp add: exec_requests serve_recording)

section \<open>Properties of the process\<close>

text \<open>
  Claim C22 (invariant).  In every state the process reaches, both request
  handlers, the error callback and the interrupt listener are installed, the
  declared capability is \<^verbatim>\<open>tools\<close>, and the process is constructed, running, or
  has exited with status \<open>0\<close>: it never exits with another status.
\<close>

theorem reachable_process_wired:
  assumes "reachable rt p"
  shows "wired p \<and> (\<forall>c. phase p = Exited c \<longrightarrow> c = 0)"
  using reachable_wired [OF assms] by (auto simp: wired_def)

theorem reachable_process_wired_witness:
  "wired (exec (recording (\<lambda>line. Stdout []) (\<lambda>q. []))
       [Start Connects, Receive ListToolsRequest, Sigint] (constructor []))"
  using reachable_process_wired [OF reachable_exec [OF reachable.initial],
      of "recording (\<lambda>line. Stdout []) (\<lambda>q. [])"
         "[Start Connects, Receive ListToolsRequest, Sigint]" "[]"]
  by simp





text \<open>
  Claim C23 (functional).  The commands a session runs are the commands of its
  valid tool calls, in the order of the requests: a process started on the
  recording runtime that receives a list of requests has run, at the end, one
  line \<^verbatim>\<open>gh <command>\<close> for each tool call that conforms to the request schema,
  names a tool and passes its guard, nothing for any other request, and has
  sent one response per request.
\<close>

theorem session_runs_valid_calls_in_order:
  "world (exec (recording rsp fmt) (Start Connects # map Receive reqs) (constructor [])) =
     List.map_filter (command_line fmt) reqs \<and>
   length (sent (exec (recording rsp fmt) (Start Connects # map Receive reqs) (constructor []))) =
     length reqs"
  using started_process [of "recording rsp fmt" "[]"]
  by (simp add: exec_requests serve_recording)

text \<open>
  Claim C34 (safety).  Only a request received by a running process acts: an
  event that changes the world or the responses sent is a request, and the
  process was running when it arrived.  Nothing is run before the transport is
  connected, after the process has exited, on an interrupt or on a transport
  error.  An event that changes the world is, moreover, a tool call whose
  arguments conform to the request schema, whose name is one of the four tools
  and whose arguments pass the guard of that tool: a malformed request, an
  unknown tool and rejected arguments run nothing.
\<close>

theorem only_requests_act:
  assumes "world (step rt e p) \<noteq> world p \<or> sent (step rt e p) \<noteq> sent p"
  shows "phase p = Running \<and> (\<exists>req. e = Receive req) \<and>
         (world (step rt e p) \<noteq> world p \<longrightarrow>
            (\<exists>r t. e = Receive (CallToolRequest r) \<and> CallToolRequestSchema r \<and>
               tool_of_name (name r) = Some t \<and> tool_valid t (arguments r)))"
proof -
  from assms have run: "phase p = Running" and "\<exists>req. e = Receive req"
    by (cases e; auto simp: step_def split: if_splits)+
  then obtain req where e: "e = Receive req" by blast
  have "\<exists>r t. req = CallToolRequest r \<and> CallToolRequestSchema r \<and>
               tool_of_name (name r) = Some t \<and> tool_valid t (arguments r)"
    if "world (step rt e p) \<noteq> world p"
  proof -
    from that run e have "snd (respond rt req (world p)) \<noteq> world p"
      by (auto simp: step_def receive_def split: option.splits if_splits prod.splits)
    then show ?thesis by (rule respond_world_changed) blast
  qed
  with run e show ?thesis by simp
qed

theorem only_requests_act_witness:
  "sent (step (recording (\<lambda>line. Stdout []) (\<lambda>q. [])) (Receive ListToolsRequest)
      (start Connects (constructor []))) \<noteq> [] \<and>
   phase (start Connects (constructor []) :: string list process) = Running"
proof -
  let ?rt = "recording (\<lambda>line. Stdout []) (\<lambda>q. []) :: string list runtime"
  let ?p = "start Connects (constructor []) :: string list process"
  have "sent (step ?rt (Receive ListToolsRequest) ?p) \<noteq> sent ?p"
    by (simp add: step_def receive_def)
  with only_requests_act [of ?rt "Receive ListToolsRequest" ?p] show ?thesis
    by simp
qed



text \<open>
  Claim C38 (functional).  The published schemas, the guards and the request
  schema differ.  Every object with a numeric \<^verbatim>\<open>number\<close> conforms to the
  published schema of \<^verbatim>\<open>view_pr\<close>, and the call is answered with
  \<^verbatim>\<open>InvalidParams\<close> unless the number is an integer greater than zero.  Every
  array passes the guard of \<^verbatim>\<open>list_prs\<close>, though no array conforms to its
  published schema; it is the request schema that keeps arrays out, so the
  request is refused before the handler is called and nothing is run.
  \<^verbatim>\<open>list_prs\<close> has no required property and the request schema admits a call
  without \<^verbatim>\<open>arguments\<close>, yet such a call is answered with \<^verbatim>\<open>InvalidParams\<close> and
  runs nothing, while the empty object runs \<^verbatim>\<open>gh pr list\<close>.
\<close>

theorem schema_and_guard_differ:
  "conforms (inputSchema (entry ViewPr)) (JObj [(''number'', JNum (Fin q))]) \<and>
   (fst (call_tool rt \<lparr>name = ''view_pr'', arguments = JObj [(''number'', JNum (Fin q))]\<rparr> w) =
      Inl (McpError InvalidParams ''Invalid view_pr arguments'') \<longleftrightarrow>
    \<not> (integral q \<and> 0 < q)) \<and>
   isValidListPrArgs (JArr xs) \<and> \<not> conforms (inputSchema list_prs_info) (JArr xs) \<and>
   respond rt (CallToolRequest \<lparr>name = ''list_prs'', arguments = JArr xs\<rparr>) w = (SchemaError, w) \<and>
   required (inputSchema list_prs_info) = [] \<and>
   respond (recording rsp fmt) (CallToolRequest \<lparr>name = ''list_prs'', arguments = JUndefined\<rparr>) [] =
     (Failure (McpError InvalidParams ''Invalid list_prs arguments''), []) \<and>
   snd (respond (recording rsp fmt) (CallToolRequest \<lparr>name = ''list_prs'', arguments = JObj []\<rparr>) []) =
     [''gh pr list'']"
proof -
  have "conforms (inputSchema (entry ViewPr)) (JObj [(''number'', JNum (Fin q))]) \<and>
      (fst (call_tool rt \<lparr>name = ''view_pr'', arguments = JObj [(''number'', JNum (Fin q))]\<rparr> w) =
         Inl (McpError InvalidParams ''Invalid view_pr arguments'') \<longleftrightarrow>
       \<not> (integral q \<and> 0 < q))"
    using call_tool_tool [of rt ViewPr "JObj [(''number'', JNum (Fin q))]" w]
    by (auto simp: view_pr_info_def isValidViewPrArgs_def run_command_no_mcp_error)
  moreover have "isValidListPrArgs (JArr xs) \<and> \<not> conforms (inputSchema list_prs_info) (JArr xs)"
    by (simp add: isValidListPrArgs_def)
  moreover have "required (inputSchema list_prs_info) = [] \<and>
      respond (recording rsp fmt) (CallToolRequest \<lparr>name = ''list_prs'', arguments = JUndefined\<rparr>) [] =
        (Failure (McpError InvalidParams ''Invalid list_prs arguments''), []) \<and>
      snd (respond (recording rsp fmt) (CallToolRequest \<lparr>name = ''list_prs'', arguments = JObj []\<rparr>) []) =
        [''gh pr list'']"
    using call_tool_tool [of "recording rsp fmt" ListPrs JUndefined "[]"]
      respond_recording [of rsp fmt "CallToolRequest \<lparr>name = ''list_prs'', arguments = JObj []\<rparr>" "[]"]
      request_command_tool [of fmt ListPrs "JObj []"]
    by (simp add: isValidListPrArgs_def list_prs_command_def list_prs_info_def)
  ultimately show ?thesis
    by simp
qed

end
