(* ===== verification/Session.thy ===== *)
theory Session
  imports Server
begin

text \<open>
  What holds of a whole run of the process of \<open>Server\<close>, whatever the events
  and their order: the shape of everything it sends, how much it sends and
  runs, and that an interrupt ends it.

  A reply is the envelope of the specification: one block of type \<^verbatim>\<open>text\<close>
  and an error flag that is absent or \<^verbatim>\<open>true\<close> (the handler of
  \<^verbatim>\<open>src/src/index.ts\<close> builds it in lines 235-253 and three more times).  A
  protocol failure is an \<^verbatim>\<open>McpError\<close> with code \<^verbatim>\<open>InvalidParams\<close> or
  \<^verbatim>\<open>MethodNotFound\<close>, or a value that \<^verbatim>\<open>execSync\<close> threw and that is no
  \<^verbatim>\<open>Error\<close>; an \<^verbatim>\<open>InternalError\<close> never leaves the handler, which turns it into a
  flagged reply.  The refusal of an unhandled method and of a tool call that
  does not conform to the request schema come from the SDK, not from the
  handler, and carry nothing of the program.
\<close>

section \<open>Well-formed replies and responses\<close>

definition wf_reply :: "ToolReply \<Rightarrow> bool" where
  "wf_reply r \<longleftrightarrow>
     (case content r of [block] \<Rightarrow> content_type block = ''text'' | _ \<Rightarrow> False) \<and>
     isError r \<noteq> Some False"

fun wf_failure :: "exn \<Rightarrow> bool" where
  "wf_failure (McpError c msg) \<longleftrightarrow> c = InvalidParams \<or> c = MethodNotFound"
| "wf_failure (Thrown v) \<longleftrightarrow> True"

fun wf_response :: "response \<Rightarrow> bool" where
  "wf_response (ToolsResult infos) \<longleftrightarrow> infos = list_tools"
| "wf_response (CallResult r) \<longleftrightarrow> wf_reply r"
| "wf_response (Failure e) \<longleftrightarrow> wf_failure e"
| "wf_response (NoHandler m) \<longleftrightarrow> True"
| "wf_response SchemaError \<longleftrightarrow> True"

section \<open>Counting events\<close>

fun is_request :: "event \<Rightarrow> bool" where
  "is_request (Receive req) = True"
| "is_request e = False"

fun is_tool_call :: "event \<Rightarrow> bool" where
  "is_tool_call (Receive (CallToolRequest r)) = True"
| "is_tool_call e = False"

text \<open>A request for which a handler is registered.\<close>

definition handled :: "'w process \<Rightarrow> request \<Rightarrow> bool" where
  "handled p req \<longleftrightarrow> (case method_of req of None \<Rightarrow> False | Some m \<Rightarrow> m \<in> set (handlers p))"

section \<open>The handler returns envelopes\<close>

lemma wf_text_reply [simp]: "wf_reply (text_reply out)"
  by (simp add: wf_reply_def text_reply_def)

lemma wf_error_reply [simp]: "wf_reply (error_reply msg)"
  by (simp add: wf_reply_def error_reply_def)

lemma run_command_wf:
  "case fst (run_command rt command w) of Inr reply \<Rightarrow> wf_reply reply | Inl e \<Rightarrow> e \<in> range Thrown"
  by (cases "execSync rt (''gh '' @ command) w" rule: prod.exhaust [case_names Pair])
    (auto simp: run_command_def text_reply_def error_reply_def wf_reply_def
      split: exec_result.splits)

lemma call_tool_wf:
  "case fst (call_tool rt request w) of Inr reply \<Rightarrow> wf_reply reply | Inl e \<Rightarrow> wf_failure e"
proof (cases "tool_of_name (name request)")
  case None
  then show ?thesis by (simp add: call_tool_no_tool)
next
  case (Some t)
  then have "request = \<lparr>name = tool_name t, arguments = arguments request\<rparr>"
    by simp
  then have "call_tool rt request w =
      (if tool_valid t (arguments request)
       then run_command rt (tool_command t (numberToString rt) (arguments request)) w
       else (Inl (McpError InvalidParams (''Invalid '' @ tool_name t @ '' arguments'')), w))"
    using call_tool_tool [of rt t "arguments request" w] by simp
  then show ?thesis
    using run_command_wf [of rt "tool_command t (numberToString rt) (arguments request)" w]
    by (auto split: sum.splits)
qed

lemma respond_wf: "wf_response (fst (respond rt req w))"
proof (cases req)
  case (CallToolRequest r)
  then show ?thesis
    using call_tool_wf [of rt r w] by (auto split: prod.splits sum.splits)
qed simp_all

section \<open>One event\<close>

lemma receive_handled:
  "handled p req \<Longrightarrow>
   receive rt req p =
     p\<lparr>sent := sent p @ [fst (respond rt req (world p))], world := snd (respond rt req (world p))\<rparr>"
  by (cases "method_of req") (simp_all add: handled_def receive_def split_beta)

lemma receive_not_handled:
  "\<not> handled p req \<Longrightarrow> receive rt req p = p\<lparr>sent := sent p @ [NoHandler (method_name req)]\<rparr>"
  by (cases "method_of req") (simp_all add: handled_def receive_def)

lemma receive_sent: "\<exists>res. wf_response res \<and> sent (receive rt req p) = sent p @ [res]"
proof (cases "handled p req")
  case True
  then have "sent (receive rt req p) = sent p @ [fst (respond rt req (world p))]"
    by (simp add: receive_handled)
  with respond_wf [of rt req "world p"] show ?thesis
    by blast
next
  case False
  then have "sent (receive rt req p) = sent p @ [NoHandler (method_name req)]"
    by (simp add: receive_not_handled)
  then show ?thesis
    by simp
qed

lemma step_sent_cases:
  obtains (same) "sent (step rt e p) = sent p"
  | (more) res where "is_request e" and "phase p = Running" and "wf_response res"
      and "sent (step rt e p) = sent p @ [res]"
proof (cases "phase p = Running \<and> is_request e")
  case True
  then obtain req where "e = Receive req"
    by (cases e) auto
  with True receive_sent [of rt req p] show ?thesis
    by (auto simp: step_def intro: more)
next
  case False
  then have "sent (step rt e p) = sent p"
    by (cases e) (auto simp: step_def)
  then show ?thesis
    by (rule same)
qed

lemma receive_world_recording:
  "length (world (receive (recording rsp fmt) req p)) \<le>
     length (world p) + (if is_tool_call (Receive req) then 1 else 0)"
proof (cases "handled p req")
  case True
  then have "world (receive (recording rsp fmt) req p) = snd (respond (recording rsp fmt) req (world p))"
    by (simp add: receive_handled)
  also have "\<dots> = world p @ (case command_line fmt req of None \<Rightarrow> [] | Some l \<Rightarrow> [l])"
    by (rule respond_recording)
  finally show ?thesis
    by (cases req) (simp_all split: option.splits)
next
  case False
  then show ?thesis
    by (simp add: receive_not_handled)
qed

lemma step_world_recording:
  "length (world (step (recording rsp fmt) e p)) \<le> length (world p) + (if is_tool_call e then 1 else 0)"
proof (cases e)
  case (Receive req)
  with receive_world_recording [of rsp fmt req p] show ?thesis
    by (simp add: step_def split: if_splits)
qed (simp_all add: step_def)

section \<open>Sequences of events\<close>

lemma sent_wf_step: "list_all wf_response (sent p) \<Longrightarrow> list_all wf_response (sent (step rt e p))"
  by (rule step_sent_cases [of rt e p]) simp_all

lemma sent_wf_reachable: "reachable rt p \<Longrightarrow> list_all wf_response (sent p)"
proof (induction rule: reachable.induct)
  case (initial w)
  then show ?case by simp
next
  case (after p e p')
  from after.hyps(2) have "p' = step rt e p"
    by (rule trans_step)
  with after.IH show ?case
    by (simp add: sent_wf_step)
qed

lemma length_sent_step:
  "length (sent (step rt e p)) \<le> length (sent p) + (if is_request e then 1 else 0)"
  by (rule step_sent_cases [of rt e p]) simp_all

lemma length_sent_exec:
  "length (sent (exec rt es p)) \<le> length (sent p) + length (filter is_request es)"
proof (induction es arbitrary: p)
  case Nil
  then show ?case by simp
next
  case (Cons e es)
  from Cons.IH [of "step rt e p"] length_sent_step [of rt e p] show ?case
    by (simp split: if_splits)
qed

lemma length_world_exec:
  "length (world (exec (recording rsp fmt) es p)) \<le> length (world p) + length (filter is_tool_call es)"
proof (induction es arbitrary: p)
  case Nil
  then show ?case by simp
next
  case (Cons e es)
  from Cons.IH [of "step (recording rsp fmt) e p"] step_world_recording [of rsp fmt e p]
  show ?case
    by (simp split: if_splits)
qed

lemma exited_zero: "reachable rt p \<Longrightarrow> exited (phase p) \<Longrightarrow> phase p = Exited 0"
  by (drule reachable_wired) (auto simp: wired_def)

lemma step_sigint:
  assumes "reachable rt p"
  shows "phase (step rt Sigint p) = Exited 0"
proof (cases "exited (phase p)")
  case True
  with assms show ?thesis
    by (simp add: step_def exited_zero)
next
  case False
  with reachable_wired [OF assms] show ?thesis
    by (simp add: step_def wired_def)
qed

lemma exec_sigint:
  assumes "reachable rt p"
  shows "exec rt (es @ Sigint # es') p = exec rt (es @ [Sigint]) p"
    and "phase (exec rt (es @ Sigint # es') p) = Exited 0"
proof -
  have "reachable rt (exec rt es p)"
    using assms by (rule reachable_exec)
  then have "phase (step rt Sigint (exec rt es p)) = Exited 0"
    by (rule step_sigint)
  then show "exec rt (es @ Sigint # es') p = exec rt (es @ [Sigint]) p"
    and "phase (exec rt (es @ Sigint # es') p) = Exited 0"
    by (simp_all add: exec_exited)
qed

lemma trans_progress: "\<not> exited (phase p) \<Longrightarrow> \<exists>p'. trans rt p Sigint p'"
  by (auto intro: trans.interrupt)

section \<open>Properties of every run\<close>

text \<open>
  Claim C12 (type).  Everything the process sends is well formed.  In every
  reachable state each response sent so far is the catalogue, a reply envelope
  (exactly one block, of type \<^verbatim>\<open>text\<close>, the error flag absent or \<^verbatim>\<open>true\<close>), a
  protocol failure with code \<^verbatim>\<open>InvalidParams\<close> or \<^verbatim>\<open>MethodNotFound\<close> or a foreign
  thrown value, or the refusal of a method without handler or of a tool call
  that does not conform to the request schema; an \<^verbatim>\<open>InternalError\<close> is never
  sent as a protocol failure.
\<close>

theorem responses_are_well_formed:
  assumes "reachable rt p"
  shows "list_all wf_response (sent p)"
  using assms by (rule sent_wf_reachable)

theorem responses_are_well_formed_witness:
  "list_all wf_response
     (sent (exec (recording (\<lambda>line. ThrowsError ''no gh'') (\<lambda>q. []))
        [Start Connects,
         Receive (CallToolRequest \<lparr>name = ''merge_pr'', arguments = JNull\<rparr>),
         Receive (CallToolRequest \<lparr>name = ''list_prs'', arguments = JObj []\<rparr>),
         Receive ListToolsRequest] (constructor [])))"
  by (rule responses_are_well_formed [OF reachable_exec [OF reachable.initial]])

text \<open>
  Claim C24 (bounds).  A run sends at most one response per request received and
  runs at most one command per tool call received, whatever else happens and
  in whatever order: there is no retry, and no event other than a tool call
  starts \<^verbatim>\<open>gh\<close>.
\<close>

theorem session_is_bounded:
  "length (sent (exec rt es p)) \<le> length (sent p) + length (filter is_request es) \<and>
   length (world (exec (recording rsp fmt) es q)) \<le>
     length (world q) + length (filter is_tool_call es)"
  by (simp add: length_sent_exec length_world_exec del: exec_simps)

text \<open>
  Claim C15 (liveness).  An interrupt ends the process, whenever it comes: if the
  events of a run contain an interrupt, then at the end of the run the process
  has exited with status \<open>0\<close>, whatever was requested before or arrives after.
\<close>

theorem interrupt_eventually_exits:
  assumes "reachable rt p" and "Sigint \<in> set es"
  shows "phase (exec rt es p) = Exited 0"
proof -
  from assms(2) obtain es1 es2 where "es = es1 @ Sigint # es2"
    by (auto dest: split_list)
  with assms(1) show ?thesis
    by (simp add: exec_sigint(2) del: exec_simps)
qed

theorem interrupt_eventually_exits_witness:
  "phase (exec (recording (\<lambda>line. Stdout []) (\<lambda>q. []))
      [Start Connects, Receive ListToolsRequest, Sigint, Receive ListToolsRequest, Sigint]
      (constructor [])) = Exited 0"
  by (rule interrupt_eventually_exits [OF reachable.initial]) simp

end
