(* ===== verification/Shell_Session.thy ===== *)
theory Shell_Session
  imports Argv Session
begin

text \<open>
  The two ends of the program put together: the requests a started process of
  \<open>Server\<close> receives, and what the shell of \<open>Shell_Words\<close> makes of the
  lines the process has run at the end.  \<open>request_args\<close> reads a request as
  the validated arguments of a tool call, when it is one; the lemmas say that
  the lines run are the lines \<open>gh_line\<close> of these arguments, in the order of
  the requests, and what the shell parses them to when the arguments are safe.
\<close>

text \<open>The validated arguments of a request, when it is a valid tool call.\<close>

fun request_args :: "request \<Rightarrow> validated_args option" where
  "request_args (CallToolRequest r) =
     (if CallToolRequestSchema r
      then (case tool_of_name (name r) of None \<Rightarrow> None | Some t \<Rightarrow> validate t (arguments r))
      else None)"
| "request_args req = None"

lemma command_line_args: "command_line fmt req = map_option (gh_line fmt) (request_args req)"
proof (cases req)
  case (CallToolRequest r)
  show ?thesis
  proof (cases "tool_of_name (name r)")
    case None
    with CallToolRequest show ?thesis by (simp add: request_command_def)
  next
    case (Some t)
    show ?thesis
    proof (cases "validate t (arguments r)")
      case None
      with Some CallToolRequest show ?thesis by (simp add: request_command_def)
    next
      case (Some a)
      with \<open>tool_of_name (name r) = Some t\<close> CallToolRequest show ?thesis
        by (simp add: request_command_def validate_Some_valid validate_command gh_line_def)
    qed
  qed
qed simp_all

lemma map_filter_map_option:
  "List.map_filter (\<lambda>x. map_option f (g x)) xs = map f (List.map_filter g xs)"
  by (induction xs) (simp_all add: List.map_filter_simps split: option.splits)

lemma session_lines:
  "List.map_filter (command_line fmt) reqs = map (gh_line fmt) (List.map_filter request_args reqs)"
proof -
  have "command_line fmt = (\<lambda>req. map_option (gh_line fmt) (request_args req))"
    by (rule ext) (rule command_line_args)
  then show ?thesis
    by (simp add: map_filter_map_option)
qed

lemma session_argvs:
  assumes "list_all (shell_safe fmt) (List.map_filter request_args reqs)"
  shows "map sh_parse (world (exec (recording rsp fmt) (Start Connects # map Receive reqs)
             (constructor []))) =
           map (\<lambda>a. Some [argv fmt a]) (List.map_filter request_args reqs)"
  using assms
  by (simp add: session_world session_lines list_all_iff sh_parse_gh_line del: exec_simps)

end
