(* ===== verification/Readme.thy ===== *)
theory Readme
  imports Shell_Session
begin

text \<open>
  What the README (lines 392-476 of \<^verbatim>\<open>src/src/index.ts\<close>) tells a caller, as
  data: the four features with the parameters it names for each (lines
  400-410), and the four usage examples (lines 420-471), each a call
  \<^verbatim>\<open>use_mcp_tool({server_name, tool_name, arguments})\<close>.  The lemmas compare
  the document with the program: the documented tools and parameters are the
  published ones, and every example, sent to the server as it is written,
  passes its guard and runs the command the feature describes.  \<open>pr_operation\<close>
  is the documented purpose as a predicate on the commands that are run: a
  pull-request operation of \<^verbatim>\<open>gh\<close>.
\<close>

section \<open>Features\<close>

record Feature =
  feature_title :: string
  feature_tool :: string
  feature_parameters :: "string list"

definition readme_features :: "Feature list" where
  "readme_features =
     [\<lparr>feature_title = ''Create PR'', feature_tool = ''create_pr'',
       feature_parameters = [''title'', ''body'', ''base'', ''head'', ''draft'']\<rparr>,
      \<lparr>feature_title = ''List PRs'', feature_tool = ''list_prs'',
       feature_parameters = [''state'', ''base'', ''limit'']\<rparr>,
      \<lparr>feature_title = ''View PR'', feature_tool = ''view_pr'',
       feature_parameters = [''number'']\<rparr>,
      \<lparr>feature_title = ''Comment on PR'', feature_tool = ''comment_pr'',
       feature_parameters = [''number'', ''body'']\<rparr>]"

definition readme_states :: "string list" where
  "readme_states = [''open'', ''closed'', ''merged'', ''all'']"

section \<open>Usage examples\<close>

record UsageExample =
  use_server :: string
  use_tool :: string
  use_arguments :: jsval

definition readme_create_pr :: UsageExample where
  "readme_create_pr =
     \<lparr>use_server = ''limited-github-cli'',
      use_tool = ''create_pr'',
      use_arguments =
        JObj [(''title'', JStr ''Add new feature''),
              (''body'', JStr ''This PR adds feature X''),
              (''base'', JStr ''main''),
              (''head'', JStr ''feature/x''),
              (''draft'', JBool True)]\<rparr>"

definition readme_list_prs :: UsageExample where
  "readme_list_prs =
     \<lparr>use_server = ''limited-github-cli'',
      use_tool = ''list_prs'',
      use_arguments = JObj [(''state'', JStr ''open''), (''limit'', JNum (Fin 5))]\<rparr>"

definition readme_view_pr :: UsageExample where
  "readme_view_pr =
     \<lparr>use_server = ''limited-github-cli'',
      use_tool = ''view_pr'',
      use_arguments = JObj [(''number'', JNum (Fin 123))]\<rparr>"

definition readme_comment_pr :: UsageExample where
  "readme_comment_pr =
     \<lparr>use_server = ''limited-github-cli'',
      use_tool = ''comment_pr'',
      use_arguments =
        JObj [(''number'', JNum (Fin 123)),
              (''body'', JStr (''I'' @ [CHR 0x27] @ ''ve reviewed this. LGTM!''))]\<rparr>"

definition readme_examples :: "UsageExample list" where
  "readme_examples = [readme_create_pr, readme_list_prs, readme_view_pr, readme_comment_pr]"

lemmas readme_defs =
  readme_create_pr_def readme_list_prs_def readme_view_pr_def readme_comment_pr_def

text \<open>The request a client makes of an example, and the typed arguments it carries.\<close>

definition use_mcp_tool :: "UsageExample \<Rightarrow> request" where
  "use_mcp_tool ex = CallToolRequest \<lparr>name = use_tool ex, arguments = use_arguments ex\<rparr>"

definition readme_args :: "validated_args list" where
  "readme_args =
     [CreateArgs \<lparr>cr_title = ''Add new feature'', cr_body = Some ''This PR adds feature X'',
                  cr_base = Some ''main'', cr_head = Some ''feature/x'', cr_draft = Some True\<rparr>,
      ListArgs \<lparr>ls_state = Some Open, ls_base = None, ls_limit = Some (Fin 5)\<rparr>,
      ViewArgs \<lparr>vw_number = 123\<rparr>,
      CommentArgs \<lparr>cm_number = 123, cm_body = ''I'' @ [CHR 0x27] @ ''ve reviewed this. LGTM!''\<rparr>]"

text \<open>
  What the server is documented to do (lines 392-398): it uses \<^verbatim>\<open>gh\<close> to
  perform pull-request operations, the four of the feature list.  A command,
  as the words the shell passes on, is such an operation when it begins with
  \<^verbatim>\<open>gh pr\<close> and one of the four verbs.
\<close>

definition pr_operation :: "string list \<Rightarrow> bool" where
  "pr_operation ws \<longleftrightarrow>
     list_ex (\<lambda>verb. take 3 ws = [''gh'', ''pr'', verb]) [''create'', ''list'', ''view'', ''comment'']"

lemma argv_pr_operation: "pr_operation (argv fmt a)"
  by (cases a) (simp_all add: pr_operation_def argv_def)

section \<open>The document and the catalogue\<close>

lemma features_are_published:
  "map (\<lambda>f. (feature_tool f, feature_parameters f)) readme_features =
     map (\<lambda>i. (info_name i, map fst (properties (inputSchema i)))) list_tools"
  by (simp add: readme_features_def list_tools_def info_defs)

lemma states_are_published:
  "map_of (properties (inputSchema list_prs_info)) ''state'' =
     Some \<lparr>prop_type = TyString, prop_enum = Some readme_states, prop_description = ''Filter by state''\<rparr>"
  by (simp add: readme_states_def list_prs_info_def)

lemma examples_name_tools: "map use_tool readme_examples = map tool_name tools"
  by (simp add: readme_examples_def readme_defs tools_def)

lemma examples_name_server:
  "map use_server readme_examples = replicate 4 (server_name (info (constructor w)))"
  by (simp add: readme_examples_def readme_defs process_defs numeral_eq_Suc)

section \<open>The examples and the guards\<close>

lemma examples_args:
  "map request_args (map use_mcp_tool readme_examples) = map Some readme_args"
  by (simp add: readme_examples_def readme_defs use_mcp_tool_def readme_args_def
      as_args_defs validator_defs array_includes_pr_states)

lemma examples_conform:
  "list_all (\<lambda>ex. json_value (use_arguments ex)) readme_examples"
  "map (\<lambda>(ex, t). conforms (inputSchema (entry t)) (use_arguments ex)) (zip readme_examples tools) =
     replicate 4 True"
  by (auto simp: readme_examples_def readme_defs tools_def info_defs numeral_eq_Suc
      array_includes_pr_states)

lemma examples_safe: "list_all (shell_safe fmt) readme_args"
  by (simp add: readme_args_def shell_safe_create shell_safe_list shell_safe_view
      shell_safe_comment opt_all_def quote_safe_def bare_safe_def classify_def
      expansion_chars_def meta_chars_def)

lemma map_filter_Some: "map f xs = map Some ys \<Longrightarrow> List.map_filter f xs = ys"
  by (induction xs arbitrary: ys) (auto simp: List.map_filter_simps)

lemma examples_map_filter:
  "List.map_filter request_args (map use_mcp_tool readme_examples) = readme_args"
  using examples_args by (rule map_filter_Some)

lemma readme_argvs:
  "map (argv fmt) readme_args =
     [[''gh'', ''pr'', ''create'', ''--title'', ''Add new feature'', ''--body'',
       ''This PR adds feature X'', ''--base'', ''main'', ''--head'', ''feature/x'', ''--draft''],
      [''gh'', ''pr'', ''list'', ''--state'', ''open'', ''--limit'', ''5''],
      [''gh'', ''pr'', ''view'', ''123''],
      [''gh'', ''pr'', ''comment'', ''123'', ''--body'',
       ''I'' @ [CHR 0x27] @ ''ve reviewed this. LGTM!'']]"
  by (simp add: readme_args_def argv_def flag_tokens_def bare_flag_tokens_def limit_tokens_def)

section \<open>The document and the program\<close>



end
