(* ===== verification/Shell_Subst.thy ===== *)
theory Shell_Subst
  imports Shell_Words
begin

text \<open>
  The shell of \<open>Shell_Words\<close> with command substitution.  Between double
  quotes the shell still expands \<^verbatim>\<open>$(...)\<close>: it runs the text between the
  parentheses as a command line of its own and puts what that prints in place
  of the substitution, as part of the word and without reading it again.  The
  command templates of \<^verbatim>\<open>src/src/index.ts\<close> write caller-supplied text between
  double quotes, so this is the part of the shell language that a title
  without any double quote can still reach.

  \<open>runB\<close> and \<open>runW\<close> read a line like \<open>lexB\<close> and \<open>lexW\<close> and return, with
  the words, the commands that are run: for each command of the line first the
  commands of its substitutions, in the order of the text, then the command
  itself.  The closing parenthesis of a substitution is found by counting
  parentheses (\<open>close_paren\<close>); the text inside is read by \<open>runB\<close> again, so
  substitutions nest to any depth.  A substitution between backquotes ends at
  the next backquote (\<open>close_backquote\<close>) and is read in the same way.  What a
  command line prints is the parameter \<open>out\<close>.  Substitution outside double
  quotes, variables, backslash escapes and the other expansions stay outside
  the model: the result is \<open>None\<close>.

  The recursion of \<open>runB\<close> on the text of a substitution is not structural;
  it ends because that text is shorter than the line (\<open>close_paren_length\<close>,
  \<open>close_backquote_length\<close>),
  which is the termination proof below.  The reader is total: no fuel.
\<close>

section \<open>Finding the end of a substitution\<close>

type_synonym sh_output = "string \<Rightarrow> string"

fun close_paren :: "nat \<Rightarrow> string \<Rightarrow> (string \<times> string) option" where
  "close_paren d [] = None"
| "close_paren d (c # s) =
     (if c = CHR 0x29 then
        (case d of
           0 \<Rightarrow> Some ([], s)
         | Suc d' \<Rightarrow> map_option (\<lambda>(inner, rest). (c # inner, rest)) (close_paren d' s))
      else if c = CHR 0x28 then
        map_option (\<lambda>(inner, rest). (c # inner, rest)) (close_paren (Suc d) s)
      else map_option (\<lambda>(inner, rest). (c # inner, rest)) (close_paren d s))"

lemma close_paren_length:
  "close_paren d s = Some (inner, rest) \<Longrightarrow> Suc (length inner + length rest) = length s"
  by (induction d s arbitrary: inner rest rule: close_paren.induct)
    (auto split: if_splits nat.splits)

text \<open>
  The older notation of a substitution, between backquotes: it ends at the
  next backquote.
\<close>

fun close_backquote :: "string \<Rightarrow> (string \<times> string) option" where
  "close_backquote [] = None"
| "close_backquote (c # s) =
     (if c = CHR 0x60 then Some ([], s)
      else map_option (\<lambda>(inner, rest). (c # inner, rest)) (close_backquote s))"

lemma close_backquote_length:
  "close_backquote s = Some (inner, rest) \<Longrightarrow> Suc (length inner + length rest) = length s"
  by (induction s arbitrary: inner rest) (auto split: if_splits)

section \<open>The reader\<close>

function runB :: "sh_output \<Rightarrow> string \<Rightarrow> (string list \<times> string list list \<times> string list list) option"
  and runW :: "sh_output \<Rightarrow> bool \<Rightarrow> string \<Rightarrow>
      (string \<times> string list \<times> string list list \<times> string list list) option"
where
  "runB out [] = Some ([], [], [])"
| "runB out (c # s) =
     (case classify c of
        Blank \<Rightarrow> runB out s
      | Sep \<Rightarrow>
          (case runB out s of
             None \<Rightarrow> None
           | Some (ws, pre, post) \<Rightarrow> Some ([], [], pre @ ws # post))
      | DQuote \<Rightarrow>
          (case runW out True s of
             None \<Rightarrow> None
           | Some (w, ws, pre, post) \<Rightarrow> Some (w # ws, pre, post))
      | Plain \<Rightarrow>
          (case runW out False s of
             None \<Rightarrow> None
           | Some (w, ws, pre, post) \<Rightarrow> Some ((c # w) # ws, pre, post))
      | _ \<Rightarrow> None)"
| "runW out q [] = (if q then None else Some ([], [], [], []))"
| "runW out q (c # s) =
     (if q then
        (case classify c of
           DQuote \<Rightarrow> runW out False s
         | Expansion \<Rightarrow>
             (if c = CHR 0x24 \<and> s \<noteq> [] \<and> hd s = CHR 0x28 then
                (case close_paren 0 (tl s) of
                   None \<Rightarrow> None
                 | Some (inner, rest) \<Rightarrow>
                     (case runB out inner of
                        None \<Rightarrow> None
                      | Some (iws, ipre, ipost) \<Rightarrow>
                          (case runW out True rest of
                             None \<Rightarrow> None
                           | Some (w, ws, pre, post) \<Rightarrow>
                               Some (out inner @ w, ws, (ipre @ iws # ipost) @ pre, post))))
              else if c = CHR 0x60 then
                (case close_backquote s of
                   None \<Rightarrow> None
                 | Some (inner, rest) \<Rightarrow>
                     (case runB out inner of
                        None \<Rightarrow> None
                      | Some (iws, ipre, ipost) \<Rightarrow>
                          (case runW out True rest of
                             None \<Rightarrow> None
                           | Some (w, ws, pre, post) \<Rightarrow>
                               Some (out inner @ w, ws, (ipre @ iws # ipost) @ pre, post))))
              else None)
         | _ \<Rightarrow>
             (case runW out True s of
                None \<Rightarrow> None
              | Some (w, ws, pre, post) \<Rightarrow> Some (c # w, ws, pre, post)))
      else
        (case classify c of
           Blank \<Rightarrow>
             (case runB out s of
                None \<Rightarrow> None
              | Some (ws, pre, post) \<Rightarrow> Some ([], ws, pre, post))
         | Sep \<Rightarrow>
             (case runB out s of
                None \<Rightarrow> None
              | Some (ws, pre, post) \<Rightarrow> Some ([], [], [], pre @ ws # post))
         | DQuote \<Rightarrow> runW out True s
         | Plain \<Rightarrow>
             (case runW out False s of
                None \<Rightarrow> None
              | Some (w, ws, pre, post) \<Rightarrow> Some (c # w, ws, pre, post))
         | _ \<Rightarrow> None))"
  by pat_completeness auto

termination
  by (relation "measure (\<lambda>x. case x of Inl (out, s) \<Rightarrow> length s | Inr (out, q, s) \<Rightarrow> length s)")
    (auto dest!: close_paren_length close_backquote_length)

definition sh_run :: "sh_output \<Rightarrow> string \<Rightarrow> string list list option" where
  "sh_run out s = map_option (\<lambda>(ws, pre, post). pre @ ws # post) (runB out s)"


text \<open>Parentheses that match: the depth after a text, and a text that closes what it opens.\<close>

fun depth_after :: "nat \<Rightarrow> string \<Rightarrow> nat option" where
  "depth_after d [] = Some d"
| "depth_after d (c # s) =
     (if c = CHR 0x29 then (case d of 0 \<Rightarrow> None | Suc d' \<Rightarrow> depth_after d' s)
      else if c = CHR 0x28 then depth_after (Suc d) s
      else depth_after d s)"

definition balanced :: "string \<Rightarrow> bool" where
  "balanced s \<longleftrightarrow> depth_after 0 s = Some 0"

text \<open>
  A family of lines with substitutions nested \<open>n\<close> deep,
  \<^verbatim>\<open>echo "$(echo "$( ... id ... )")"\<close>, with the commands each runs.
\<close>

fun nest :: "nat \<Rightarrow> string" where
  "nest 0 = ''id''"
| "nest (Suc n) = ''echo '' @ quoted (CHR 0x24 # CHR 0x28 # nest n @ [CHR 0x29])"

fun nest_words :: "sh_output \<Rightarrow> nat \<Rightarrow> string list" where
  "nest_words out 0 = [''id'']"
| "nest_words out (Suc n) = [''echo'', out (nest n)]"

fun nest_cmds :: "sh_output \<Rightarrow> nat \<Rightarrow> string list list" where
  "nest_cmds out 0 = []"
| "nest_cmds out (Suc n) = nest_cmds out n @ [nest_words out n]"

section \<open>Matching parentheses\<close>

lemma depth_after_append:
  "depth_after d (s @ t) = (case depth_after d s of None \<Rightarrow> None | Some d' \<Rightarrow> depth_after d' t)"
  by (induction d s rule: depth_after.induct) (simp_all split: nat.splits)

lemma close_paren_append:
  "depth_after d s = Some d' \<Longrightarrow>
   close_paren d (s @ t) = map_option (\<lambda>(inner, rest). (s @ inner, rest)) (close_paren d' t)"
  by (induction d s rule: depth_after.induct)
    (auto split: nat.splits if_splits simp: option.map_comp comp_def case_prod_unfold
      option.map_ident)

lemma close_paren_balanced:
  "balanced s \<Longrightarrow> close_paren 0 (s @ CHR 0x29 # t) = Some (s, t)"
  by (simp add: balanced_def close_paren_append)

lemma balanced_plain: "list_all (\<lambda>c. c \<noteq> CHR 0x28 \<and> c \<noteq> CHR 0x29) s \<Longrightarrow> depth_after d s = Some d"
  by (induction s) simp_all

section \<open>The reader on lines without substitution\<close>

lemma run_lex:
  "lexB s = Some (ws, cs) \<Longrightarrow> runB out s = Some (ws, [], cs)"
  "lexW q s = Some (w, ws, cs) \<Longrightarrow> runW out q s = Some (w, ws, [], cs)"
proof (induction s and q s arbitrary: ws cs and w ws cs rule: lexB_lexW.induct)
  case 1
  then show ?case by simp
next
  case (2 c s)
  then show ?case
    by (cases "classify c") (auto split: option.splits)
next
  case (3 q)
  then show ?case by (simp split: if_splits)
next
  case (4 q c s)
  then show ?case
    by (cases "classify c"; cases q) (auto split: option.splits)
qed

lemma sh_run_parse: "sh_parse s = Some cs \<Longrightarrow> sh_run out s = Some cs"
  by (auto simp: sh_parse_def sh_run_def run_lex(1))

section \<open>Reading one word\<close>

lemma runW_plain:
  "list_all (\<lambda>c. classify c = Plain) w \<Longrightarrow>
   runW out False (w @ s) =
     map_option (\<lambda>(x, ws, pre, post). (w @ x, ws, pre, post)) (runW out False s)"
  by (induction w) (auto split: option.splits simp: option.map_ident case_prod_unfold)

lemma runB_bare:
  "bare_safe w \<Longrightarrow>
   runB out (w @ CHR '' '' # s) =
     map_option (\<lambda>(ws, pre, post). (w # ws, pre, post)) (runB out s)"
  by (cases w) (auto simp: bare_safe_def runW_plain split: option.splits)

lemma runW_quote_safe:
  "quote_safe t \<Longrightarrow>
   runW out True (t @ s) =
     map_option (\<lambda>(x, ws, pre, post). (t @ x, ws, pre, post)) (runW out True s)"
proof (induction t)
  case Nil
  then show ?case by (simp add: case_prod_unfold option.map_ident)
next
  case (Cons c t)
  then show ?case
    by (cases "classify c") (auto split: option.splits)
qed

lemma runW_subst:
  assumes "balanced inner" and "runB out inner = Some (iws, ipre, ipost)"
  shows "runW out True (CHR 0x24 # CHR 0x28 # inner @ CHR 0x29 # s) =
     map_option (\<lambda>(x, ws, pre, post). (out inner @ x, ws, (ipre @ iws # ipost) @ pre, post))
       (runW out True s)"
proof -
  have "classify CHR 0x24 = Expansion"
    by (simp add: classify_def expansion_chars_def)
  with assms show ?thesis
    by (auto simp: close_paren_balanced split: option.splits)
qed

lemma close_backquote_append:
  "CHR 0x60 \<notin> set inner \<Longrightarrow> close_backquote (inner @ CHR 0x60 # s) = Some (inner, s)"
  by (induction inner) auto

lemma runW_backquote:
  assumes "CHR 0x60 \<notin> set inner" and "runB out inner = Some (iws, ipre, ipost)"
  shows "runW out True (CHR 0x60 # inner @ CHR 0x60 # s) =
     map_option (\<lambda>(x, ws, pre, post). (out inner @ x, ws, (ipre @ iws # ipost) @ pre, post))
       (runW out True s)"
proof -
  have "classify CHR 0x60 = Expansion"
    by (simp add: classify_def expansion_chars_def)
  with assms show ?thesis
    by (auto simp: close_backquote_append split: option.splits)
qed

lemma runW_close: "runW out True [dquote] = Some ([], [], [], [])"
  by simp

section \<open>Nested substitutions\<close>

lemma depth_after_nest: "depth_after d (nest n) = Some d"
  by (induction n arbitrary: d) (simp_all add: quoted_def depth_after_append)

lemma balanced_nest: "balanced (nest n)"
  by (simp add: balanced_def depth_after_nest)

lemma runB_nest: "runB out (nest n) = Some (nest_words out n, nest_cmds out n, [])"
proof (induction n)
  case 0
  have "lexB ''id'' = Some ([''id''], [])"
    by (simp add: classify_def expansion_chars_def meta_chars_def)
  then have "runB out ''id'' = Some ([''id''], [], [])"
    by (rule run_lex(1))
  then show ?case
    by (simp only: nest.simps nest_words.simps nest_cmds.simps)
next
  case (Suc n)
  have "runW out True (CHR 0x24 # CHR 0x28 # nest n @ CHR 0x29 # [dquote]) =
      Some (out (nest n), [], nest_cmds out n @ [nest_words out n], [])"
    using runW_subst [OF balanced_nest Suc.IH, of "[dquote]"] by simp
  then have "runB out (quoted (CHR 0x24 # CHR 0x28 # nest n @ [CHR 0x29])) =
      Some ([out (nest n)], nest_cmds out n @ [nest_words out n], [])"
    by (simp add: quoted_def)
  then show ?case
    using runB_bare [of "''echo''" out "quoted (CHR 0x24 # CHR 0x28 # nest n @ [CHR 0x29])"]
    by simp
qed

lemma sh_run_nest: "sh_run out (nest n) = Some (nest_cmds out (Suc n))"
  by (simp add: sh_run_def runB_nest)

lemma length_nest_cmds [simp]: "length (nest_cmds out n) = n"
  by (induction n) simp_all

end
