(* ===== verification/Substitution.thy ===== *)
theory Substitution
  imports Argv Shell_Subst
begin

text \<open>
  The command lines of \<^verbatim>\<open>src/src/index.ts\<close> under the shell with command
  substitution.  On every line that \<open>sh_parse\<close> reads, \<open>sh_run\<close> finds the
  same commands, so what \<open>Argv\<close> shows of the lines stays true.  A title that
  is a substitution \<^verbatim>\<open>$(...)\<close> holds no double quote and stays inside the quotes
  the template writes, and the shell runs what it holds before it runs
  \<^verbatim>\<open>gh\<close>: \<open>sh_run_substituted\<close> gives the commands run for any text that the
  reader reads and whose parentheses match, \<open>sh_run_backquoted\<close> the same for
  a title between backquotes.
\<close>

definition substitution :: "string \<Rightarrow> string" where
  "substitution inner = CHR 0x24 # CHR 0x28 # inner @ [CHR 0x29]"

definition backquoted :: "string \<Rightarrow> string" where
  "backquoted inner = CHR 0x60 # inner @ [CHR 0x60]"

lemma sh_run_gh_line: "shell_safe fmt a \<Longrightarrow> sh_run out (gh_line fmt a) = Some [argv fmt a]"
  by (simp add: sh_run_parse sh_parse_gh_line)

lemma runB_substituted:
  assumes "balanced inner" and "runB out inner = Some (iws, ipre, ipost)"
  shows "runB out (quoted (substitution inner)) = Some ([out inner], ipre @ iws # ipost, [])"
  using runW_subst [OF assms, of "[dquote]"]
  by (simp add: quoted_def substitution_def)

lemma titled_line:
  "gh_line fmt (titled t) =
     ''gh'' @ CHR '' '' # ''pr'' @ CHR '' '' # ''create'' @ CHR '' '' # ''--title'' @ CHR '' '' # quoted t"
  by (simp add: gh_line_def command_titled)

lemma runB_titled:
  "runB out (gh_line fmt (titled t)) =
     map_option (\<lambda>(ws, pre, post). (''gh'' # ''pr'' # ''create'' # ''--title'' # ws, pre, post))
       (runB out (quoted t))"
  by (simp only: titled_line runB_bare bare_safe_words option.map_comp comp_def case_prod_unfold
      prod.sel)

lemma sh_run_substituted:
  assumes "balanced inner" and "sh_run out inner = Some tr"
  shows "sh_run out (gh_line fmt (titled (substitution inner))) =
           Some (tr @ [[''gh'', ''pr'', ''create'', ''--title'', out inner]])"
proof -
  from assms(2) obtain iws ipre ipost
    where inner: "runB out inner = Some (iws, ipre, ipost)" and tr: "tr = ipre @ iws # ipost"
    by (auto simp: sh_run_def)
  from runB_substituted [OF assms(1) inner] tr show ?thesis
    by (simp add: sh_run_def runB_titled)
qed

lemma runB_backquoted:
  assumes "CHR 0x60 \<notin> set inner" and "runB out inner = Some (iws, ipre, ipost)"
  shows "runB out (quoted (backquoted inner)) = Some ([out inner], ipre @ iws # ipost, [])"
  using runW_backquote [OF assms, of "[dquote]"]
  by (simp add: quoted_def backquoted_def)

lemma sh_run_backquoted:
  assumes "CHR 0x60 \<notin> set inner" and "sh_run out inner = Some tr"
  shows "sh_run out (gh_line fmt (titled (backquoted inner))) =
           Some (tr @ [[''gh'', ''pr'', ''create'', ''--title'', out inner]])"
proof -
  from assms(2) obtain iws ipre ipost
    where inner: "runB out inner = Some (iws, ipre, ipost)" and tr: "tr = ipre @ iws # ipost"
    by (auto simp: sh_run_def)
  from runB_backquoted [OF assms(1) inner] tr show ?thesis
    by (simp add: sh_run_def runB_titled)
qed

lemma plain_not_special:
  "classify c = Plain \<Longrightarrow> c \<noteq> CHR 0x28 \<and> c \<noteq> CHR 0x29 \<and> c \<noteq> dquote \<and> c \<noteq> CHR 0x60"
  by (auto simp: classify_def meta_chars_def expansion_chars_def split: if_splits)

lemma render_words_chars:
  "list_all bare_safe cmd \<Longrightarrow>
   list_all (\<lambda>c. classify c = Plain \<or> c = CHR '' '') (render (map Bare cmd))"
  by (induction cmd rule: induct_list012) (auto simp: bare_safe_def list_all_iff)

lemma no_quote_in_substitution:
  assumes "list_all bare_safe cmd"
  shows "dquote \<notin> set (substitution (render (map Bare cmd)))"
  using render_words_chars [OF assms]
  by (auto simp: substitution_def list_all_iff dest: plain_not_special)

lemma no_quote_in_backquoted:
  assumes "list_all bare_safe cmd"
  shows "dquote \<notin> set (backquoted (render (map Bare cmd)))"
    and "CHR 0x60 \<notin> set (render (map Bare cmd))"
  using render_words_chars [OF assms]
  by (auto simp: backquoted_def list_all_iff dest: plain_not_special)

lemma balanced_words:
  assumes "list_all bare_safe cmd"
  shows "balanced (render (map Bare cmd))"
proof -
  have "list_all (\<lambda>c. c \<noteq> CHR 0x28 \<and> c \<noteq> CHR 0x29) (render (map Bare cmd))"
    using render_words_chars [OF assms]
    by (auto simp: list_all_iff dest: plain_not_special)
  then show ?thesis
    by (simp add: balanced_def balanced_plain)
qed

lemma sh_run_words:
  "list_all bare_safe cmd \<Longrightarrow> sh_run out (render (map Bare cmd)) = Some [cmd]"
  by (simp add: sh_run_parse sh_parse_render)

end
