(* ===== verification/Argv_Read.thy ===== *)
theory Argv_Read
  imports Argv
begin

text \<open>
  Reading an argument vector back.  The specification proposes to pass the
  arguments to the client as a vector, without a shell; \<open>read_argv\<close> is the
  reader that shows what such a vector determines: it takes the words
  \<^verbatim>\<open>gh pr <verb>\<close>, then the flags in the order the templates of
  \<^verbatim>\<open>src/src/index.ts\<close> append them, each with the one word that follows it.
  \<open>canonical\<close> forgets what the templates forget (an optional text that is
  empty, a limit that is zero or \<^verbatim>\<open>NaN\<close>, a draft flag that is false), and
  \<open>readable\<close> holds when every number is printed digit by digit.  The lemmas
  show that \<open>read_argv\<close> inverts \<open>argv\<close> up to \<open>canonical\<close> and that \<open>argv\<close>
  prints what \<open>read_argv\<close> has read, so that the vector determines the
  arguments; that the shell reads the line of the arguments as their vector
  exactly when they are \<open>shell_safe\<close>; and, in the last section, that the
  command line does not determine the arguments.
\<close>

section \<open>What a command line can tell apart\<close>

definition nonempty :: "string option \<Rightarrow> string option" where
  "nonempty v = (if v = Some [] then None else v)"

definition truthy_limit :: "jsnum option \<Rightarrow> jsnum option" where
  "truthy_limit v = (case v of None \<Rightarrow> None | Some x \<Rightarrow> if truthy (JNum x) then Some x else None)"

fun canonical :: "validated_args \<Rightarrow> validated_args" where
  "canonical (CreateArgs a) =
     CreateArgs \<lparr>cr_title = cr_title a, cr_body = nonempty (cr_body a),
       cr_base = nonempty (cr_base a), cr_head = nonempty (cr_head a),
       cr_draft = (if cr_draft a = Some True then Some True else None)\<rparr>"
| "canonical (ListArgs a) =
     ListArgs \<lparr>ls_state = ls_state a, ls_base = nonempty (ls_base a),
       ls_limit = truthy_limit (ls_limit a)\<rparr>"
| "canonical (ViewArgs a) = ViewArgs a"
| "canonical (CommentArgs a) = CommentArgs a"

text \<open>
  The numbers of \<open>readable\<close> arguments are printed without the number
  formatting of the runtime: a pull-request number up to \<open>2 ^ 53\<close>, a limit
  that is an integer of that magnitude, infinite, or dropped.
\<close>

definition readable_limit :: "jsnum option \<Rightarrow> bool" where
  "readable_limit v = (case v of Some (Fin q) \<Rightarrow> safe_integer q | _ \<Rightarrow> True)"

fun readable :: "validated_args \<Rightarrow> bool" where
  "readable (CreateArgs a) = True"
| "readable (ListArgs a) = readable_limit (ls_limit a)"
| "readable (ViewArgs a) = (vw_number a \<le> 2 ^ 53)"
| "readable (CommentArgs a) = (cm_number a \<le> 2 ^ 53)"

section \<open>The reader\<close>

text \<open>
  A number is read by reading its digits and printing the result: the reader
  accepts a word exactly when it is the notation of the number read.
\<close>

definition read_nat :: "string \<Rightarrow> nat option" where
  "read_nat s = (if decimal (parse_decimal s) = s then Some (parse_decimal s) else None)"

text \<open>A pull-request number, printed digit by digit up to \<open>2 ^ 53\<close>.\<close>

definition read_number :: "string \<Rightarrow> nat option" where
  "read_number s = (case read_nat s of None \<Rightarrow> None | Some n \<Rightarrow> if n \<le> 2 ^ 53 then Some n else None)"

definition read_int :: "string \<Rightarrow> int option" where
  "read_int s =
     (if s \<noteq> [] \<and> hd s = CHR ''-''
      then (case read_nat (tl s) of None \<Rightarrow> None | Some n \<Rightarrow> if n = 0 then None else Some (- int n))
      else map_option int (read_nat s))"

definition read_limit :: "string \<Rightarrow> jsnum option" where
  "read_limit s =
     (if s = ''Infinity'' then Some PosInf
      else if s = ''-Infinity'' then Some NegInf
      else (case read_int s of None \<Rightarrow> None
            | Some i \<Rightarrow> if i = 0 \<or> 2 ^ 53 < \<bar>i\<bar> then None else Some (Fin (of_int i))))"

definition read_state :: "string \<Rightarrow> pr_state option" where
  "read_state s = map_of (map (\<lambda>st. (state_name st, st)) [Open, Closed, Merged, All]) s"

text \<open>
  \<open>take_flag name ws\<close> takes \<^verbatim>\<open>--name\<close> and the word after it from the front of
  \<open>ws\<close>, when they are there and the word is not empty.
\<close>

fun take_flag :: "string \<Rightarrow> string list \<Rightarrow> string option \<times> string list" where
  "take_flag name (f # v # ws) =
     (if f = ''--'' @ name \<and> v \<noteq> [] then (Some v, ws) else (None, f # v # ws))"
| "take_flag name ws = (None, ws)"

text \<open>An optional word is read when it is there.\<close>

fun read_opt :: "('a \<Rightarrow> 'b option) \<Rightarrow> 'a option \<Rightarrow> 'b option option" where
  "read_opt f None = Some None"
| "read_opt f (Some x) = map_option Some (f x)"

definition read_create :: "string list \<Rightarrow> CreatePrArgs option" where
  "read_create ws =
     (case ws of
        f # title # ws1 \<Rightarrow>
          (let (body, ws2) = take_flag ''body'' ws1;
               (base, ws3) = take_flag ''base'' ws2;
               (head, ws4) = take_flag ''head'' ws3
           in if f = ''--title'' \<and> (ws4 = [] \<or> ws4 = [''--draft''])
              then Some \<lparr>cr_title = title, cr_body = body, cr_base = base, cr_head = head,
                     cr_draft = (if ws4 = [] then None else Some True)\<rparr>
              else None)
      | _ \<Rightarrow> None)"

definition read_list :: "string list \<Rightarrow> ListPrArgs option" where
  "read_list ws =
     (let (state, ws1) = take_flag ''state'' ws;
          (base, ws2) = take_flag ''base'' ws1;
          (limit, ws3) = take_flag ''limit'' ws2
      in case (read_opt read_state state, read_opt read_limit limit) of
           (Some st, Some l) \<Rightarrow>
             if ws3 = [] then Some \<lparr>ls_state = st, ls_base = base, ls_limit = l\<rparr> else None
         | _ \<Rightarrow> None)"

definition read_view :: "string list \<Rightarrow> ViewPrArgs option" where
  "read_view ws =
     (case ws of [number] \<Rightarrow> map_option (\<lambda>n. \<lparr>vw_number = n\<rparr>) (read_number number) | _ \<Rightarrow> None)"

definition read_comment :: "string list \<Rightarrow> CommentPrArgs option" where
  "read_comment ws =
     (case ws of
        [number, f, body] \<Rightarrow>
          (if f = ''--body''
           then map_option (\<lambda>n. \<lparr>cm_number = n, cm_body = body\<rparr>) (read_number number)
           else None)
      | _ \<Rightarrow> None)"

definition read_argv :: "string list \<Rightarrow> validated_args option" where
  "read_argv ws =
     (case ws of
        g # p # verb # rest \<Rightarrow>
          (if g = ''gh'' \<and> p = ''pr'' then
             (if verb = ''create'' then map_option CreateArgs (read_create rest)
              else if verb = ''list'' then map_option ListArgs (read_list rest)
              else if verb = ''view'' then map_option ViewArgs (read_view rest)
              else if verb = ''comment'' then map_option CommentArgs (read_comment rest)
              else None)
           else None)
      | _ \<Rightarrow> None)"

lemmas reader_defs = read_create_def read_list_def read_view_def read_comment_def

section \<open>Words of the flags\<close>

definition flag_words :: "string \<Rightarrow> string option \<Rightarrow> string list" where
  "flag_words name v = (case nonempty v of None \<Rightarrow> [] | Some s \<Rightarrow> [''--'' @ name, s])"

lemma nonempty_simps [simp]:
  "nonempty None = None"
  "nonempty (Some []) = None"
  "s \<noteq> [] \<Longrightarrow> nonempty (Some s) = Some s"
  "nonempty (nonempty v) = nonempty v"
  "nonempty v \<noteq> Some []"
  by (simp_all add: nonempty_def)

lemma nonempty_state [simp]: "nonempty (map_option state_name v) = map_option state_name v"
  by (cases v) simp_all

lemma flag_words_nonempty [simp]: "flag_words name (nonempty v) = flag_words name v"
  by (simp add: flag_words_def)

lemma flag_tokens_words [simp]:
  "map token_text (flag_tokens name v) = flag_words name v"
  "map token_text (bare_flag_tokens name v) = flag_words name v"
  by (simp_all add: flag_tokens_def bare_flag_tokens_def flag_words_def nonempty_def
      split: option.splits)

text \<open>
  A flag is taken from the front of its own words, and nothing is taken from
  words that begin otherwise.
\<close>

lemma take_flag_other: "\<not> prefix [''--'' @ name] ws \<Longrightarrow> take_flag name ws = (None, ws)"
  by (cases "(name, ws)" rule: take_flag.cases) simp_all

lemma take_flag_words:
  "\<not> prefix [''--'' @ name] ws \<Longrightarrow> take_flag name (flag_words name v @ ws) = (nonempty v, ws)"
  by (cases "nonempty v") (auto simp: flag_words_def take_flag_other nonempty_def split: if_splits)

lemma prefix_flag_words:
  "prefix [f] (flag_words other v @ ws) \<longleftrightarrow>
     (if nonempty v = None then prefix [f] ws else f = ''--'' @ other)"
  by (cases "nonempty v") (simp_all add: flag_words_def)

section \<open>Numbers are read back\<close>

lemma read_nat_decimal [simp]: "read_nat (decimal n) = Some n"
  by (simp add: read_nat_def)

lemma read_nat_Some: "read_nat s = Some n \<longleftrightarrow> s = decimal n"
  by (auto simp: read_nat_def)

lemma read_number_decimal [simp]: "n \<le> 2 ^ 53 \<Longrightarrow> read_number (decimal n) = Some n"
  by (simp add: read_number_def)

lemma read_number_Some: "read_number s = Some n \<longleftrightarrow> s = decimal n \<and> n \<le> 2 ^ 53"
  by (auto simp: read_number_def read_nat_Some split: option.splits)

lemma minus_not_digit [simp]: "\<not> is_digit CHR ''-''"
  by (simp add: is_digit_def)

lemma hd_decimal_not_minus [simp]: "hd (decimal n) \<noteq> CHR ''-''"
  using decimal_digits [of "hd (decimal n)" n] by (auto simp: hd_in_set)

lemma read_int_decimal [simp]: "read_int (decimal_int i) = Some i"
  by (simp add: read_int_def decimal_int_def)

lemma read_int_Some: "read_int s = Some i \<longleftrightarrow> s = decimal_int i"
proof
  assume "read_int s = Some i"
  then show "s = decimal_int i"
    by (cases s)
       (auto simp: read_int_def decimal_int_def read_nat_Some split: if_splits option.splits)
qed simp

lemma decimal_int_nonempty [simp]: "decimal_int i \<noteq> []"
  by (simp add: decimal_int_def)

lemma decimal_not_word:
  "c \<in> set s \<Longrightarrow> \<not> is_digit c \<Longrightarrow> decimal n \<noteq> s"
  using decimal_digits by blast

lemma decimal_not_infinite [simp]: "decimal n \<noteq> ''Infinity''" "decimal n \<noteq> ''-Infinity''"
  using decimal_not_word [of "CHR ''I''" "''Infinity''" n]
    decimal_not_word [of "CHR ''I''" "''-Infinity''" n]
  by (simp_all add: is_digit_def)

lemma decimal_int_not_infinite [simp]:
  "decimal_int i \<noteq> ''Infinity''" "decimal_int i \<noteq> ''-Infinity''"
  by (simp_all add: decimal_int_def)

lemma safe_integer_floor:
  assumes "safe_integer q"
  shows "of_int \<lfloor>q\<rfloor> = q" and "\<bar>\<lfloor>q\<rfloor>\<bar> \<le> 2 ^ 53" and "\<lfloor>q\<rfloor> = 0 \<longleftrightarrow> q = 0"
proof -
  from assms obtain i where q: "q = of_int i" and "\<bar>of_int i :: rat\<bar> \<le> 2 ^ 53"
    by (auto simp: safe_integer_def elim: integralE)
  then have "(of_int \<bar>i\<bar> :: rat) \<le> of_int (2 ^ 53)"
    by simp
  then have "\<bar>i\<bar> \<le> 2 ^ 53"
    by (simp only: of_int_le_iff)
  with q show "of_int \<lfloor>q\<rfloor> = q" and "\<bar>\<lfloor>q\<rfloor>\<bar> \<le> 2 ^ 53" and "\<lfloor>q\<rfloor> = 0 \<longleftrightarrow> q = 0"
    by simp_all
qed

lemma read_limit_printed:
  assumes "truthy (JNum x)" and "readable_limit (Some x)"
  shows "read_limit (num_to_string fmt x) = Some x"
proof (cases x)
  case (Fin q)
  with assms have "safe_integer q" and "q \<noteq> 0"
    by (simp_all add: readable_limit_def)
  with Fin show ?thesis
    using safe_integer_floor [of q] by (simp add: read_limit_def)
qed (use assms in \<open>simp_all add: read_limit_def\<close>)

lemma num_to_string_nonempty:
  "readable_limit (Some x) \<Longrightarrow> num_to_string fmt x \<noteq> []"
  by (cases x) (simp_all add: readable_limit_def)

lemma read_state_name [simp]: "read_state (state_name st) = Some st"
  by (cases st) (simp_all add: read_state_def)

lemma read_state_Some: "read_state s = Some st \<longleftrightarrow> s = state_name st"
  by (cases st) (auto simp: read_state_def split: if_splits)

section \<open>The vector is read back\<close>

definition limit_words :: "numfmt \<Rightarrow> jsnum option \<Rightarrow> string list" where
  "limit_words fmt v =
     (case truthy_limit v of None \<Rightarrow> [] | Some x \<Rightarrow> [''--limit'', num_to_string fmt x])"

lemma limit_tokens_words [simp]: "map token_text (limit_tokens fmt v) = limit_words fmt v"
  by (simp add: limit_tokens_def limit_words_def truthy_limit_def split: option.splits)

lemma truthy_limit_simps [simp]:
  "truthy_limit None = None"
  "truthy_limit (Some x) = (if truthy (JNum x) then Some x else None)"
  "truthy_limit (truthy_limit v) = truthy_limit v"
  by (simp_all add: truthy_limit_def split: option.splits)

lemma limit_words_truthy [simp]: "limit_words fmt (truthy_limit v) = limit_words fmt v"
  by (simp add: limit_words_def)

lemma read_limit_words:
  assumes "readable_limit v"
  shows "take_flag ''limit'' (limit_words fmt v) = (map_option (num_to_string fmt) (truthy_limit v), [])"
    and "read_opt read_limit (map_option (num_to_string fmt) (truthy_limit v)) = Some (truthy_limit v)"
  using assms
  by (cases v; simp add: limit_words_def num_to_string_nonempty read_limit_printed)+

lemma prefix_limit_words [simp]:
  "f \<noteq> ''--limit'' \<Longrightarrow> \<not> prefix [f] (limit_words fmt v)"
  by (auto simp: limit_words_def split: option.splits)

lemma read_create_argv:
  "read_create (map token_text (drop 2 (tokens_of fmt (CreateArgs a)))) =
     Some \<lparr>cr_title = cr_title a, cr_body = nonempty (cr_body a),
       cr_base = nonempty (cr_base a), cr_head = nonempty (cr_head a),
       cr_draft = (if cr_draft a = Some True then Some True else None)\<rparr>"
  by (simp add: read_create_def take_flag_words prefix_flag_words)

lemma read_list_argv:
  assumes "readable_limit (ls_limit a)"
  shows "read_list (map token_text (drop 2 (tokens_of fmt (ListArgs a)))) =
     Some \<lparr>ls_state = ls_state a, ls_base = nonempty (ls_base a),
       ls_limit = truthy_limit (ls_limit a)\<rparr>"
proof -
  have "read_opt read_state (map_option state_name (ls_state a)) = Some (ls_state a)"
    by (cases "ls_state a") simp_all
  with assms show ?thesis
    using take_flag_words [of "''state''" "flag_words ''base'' (ls_base a) @ limit_words fmt (ls_limit a)"
        "map_option state_name (ls_state a)"]
      take_flag_words [of "''base''" "limit_words fmt (ls_limit a)" "ls_base a"]
    by (simp add: read_list_def prefix_flag_words read_limit_words)
qed

lemma read_argv_argv:
  assumes "readable a"
  shows "read_argv (argv fmt a) = Some (canonical a)"
proof (cases a)
  case (CreateArgs c)
  with read_create_argv [of fmt c] show ?thesis
    by (simp add: read_argv_def argv_def)
next
  case (ListArgs l)
  with assms read_list_argv [of l fmt] show ?thesis
    by (simp add: read_argv_def argv_def)
next
  case (ViewArgs v)
  with assms show ?thesis
    by (simp add: read_argv_def argv_def read_view_def)
next
  case (CommentArgs c)
  with assms show ?thesis
    by (simp add: read_argv_def argv_def read_comment_def)
qed

lemma argv_canonical [simp]: "argv fmt (canonical a) = argv fmt a"
  by (cases a) (simp_all add: argv_def)

lemma readable_canonical [simp]: "readable (canonical a) = readable a"
  by (cases a) (auto simp: readable_limit_def split: option.splits jsnum.splits)

lemma canonical_idem [simp]: "canonical (canonical a) = canonical a"
  by (cases a) simp_all

section \<open>What is read is what is printed\<close>

fun_cases take_flag_SomeE: "take_flag name ws = (Some v, rest)"
fun_cases take_flag_NoneE: "take_flag name ws = (None, rest)"

lemma take_flag_cases:
  assumes "take_flag name ws = (v, rest)"
  shows "ws = flag_words name v @ rest \<and> nonempty v = v"
proof (cases v)
  case None
  with assms show ?thesis
    by (auto elim: take_flag_NoneE simp: flag_words_def split: if_splits)
next
  case (Some s)
  with assms show ?thesis
    by (auto elim!: take_flag_SomeE simp: flag_words_def split: if_splits)
qed

lemma safe_integer_of_int: "safe_integer (of_int i) \<longleftrightarrow> \<bar>i\<bar> \<le> 2 ^ 53"
proof -
  have "\<bar>of_int i :: rat\<bar> \<le> 2 ^ 53 \<longleftrightarrow> (of_int \<bar>i\<bar> :: rat) \<le> of_int (2 ^ 53)"
    by simp
  also have "\<dots> \<longleftrightarrow> \<bar>i\<bar> \<le> 2 ^ 53"
    by (simp only: of_int_le_iff)
  finally show ?thesis
    by (simp add: safe_integer_def)
qed

lemma read_limit_cases:
  assumes "read_limit s = Some x"
  shows "truthy (JNum x) \<and> readable_limit (Some x) \<and> num_to_string fmt x = s"
proof (cases "s = ''Infinity'' \<or> s = ''-Infinity''")
  case True
  with assms show ?thesis
    by (auto simp: read_limit_def readable_limit_def)
next
  case False
  with assms obtain i where "read_int s = Some i" and "i \<noteq> 0" and "\<bar>i\<bar> \<le> 2 ^ 53"
    and "x = Fin (of_int i)"
    by (auto simp: read_limit_def split: option.splits if_splits)
  then show ?thesis
    by (simp add: readable_limit_def safe_integer_of_int read_int_Some)
qed

lemma read_opt_limit_cases:
  assumes "read_opt read_limit v = Some l"
  shows "limit_words fmt l = flag_words ''limit'' v \<and> truthy_limit l = l \<and> readable_limit l"
proof (cases v)
  case None
  with assms show ?thesis
    by (auto simp: limit_words_def flag_words_def readable_limit_def)
next
  case (Some s)
  with assms obtain x where "l = Some x" and "read_limit s = Some x"
    by auto
  with Some read_limit_cases [of s x fmt] show ?thesis
    by (auto simp: limit_words_def flag_words_def nonempty_def dest: num_to_string_nonempty)
qed

lemma read_opt_state_cases:
  assumes "read_opt read_state v = Some st"
  shows "v = map_option state_name st"
  using assms by (cases v) (auto simp: read_state_Some)

lemma read_create_cases:
  assumes "read_create ws = Some a"
  shows "map token_text (drop 2 (tokens_of fmt (CreateArgs a))) = ws \<and>
         canonical (CreateArgs a) = CreateArgs a"
proof -
  from assms obtain title ws1 where ws: "ws = ''--title'' # title # ws1"
    by (cases "([] :: string, ws)" rule: take_flag.cases)
       (auto simp: read_create_def split: prod.splits if_splits)
  obtain body ws2 where body: "take_flag ''body'' ws1 = (body, ws2)"
    by (cases "take_flag ''body'' ws1")
  obtain base ws3 where base: "take_flag ''base'' ws2 = (base, ws3)"
    by (cases "take_flag ''base'' ws2")
  obtain head ws4 where head: "take_flag ''head'' ws3 = (head, ws4)"
    by (cases "take_flag ''head'' ws3")
  from assms ws body base head have "ws4 = [] \<or> ws4 = [''--draft'']"
    and a: "a = \<lparr>cr_title = title, cr_body = body, cr_base = base, cr_head = head,
              cr_draft = (if ws4 = [] then None else Some True)\<rparr>"
    by (auto simp: read_create_def split: if_splits)
  with ws take_flag_cases [OF body] take_flag_cases [OF base] take_flag_cases [OF head]
  show ?thesis
    by auto
qed

lemma read_list_cases:
  assumes "read_list ws = Some a"
  shows "map token_text (drop 2 (tokens_of fmt (ListArgs a))) = ws \<and>
         canonical (ListArgs a) = ListArgs a \<and> readable_limit (ls_limit a)"
proof -
  obtain state ws1 where state: "take_flag ''state'' ws = (state, ws1)"
    by (cases "take_flag ''state'' ws")
  obtain base ws2 where base: "take_flag ''base'' ws1 = (base, ws2)"
    by (cases "take_flag ''base'' ws1")
  obtain limit ws3 where limit: "take_flag ''limit'' ws2 = (limit, ws3)"
    by (cases "take_flag ''limit'' ws2")
  from assms state base limit obtain st l where "read_opt read_state state = Some st"
    and "read_opt read_limit limit = Some l" and "ws3 = []"
    and "a = \<lparr>ls_state = st, ls_base = base, ls_limit = l\<rparr>"
    by (auto simp: read_list_def split: option.splits if_splits)
  with take_flag_cases [OF state] take_flag_cases [OF base] take_flag_cases [OF limit]
    read_opt_state_cases [of state st] read_opt_limit_cases [of limit l fmt]
  show ?thesis
    by simp
qed

lemma read_view_cases:
  assumes "read_view ws = Some a"
  shows "ws = [decimal (vw_number a)] \<and> vw_number a \<le> 2 ^ 53"
  using assms
  by (cases "([] :: string, ws)" rule: take_flag.cases)
     (auto simp: read_view_def read_number_Some split: list.splits)

lemma read_comment_cases:
  assumes "read_comment ws = Some a"
  shows "ws = [decimal (cm_number a), ''--body'', cm_body a] \<and> cm_number a \<le> 2 ^ 53"
  using assms
  by (auto simp: read_comment_def read_number_Some split: list.splits if_splits)

lemma read_argv_prints:
  assumes "read_argv ws = Some a"
  shows "argv fmt a = ws \<and> canonical a = a \<and> readable a"
proof -
  from assms obtain verb rest where ws: "ws = ''gh'' # ''pr'' # verb # rest"
    by (cases "([] :: string, ws)" rule: take_flag.cases)
       (auto simp: read_argv_def split: list.splits if_splits)
  consider (create) c where "verb = ''create''" "read_create rest = Some c" "a = CreateArgs c"
    | (list) l where "verb = ''list''" "read_list rest = Some l" "a = ListArgs l"
    | (view) v where "verb = ''view''" "read_view rest = Some v" "a = ViewArgs v"
    | (comment) c where "verb = ''comment''" "read_comment rest = Some c" "a = CommentArgs c"
    using assms by (auto simp: ws read_argv_def split: if_splits)
  then show ?thesis
  proof cases
    case create
    with ws read_create_cases [of rest c fmt] show ?thesis
      by (simp add: argv_def)
  next
    case list
    with ws read_list_cases [of rest l fmt] show ?thesis
      by (simp add: argv_def)
  next
    case view
    with ws read_view_cases [of rest v] show ?thesis
      by (simp add: argv_def)
  next
    case comment
    with ws read_comment_cases [of rest c] show ?thesis
      by (simp add: argv_def)
  qed
qed

lemma read_argv_iff:
  "read_argv ws = Some a \<longleftrightarrow> ws = argv fmt a \<and> canonical a = a \<and> readable a"
  using read_argv_prints [of ws a fmt] read_argv_argv [of a fmt] by auto

lemma argv_inject:
  assumes "readable a" and "readable b"
  shows "argv fmt a = argv fmt b \<longleftrightarrow> canonical a = canonical b"
proof
  assume "argv fmt a = argv fmt b"
  with assms read_argv_argv [of a fmt] read_argv_argv [of b fmt]
  show "canonical a = canonical b"
    by simp
next
  assume "canonical a = canonical b"
  then have "argv fmt (canonical a) = argv fmt (canonical b)"
    by simp
  then show "argv fmt a = argv fmt b"
    by simp
qed

section \<open>Exactly the safe arguments are read as the vector\<close>

text \<open>
  The converse of \<open>sh_parse_gh_line\<close>: when the shell of \<open>Shell_Words\<close> reads
  the line of validated arguments as their vector, every text is safe where
  the template writes it.  (A text with \<^verbatim>\<open>$\<close>, a backquote or a backslash has
  no reading in that model; a text with a double quote, or a bare text with a
  blank or a separator, is read as other words.)
\<close>

lemma bare_flag_tokens_Bare: "bare_flag_tokens name v = map Bare (flag_words name v)"
  by (simp add: bare_flag_tokens_def flag_words_def nonempty_def split: option.splits)

lemma limit_tokens_Bare: "limit_tokens fmt v = map Bare (limit_words fmt v)"
  by (simp add: limit_tokens_def limit_words_def split: option.splits)

lemma list_tokens_Bare:
  "Bare ''gh'' # tokens_of fmt (ListArgs l) = map Bare (argv fmt (ListArgs l))"
  by (simp add: argv_def bare_flag_tokens_Bare limit_tokens_Bare)

lemma quote_safe_flag_words:
  "list_all quote_safe (flag_words name v) \<Longrightarrow> opt_all quote_safe v"
  by (cases v) (auto simp: flag_words_def nonempty_def quote_safe_def split: if_splits)

lemma sh_parse_gh_line_iff:
  assumes "readable a"
  shows "sh_parse (gh_line fmt a) = Some [argv fmt a] \<longleftrightarrow> shell_safe fmt a"
proof
  assume "shell_safe fmt a"
  then show "sh_parse (gh_line fmt a) = Some [argv fmt a]"
    by (rule sh_parse_gh_line)
next
  assume parse: "sh_parse (gh_line fmt a) = Some [argv fmt a]"
  then have safe: "list_all quote_safe (argv fmt a)"
    using sh_parse_quote_safe by fastforce
  show "shell_safe fmt a"
  proof (cases a)
    case (CreateArgs c)
    with safe have "quote_safe (cr_title c)"
      and "list_all quote_safe (flag_words ''body'' (cr_body c))"
      and "list_all quote_safe (flag_words ''base'' (cr_base c))"
      and "list_all quote_safe (flag_words ''head'' (cr_head c))"
      by (simp_all add: argv_def)
    with CreateArgs show ?thesis
      by (simp only: shell_safe_create quote_safe_flag_words simp_thms)
  next
    case (ListArgs l)
    with parse have "sh_parse (render (map Bare (argv fmt (ListArgs l)))) = Some [argv fmt (ListArgs l)]"
      by (simp only: gh_line_render list_tokens_Bare)
    then have "list_all bare_safe (argv fmt (ListArgs l))"
      by (rule sh_parse_bare_words)
    then have "list_all token_safe (Bare ''gh'' # tokens_of fmt (ListArgs l))"
      by (simp only: list_tokens_Bare token_safe_Bare)
    with ListArgs show ?thesis
      by (simp add: shell_safe_def)
  next
    case (ViewArgs v)
    with assms show ?thesis
      by (simp add: shell_safe_view)
  next
    case (CommentArgs c)
    with assms safe show ?thesis
      by (simp add: shell_safe_comment argv_def)
  qed
qed

section \<open>The command line does not determine the arguments\<close>

text \<open>
  A title that closes its quote, names the body flag and opens a quote for the
  template to close: the command line of the request with that title and no
  body is the command line of the request with the title \<open>t\<close> and the body
  \<open>b\<close>.
\<close>

definition with_body :: "string \<Rightarrow> string \<Rightarrow> validated_args" where
  "with_body t b =
     CreateArgs \<lparr>cr_title = t, cr_body = Some b, cr_base = None, cr_head = None, cr_draft = None\<rparr>"

definition body_in_title :: "string \<Rightarrow> string \<Rightarrow> string" where
  "body_in_title t b = t @ [dquote] @ '' --body '' @ [dquote] @ b"

lemma command_collision:
  "b \<noteq> [] \<Longrightarrow> command_of fmt (titled (body_in_title t b)) = command_of fmt (with_body t b)"
  by (simp add: titled_def with_body_def body_in_title_def create_command_def flag_def quoted_def)

lemma argv_no_collision: "b \<noteq> [] \<Longrightarrow> argv fmt (titled s) \<noteq> argv fmt (with_body t b)"
  by (simp add: argv_def titled_def with_body_def flag_words_def)

lemma canonical_no_collision:
  "canonical (titled (body_in_title t b)) \<noteq> canonical (with_body t b)"
  by (simp add: titled_def with_body_def body_in_title_def)

section \<open>The vector determines the arguments\<close>



end
