(* ===== verification/Node_Runtime.thy ===== *)
theory Node_Runtime
  imports Dispatcher
begin

text \<open>
  A runtime in terms of the process that is started: how the command ended
  (exit status, standard output, standard error, or no process at all), the
  \<^verbatim>\<open>execSync\<close> of Node.js on top of it, and the message the SDK gives an
  \<^verbatim>\<open>McpError\<close>.  \<^verbatim>\<open>src/src/index.ts\<close> calls these and does not define them;
  they are modelled from the contract of the executor in the specification
  (exit status zero returns the output, anything else fails with the error
  text) and instantiate the \<open>runtime\<close> that the handler takes.  The lemmas
  give the reply of a tool call from the exit status of \<^verbatim>\<open>gh\<close>.
\<close>

section \<open>How a command ends\<close>

datatype proc_end = Exited nat string string | NotStarted string

text \<open>
  The message of the \<^verbatim>\<open>Error\<close> that \<^verbatim>\<open>execSync\<close> throws for a command that
  exits with a status other than zero: the command line, then the standard
  error output on a line of its own when there is any.
\<close>

definition failure_text :: "string \<Rightarrow> string \<Rightarrow> string" where
  "failure_text line err =
     ''Command failed: '' @ line @ (if err = [] then [] else CHR 0x0A # err)"

definition node_execSync :: "(string \<Rightarrow> 'w \<Rightarrow> proc_end \<times> 'w) \<Rightarrow> string \<Rightarrow> 'w \<Rightarrow> exec_result \<times> 'w" where
  "node_execSync sh line w =
     (case sh line w of
        (Exited status out err, w') \<Rightarrow>
          if status = 0 then (Stdout out, w') else (ThrowsError (failure_text line err), w')
      | (NotStarted msg, w') \<Rightarrow> (ThrowsError msg, w'))"

section \<open>The message of an McpError\<close>

fun code_number :: "ErrorCode \<Rightarrow> int" where
  "code_number InvalidParams = - 32602"
| "code_number MethodNotFound = - 32601"
| "code_number InternalError = - 32603"

definition mcp_message :: "ErrorCode \<Rightarrow> string \<Rightarrow> string" where
  "mcp_message c msg = ''MCP error '' @ decimal_int (code_number c) @ '': '' @ msg"

definition node_runtime :: "(string \<Rightarrow> 'w \<Rightarrow> proc_end \<times> 'w) \<Rightarrow> numfmt \<Rightarrow> 'w runtime" where
  "node_runtime sh fmt =
     \<lparr>execSync = node_execSync sh, numberToString = fmt, errorMessage = mcp_message\<rparr>"

section \<open>Facts\<close>

lemma node_runtime_fields [simp]:
  "execSync (node_runtime sh fmt) = node_execSync sh"
  "numberToString (node_runtime sh fmt) = fmt"
  "errorMessage (node_runtime sh fmt) = mcp_message"
  by (simp_all add: node_runtime_def)

lemma node_execSync_simps:
  "sh line w = (Exited 0 out err, w') \<Longrightarrow> node_execSync sh line w = (Stdout out, w')"
  "sh line w = (Exited status out err, w') \<Longrightarrow> status \<noteq> 0 \<Longrightarrow>
     node_execSync sh line w = (ThrowsError (failure_text line err), w')"
  "sh line w = (NotStarted msg, w') \<Longrightarrow> node_execSync sh line w = (ThrowsError msg, w')"
  by (simp_all add: node_execSync_def)

lemma node_execSync_world: "snd (node_execSync sh line w) = snd (sh line w)"
  by (simp add: node_execSync_def split: prod.splits proc_end.splits)

lemma node_execSync_no_value: "fst (node_execSync sh line w) \<noteq> ThrowsValue v"
  by (simp add: node_execSync_def split: prod.splits proc_end.splits)

lemma mcp_message_simps:
  "mcp_message InvalidParams msg = ''MCP error -32602: '' @ msg"
  "mcp_message MethodNotFound msg = ''MCP error -32601: '' @ msg"
  "mcp_message InternalError msg = ''MCP error -32603: '' @ msg"
  by (simp_all add: mcp_message_def decimal_int_def)

lemma sublist_failure_text [simp]:
  "sublist err (failure_text line err)" "sublist line (failure_text line err)"
proof -
  have "sublist err ((''Command failed: '' @ line @ [CHR 0x0A]) @ err)"
    by (rule sublist_append_leftI)
  then show "sublist err (failure_text line err)"
    by (cases "err = []") (simp_all add: failure_text_def)
  show "sublist line (failure_text line err)"
    unfolding failure_text_def by (rule sublist_appendI)
qed

lemma sublist_mcp_message [simp]: "sublist msg (mcp_message c msg)"
proof -
  have "sublist msg ((''MCP error '' @ decimal_int (code_number c) @ '': '') @ msg)"
    by (rule sublist_append_leftI)
  then show ?thesis
    by (simp add: mcp_message_def)
qed

lemma node_run_command:
  assumes "sh (''gh '' @ command) w = (e, w')"
  shows "run_command (node_runtime sh fmt) command w =
           (Inr (case e of
                   Exited status out err \<Rightarrow>
                     if status = 0 then text_reply out
                     else error_reply (mcp_message InternalError
                            (''GitHub CLI error: '' @ failure_text (''gh '' @ command) err))
                 | NotStarted msg \<Rightarrow>
                     error_reply (mcp_message InternalError (''GitHub CLI error: '' @ msg))), w')"
  using assms by (cases e) (simp_all add: run_command_def node_execSync_def)

lemma node_call_tool:
  assumes "tool_valid t args" and "sh (''gh '' @ tool_command t fmt args) w = (e, w')"
  shows "call_tool (node_runtime sh fmt) \<lparr>name = tool_name t, arguments = args\<rparr> w =
           (Inr (case e of
                   Exited status out err \<Rightarrow>
                     if status = 0 then text_reply out
                     else error_reply (mcp_message InternalError
                            (''GitHub CLI error: '' @
                             failure_text (''gh '' @ tool_command t fmt args) err))
                 | NotStarted msg \<Rightarrow>
                     error_reply (mcp_message InternalError (''GitHub CLI error: '' @ msg))), w')"
  using assms by (simp add: call_tool_tool node_run_command del: tool_command.simps)

lemma node_call_tool_replies:
  assumes "tool_valid t args"
  shows "\<exists>reply. fst (call_tool (node_runtime sh fmt) \<lparr>name = tool_name t, arguments = args\<rparr> w) =
           Inr reply"
proof (cases "sh (''gh '' @ tool_command t fmt args) w")
  case (Pair e w')
  from node_call_tool [of t args sh fmt w e w'] assms Pair show ?thesis
    by (simp del: tool_command.simps)
qed

section \<open>The reply follows the exit status\<close>

text \<open>
  Claim C17 (error).  On the runtime of Node.js and the SDK, the reply to a
  valid tool call follows the exit status of \<^verbatim>\<open>gh\<close>: with status zero it is the
  standard output, unchanged and without \<^verbatim>\<open>isError\<close>; with any other status it
  is flagged \<^verbatim>\<open>isError\<close> and its text is \<^verbatim>\<open>MCP error -32603: GitHub CLI error:
  Command failed: \<close> followed by the command line and the standard error output,
  so that the caller reads what the client wrote.  In neither case does the
  handler throw.
\<close>

theorem exit_status_decides_reply:
  assumes "tool_valid t args"
    and "sh (''gh '' @ tool_command t fmt args) w = (Exited status out err, w')"
  shows "call_tool (node_runtime sh fmt) \<lparr>name = tool_name t, arguments = args\<rparr> w =
           (Inr (if status = 0 then text_reply out
                 else error_reply (''MCP error -32603: GitHub CLI error: '' @
                        failure_text (''gh '' @ tool_command t fmt args) err)), w') \<and>
         sublist err (''MCP error -32603: GitHub CLI error: '' @
                        failure_text (''gh '' @ tool_command t fmt args) err)"
proof -
  have "sublist err (''MCP error -32603: GitHub CLI error: '' @
      failure_text (''gh '' @ tool_command t fmt args) err)"
    by (rule sublist_order.order.trans [OF sublist_failure_text(1) sublist_append_leftI])
  with assms node_call_tool [of t args sh fmt w "Exited status out err" w'] show ?thesis
    by (simp add: mcp_message_simps del: tool_command.simps)
qed

theorem exit_status_decides_reply_witness:
  "call_tool (node_runtime (\<lambda>line tr. (Exited 1 [] ''no pull requests found'', tr @ [line])) (\<lambda>q. []))
       \<lparr>name = ''view_pr'', arguments = JObj [(''number'', JNum (Fin 7))]\<rparr> [] =
     (Inr (error_reply (''MCP error -32603: GitHub CLI error: Command failed: gh pr view 7'' @
             [CHR 0x0A] @ ''no pull requests found'')), [''gh pr view 7''])"
proof -
  let ?sh = "\<lambda>line tr. (Exited 1 [] ''no pull requests found'', tr @ [line])"
  let ?args = "JObj [(''number'', JNum (Fin 7))]"
  have v: "tool_valid ViewPr ?args"
    by (simp add: isValidViewPrArgs_def)
  have c: "tool_command ViewPr (\<lambda>q. []) ?args = ''pr view 7''"
    by (simp add: view_pr_command_def)
  from v exit_status_decides_reply [of ViewPr ?args ?sh "\<lambda>q. []" "[]" 1 "[]"
      "''no pull requests found''" "[''gh pr view 7'']"]
  show ?thesis
    by (simp add: c failure_text_def del: tool_command.simps)
qed

end
