(* ===== verification/Node_Session.thy ===== *)
theory Node_Session
  imports Node_Runtime Shell_Session
begin

text \<open>
  The whole program on the runtime of \<open>Node_Runtime\<close>: a started process of
  \<open>Server\<close> that receives requests while the \<^verbatim>\<open>gh\<close> client is whatever it is.
  The client is a parameter, a function from the lines run so far and the line
  to run to how the run ends; \<open>answer\<close> is what the specification promises
  for one request (the catalogue, the refusal of a malformed call, of an
  unknown tool and of invalid arguments, the reply for the exit status of the
  command), written over the validated arguments and with no state.  The
  lemmas say that the process sends the answers, request by request, and that
  all it carries from one request to the next is what the client remembers.
\<close>

section \<open>The client as the program sees it\<close>

text \<open>
  A run of the client: how it ends may depend on the line and on the lines run
  before (a pull request that was created can be viewed); the world is the
  list of the lines run.
\<close>

type_synonym gh_client = "string list \<Rightarrow> string \<Rightarrow> proc_end"

definition scripted :: "gh_client \<Rightarrow> string \<Rightarrow> string list \<Rightarrow> proc_end \<times> string list" where
  "scripted gh line tr = (gh tr line, tr @ [line])"

section \<open>The answer to one request\<close>

text \<open>
  The reply for a command that has ended, and the answer to a request, given
  how the client ends a run of a line.
\<close>

definition reply_of :: "string \<Rightarrow> proc_end \<Rightarrow> ToolReply" where
  "reply_of line e =
     (case e of
        proc_end.Exited status out err \<Rightarrow>
          if status = 0 then text_reply out
          else error_reply (''MCP error -32603: GitHub CLI error: '' @ failure_text line err)
      | NotStarted msg \<Rightarrow> error_reply (''MCP error -32603: GitHub CLI error: '' @ msg))"

fun answer :: "(string \<Rightarrow> proc_end) \<Rightarrow> numfmt \<Rightarrow> request \<Rightarrow> response" where
  "answer gh fmt ListToolsRequest = ToolsResult list_tools"
| "answer gh fmt (OtherRequest m) = NoHandler m"
| "answer gh fmt (CallToolRequest r) =
     (if \<not> CallToolRequestSchema r then SchemaError
      else case tool_of_name (name r) of
        None \<Rightarrow> Failure (McpError MethodNotFound (''Unknown tool: '' @ name r))
      | Some t \<Rightarrow>
          (case validate t (arguments r) of
             None \<Rightarrow> Failure (McpError InvalidParams (''Invalid '' @ name r @ '' arguments''))
           | Some a \<Rightarrow> CallResult (reply_of (gh_line fmt a) (gh (gh_line fmt a)))))"

text \<open>The lines run for a list of requests: one for each valid tool call.\<close>

definition lines_run :: "numfmt \<Rightarrow> request list \<Rightarrow> string list" where
  "lines_run fmt reqs = map (gh_line fmt) (List.map_filter request_args reqs)"

section \<open>One request\<close>

lemma lines_run_simps [simp]:
  "lines_run fmt [] = []"
  "lines_run fmt (req # reqs) =
     (case request_args req of None \<Rightarrow> [] | Some a \<Rightarrow> [gh_line fmt a]) @ lines_run fmt reqs"
  by (simp_all add: lines_run_def List.map_filter_simps split: option.splits)

lemma call_tool_named:
  assumes "tool_of_name (name r) = Some t"
  shows "call_tool rt r w =
     (if tool_valid t (arguments r)
      then run_command rt (tool_command t (numberToString rt) (arguments r)) w
      else (Inl (McpError InvalidParams (''Invalid '' @ name r @ '' arguments'')), w))"
proof -
  from assms have "r = \<lparr>name = tool_name t, arguments = arguments r\<rparr>"
    by simp
  then show ?thesis
    using call_tool_tool [of rt t "arguments r" w] assms by simp
qed

lemma node_run_valid:
  "run_command (node_runtime (scripted gh) fmt) c tr =
     (Inr (reply_of (''gh '' @ c) (gh tr (''gh '' @ c))), tr @ [''gh '' @ c])"
  using node_run_command [of "scripted gh" c tr "gh tr (''gh '' @ c)" "tr @ [''gh '' @ c]" fmt]
  by (simp add: scripted_def reply_of_def mcp_message_simps split: proc_end.splits)

lemma respond_node:
  "respond (node_runtime (scripted gh) fmt) req tr =
     (answer (gh tr) fmt req, tr @ lines_run fmt [req])"
proof (cases req)
  case (CallToolRequest r)
  show ?thesis
  proof (cases "tool_of_name (name r)")
    case None
    with CallToolRequest show ?thesis
      by (simp add: call_tool_no_tool)
  next
    case (Some t)
    show ?thesis
    proof (cases "validate t (arguments r)")
      case None
      with Some CallToolRequest show ?thesis
        by (auto simp: call_tool_named dest: validate_Some_valid split: option.splits)
    next
      case a: (Some a)
      with Some CallToolRequest show ?thesis
        by (simp add: call_tool_named validate_Some_valid validate_command node_run_valid
            gh_line_def del: tool_command.simps)
    qed
  qed
qed simp_all

section \<open>A session\<close>

lemma lines_run_append [simp]: "lines_run fmt (xs @ ys) = lines_run fmt xs @ lines_run fmt ys"
  by (induction xs) simp_all

lemma serve_node_world:
  "snd (serve (node_runtime (scripted gh) fmt) reqs tr) = tr @ lines_run fmt reqs"
proof (induction reqs arbitrary: tr)
  case (Cons req reqs)
  show ?case
    using Cons.IH [of "tr @ lines_run fmt [req]"]
    by (simp add: respond_node split_beta)
qed simp

lemma serve_node_nth:
  assumes "k < length reqs"
  shows "fst (serve (node_runtime (scripted gh) fmt) reqs tr) ! k =
           answer (gh (tr @ lines_run fmt (take k reqs))) fmt (reqs ! k)"
  using assms
proof (induction reqs arbitrary: tr k)
  case (Cons req reqs)
  show ?case
  proof (cases k)
    case 0
    then show ?thesis by (simp add: respond_node split_beta)
  next
    case (Suc j)
    with Cons.prems Cons.IH [of j "tr @ lines_run fmt [req]"] show ?thesis
      by (simp add: respond_node split_beta)
  qed
qed simp

lemma node_session:
  assumes "k < length reqs"
  shows "sent (exec (node_runtime (scripted gh) fmt) (Start Connects # map Receive reqs)
             (constructor [])) ! k =
           answer (gh (lines_run fmt (take k reqs))) fmt (reqs ! k)"
  using started_process [of "node_runtime (scripted gh) fmt" "[]"] assms
    serve_node_nth [OF assms, of gh fmt "[]"]
  by (simp add: exec_requests)

lemma node_session_world:
  "world (exec (node_runtime (scripted gh) fmt) (Start Connects # map Receive reqs)
       (constructor [])) = lines_run fmt reqs"
  using started_process [of "node_runtime (scripted gh) fmt" "[]"]
  by (simp add: exec_requests serve_node_world)

text \<open>
  With a client that does not remember, the response to a request is a
  function of the request: the program keeps nothing between requests.
\<close>

lemma stateless_session:
  "sent (exec (node_runtime (scripted (\<lambda>tr. gh)) fmt) (Start Connects # map Receive reqs)
       (constructor [])) = map (answer gh fmt) reqs"
proof (rule nth_equalityI)
  show "length (sent (exec (node_runtime (scripted (\<lambda>tr. gh)) fmt)
      (Start Connects # map Receive reqs) (constructor []))) = length (map (answer gh fmt) reqs)"
    using started_process [of "node_runtime (scripted (\<lambda>tr. gh)) fmt" "[]"]
    by (simp add: exec_requests)
next
  fix k
  assume "k < length (sent (exec (node_runtime (scripted (\<lambda>tr. gh)) fmt)
      (Start Connects # map Receive reqs) (constructor [])))"
  then have "k < length reqs"
    using started_process [of "node_runtime (scripted (\<lambda>tr. gh)) fmt" "[]"]
    by (simp add: exec_requests)
  then show "sent (exec (node_runtime (scripted (\<lambda>tr. gh)) fmt)
      (Start Connects # map Receive reqs) (constructor [])) ! k = map (answer gh fmt) reqs ! k"
    using node_session [of k reqs "\<lambda>tr. gh" fmt] by (simp del: exec_simps)
qed

section \<open>The session answers its requests\<close>

text \<open>
  Claim C18 (refinement).  A started process on the runtime of Node.js answers
  each request as the specification promises: the response to the request at
  position \<open>k\<close> is the \<open>answer\<close> to that request, in which the client is
  run after the lines of the valid tool calls among the earlier requests, and
  at the end the lines run are those of the valid tool calls, in order.  The
  program adds no state of its own: an earlier request bears on a later
  response only through what the client remembers.
\<close>

theorem session_answers_requests:
  assumes "k < length reqs"
  shows "sent (exec (node_runtime (scripted gh) fmt) (Start Connects # map Receive reqs)
             (constructor [])) ! k =
           answer (gh (lines_run fmt (take k reqs))) fmt (reqs ! k) \<and>
         world (exec (node_runtime (scripted gh) fmt) (Start Connects # map Receive reqs)
             (constructor [])) = lines_run fmt reqs"
  using node_session [OF assms] node_session_world by blast

theorem session_answers_requests_witness:
  "sent (exec (node_runtime (scripted (\<lambda>tr line. proc_end.Exited (length tr) [] ''busy'')) (\<lambda>q. []))
       (Start Connects # map Receive
          [CallToolRequest \<lparr>name = ''list_prs'', arguments = JObj []\<rparr>,
           CallToolRequest \<lparr>name = ''view_pr'', arguments = JObj [(''number'', JNum (Fin 7))]\<rparr>])
       (constructor [])) ! 1 =
     CallResult (error_reply (''MCP error -32603: GitHub CLI error: Command failed: gh pr view 7'' @
       [CHR 0x0A] @ ''busy''))"
proof -
  let ?reqs = "[CallToolRequest \<lparr>name = ''list_prs'', arguments = JObj []\<rparr>,
           CallToolRequest \<lparr>name = ''view_pr'', arguments = JObj [(''number'', JNum (Fin 7))]\<rparr>]"
  have args: "map request_args ?reqs =
      [Some (ListArgs \<lparr>ls_state = None, ls_base = None, ls_limit = None\<rparr>),
       Some (ViewArgs \<lparr>vw_number = 7\<rparr>)]"
    by (simp add: as_args_defs validator_defs)
  from session_answers_requests [of 1 ?reqs "\<lambda>tr line. proc_end.Exited (length tr) [] ''busy''" "\<lambda>q. []"]
  show ?thesis
    using args
    by (simp add: reply_of_def failure_text_def gh_line_def view_command_def list_command_def
        del: exec_simps)
qed

end
